theory Spec2Isabelle
  imports Complex_Main "HOL-Library.Finite_Map" "HOL-Library.AList"
begin

section \<open>JavaScript values\<close>

text \<open>
  The settings engine of EnsoAI works on untyped data: the persisted blob is whatever
  \<^verbatim>\<open>JSON.parse\<close> returned, and TypeScript's types are erased at run time. The
  migration is therefore modelled over JavaScript values, not over the declared types.

  A number is a finite value, \<^verbatim>\<open>NaN\<close> or an infinity. Finite doubles are embedded
  in the reals: the code only compares numbers and takes minima and maxima, which never
  round. Negative zero is identified with zero, as \<^verbatim>\<open>===\<close> does.
\<close>

datatype jsnum = NaN | NegInf | Fin real | PosInf

text \<open>
  An object is a finite map from property names to values. The order of the keys is not
  part of the model of a value: none of the migration's results depends on it.
\<close>

datatype jsval =
    JUndefined
  | JNull
  | JBool bool
  | JNum jsnum
  | JStr string
  | JArr "jsval list"
  | JObj "(string, jsval) fmap"

type_synonym obj = "(string, jsval) fmap"

datatype error = TypeError | SyntaxError | Rejected

subsection \<open>Numbers\<close>

definition isFinite :: "jsnum \<Rightarrow> bool" where
  "isFinite n = (case n of Fin r \<Rightarrow> True | _ \<Rightarrow> False)"

text \<open>The comparison \<^verbatim>\<open>a <= b\<close> and \<^verbatim>\<open>a < b\<close> of two numbers: false when either is NaN.\<close>

fun js_le :: "jsnum \<Rightarrow> jsnum \<Rightarrow> bool" where
  "js_le NaN b = False"
| "js_le a NaN = False"
| "js_le NegInf b = True"
| "js_le a PosInf = True"
| "js_le (Fin x) (Fin y) = (x \<le> y)"
| "js_le (Fin x) NegInf = False"
| "js_le PosInf b = False"

definition js_lt :: "jsnum \<Rightarrow> jsnum \<Rightarrow> bool" where
  "js_lt a b = (js_le a b \<and> a \<noteq> b)"

text \<open>\<^verbatim>\<open>Math.max\<close> and \<^verbatim>\<open>Math.min\<close> of two numbers: NaN when either argument is NaN.\<close>

definition Math_max :: "jsnum \<Rightarrow> jsnum \<Rightarrow> jsnum" where
  "Math_max a b = (if a = NaN \<or> b = NaN then NaN else if js_le a b then b else a)"

definition Math_min :: "jsnum \<Rightarrow> jsnum \<Rightarrow> jsnum" where
  "Math_min a b = (if a = NaN \<or> b = NaN then NaN else if js_le a b then a else b)"

subsection \<open>Truthiness, property reads, spread\<close>

definition truthy :: "jsval \<Rightarrow> bool" where
  "truthy v = (case v of
      JUndefined \<Rightarrow> False
    | JNull \<Rightarrow> False
    | JBool b \<Rightarrow> b
    | JNum n \<Rightarrow> n \<noteq> NaN \<and> n \<noteq> Fin 0
    | JStr s \<Rightarrow> s \<noteq> []
    | JArr xs \<Rightarrow> True
    | JObj m \<Rightarrow> True)"

definition nullish :: "jsval \<Rightarrow> bool" where
  "nullish v = (v = JUndefined \<or> v = JNull)"

text \<open>The decimal numeral of an array index, the property name under which an element is stored.\<close>

definition digit_char :: "nat \<Rightarrow> char" where
  "digit_char d = char_of (48 + d)"

function index_key :: "nat \<Rightarrow> string" where
  "index_key n = (if n < 10 then [digit_char n] else index_key (n div 10) @ [digit_char (n mod 10)])"
  by pat_completeness auto
termination
  by (relation "measure (\<lambda>n. n)") auto

declare index_key.simps [simp del]

text \<open>
  The own enumerable properties of a value, which is what a spread \<^verbatim>\<open>{...v}\<close> copies:
  the properties of an object, the elements of an array and the characters of a string
  under their indices, and nothing for \<^verbatim>\<open>undefined\<close>, \<^verbatim>\<open>null\<close>, a boolean or a number.
\<close>

definition ownProps :: "jsval \<Rightarrow> obj" where
  "ownProps v = (case v of
      JObj m \<Rightarrow> m
    | JArr xs \<Rightarrow> fmap_of_list (zip (map index_key [0..<length xs]) xs)
    | JStr s \<Rightarrow> fmap_of_list (zip (map index_key [0..<length s]) (map (\<lambda>c. JStr [c]) s))
    | _ \<Rightarrow> fmempty)"

text \<open>
  A property read \<^verbatim>\<open>v.k\<close> (or \<^verbatim>\<open>v[k]\<close>) on a value that is not \<^verbatim>\<open>undefined\<close> or
  \<^verbatim>\<open>null\<close>, and the optional read \<^verbatim>\<open>v?.k\<close> on any value: an own property, the
  \<^verbatim>\<open>length\<close> of a string or an array, and \<^verbatim>\<open>undefined\<close> otherwise. Members inherited
  from the built-in prototypes (methods such as \<^verbatim>\<open>toString\<close>) are not modelled. None
  of the fixed names the migration reads is such a member of an object or an array; of a
  string, \<^verbatim>\<open>split\<close> is one, which the legacy read \<^verbatim>\<open>terminalPaneKeybindings.split\<close>
  would find. The model therefore covers the persisted states whose legacy pane
  keybindings are not a string, and the agent ids that do not name an inherited member.
\<close>

definition getProp :: "jsval \<Rightarrow> string \<Rightarrow> jsval" where
  "getProp v k = (case fmlookup (ownProps v) k of
      Some x \<Rightarrow> x
    | None \<Rightarrow>
        (if k = ''length'' then
           (case v of
              JStr s \<Rightarrow> JNum (Fin (real (length s)))
            | JArr xs \<Rightarrow> JNum (Fin (real (length xs)))
            | _ \<Rightarrow> JUndefined)
         else JUndefined))"

text \<open>The plain read \<^verbatim>\<open>v.k\<close> on an arbitrary value throws a TypeError on \<^verbatim>\<open>undefined\<close> and \<^verbatim>\<open>null\<close>.\<close>

definition getMember :: "jsval \<Rightarrow> string \<Rightarrow> error + jsval" where
  "getMember v k = (if nullish v then Inl TypeError else Inr (getProp v k))"

section \<open>Sanitizer (migration.ts)\<close>

text \<open>
  \<^verbatim>\<open>Number(s)\<close> on a string is a built-in of the language: the functions below take
  it as the parameter \<open>toNumber\<close>.
\<close>

definition clampNumber :: "(string \<Rightarrow> jsnum) \<Rightarrow> jsval \<Rightarrow> jsnum \<Rightarrow> jsnum \<Rightarrow> jsval \<Rightarrow> jsval" where
  "clampNumber toNumber v lo hi fallback = (case v of
      JNum n \<Rightarrow> (if isFinite n then JNum (Math_min hi (Math_max lo n)) else fallback)
    | JStr s \<Rightarrow>
        (let parsed = toNumber s in
         if isFinite parsed then JNum (Math_min hi (Math_max lo parsed)) else fallback)
    | _ \<Rightarrow> fallback)"

definition sanitizeBoolean :: "jsval \<Rightarrow> jsval \<Rightarrow> jsval" where
  "sanitizeBoolean v fallback = (case v of JBool b \<Rightarrow> JBool b | _ \<Rightarrow> fallback)"

definition sanitizeString :: "jsval \<Rightarrow> jsval \<Rightarrow> jsval" where
  "sanitizeString v fallback = (case v of JStr s \<Rightarrow> JStr s | _ \<Rightarrow> fallback)"

text \<open>
  The finite number an input denotes for \<open>clampNumber\<close>, if any: a finite number
  itself, or a string that \<open>toNumber\<close> converts to a finite number.
\<close>

definition finiteValue :: "(string \<Rightarrow> jsnum) \<Rightarrow> jsval \<Rightarrow> real option" where
  "finiteValue toNumber v = (case v of
      JNum (Fin r) \<Rightarrow> Some r
    | JStr s \<Rightarrow> (case toNumber s of Fin r \<Rightarrow> Some r | _ \<Rightarrow> None)
    | _ \<Rightarrow> None)"

text \<open>
  A stand-in for \<^verbatim>\<open>Number\<close> that instantiates the parameter in closed examples. It
  agrees with \<^verbatim>\<open>Number\<close> on the strings the examples use: the empty string is 0,
  \<^verbatim>\<open>"5"\<close> is 5, \<^verbatim>\<open>"Infinity"\<close> is infinite and \<^verbatim>\<open>"abc"\<close> is NaN.
\<close>

definition exampleNumber :: "string \<Rightarrow> jsnum" where
  "exampleNumber s =
     (if s = [] then Fin 0
      else if s = ''5'' then Fin 5
      else if s = ''Infinity'' then PosInf
      else NaN)"


section \<open>Migrator (migration.ts)\<close>

text \<open>
  The operators of the language the migration uses: \<^verbatim>\<open>a || b\<close>, \<^verbatim>\<open>a && b\<close> and
  \<^verbatim>\<open>a ?? b\<close>. A read of a field of the current state, \<^verbatim>\<open>currentState.k\<close>, is
  \<open>field currentState k\<close>: the current state is the store's own state object.
\<close>

definition js_or :: "jsval \<Rightarrow> jsval \<Rightarrow> jsval" where
  "js_or a b = (if truthy a then a else b)"

definition js_and :: "jsval \<Rightarrow> jsval \<Rightarrow> jsval" where
  "js_and a b = (if truthy a then b else a)"

definition js_coalesce :: "jsval \<Rightarrow> jsval \<Rightarrow> jsval" where
  "js_coalesce a b = (if nullish a then b else a)"

definition field :: "obj \<Rightarrow> string \<Rightarrow> jsval" where
  "field m k = (case fmlookup m k of Some x \<Rightarrow> x | None \<Rightarrow> JUndefined)"

subsection \<open>Background image settings\<close>

definition sanitizedBackgroundOpacity :: "(string \<Rightarrow> jsnum) \<Rightarrow> jsval \<Rightarrow> obj \<Rightarrow> jsval" where
  "sanitizedBackgroundOpacity toNumber persisted currentState =
     clampNumber toNumber (getProp persisted ''backgroundOpacity'') (Fin 0) (Fin 1)
       (field currentState ''backgroundOpacity'')"

definition sanitizedBackgroundBlur :: "(string \<Rightarrow> jsnum) \<Rightarrow> jsval \<Rightarrow> obj \<Rightarrow> jsval" where
  "sanitizedBackgroundBlur toNumber persisted currentState =
     clampNumber toNumber (getProp persisted ''backgroundBlur'') (Fin 0) (Fin 20)
       (field currentState ''backgroundBlur'')"

definition sanitizedBackgroundBrightness :: "(string \<Rightarrow> jsnum) \<Rightarrow> jsval \<Rightarrow> obj \<Rightarrow> jsval" where
  "sanitizedBackgroundBrightness toNumber persisted currentState =
     clampNumber toNumber (getProp persisted ''backgroundBrightness'') (Fin 0) (Fin 2)
       (field currentState ''backgroundBrightness'')"

definition sanitizedBackgroundSaturation :: "(string \<Rightarrow> jsnum) \<Rightarrow> jsval \<Rightarrow> obj \<Rightarrow> jsval" where
  "sanitizedBackgroundSaturation toNumber persisted currentState =
     clampNumber toNumber (getProp persisted ''backgroundSaturation'') (Fin 0) (Fin 2)
       (field currentState ''backgroundSaturation'')"

definition sanitizedBackgroundImageEnabled :: "jsval \<Rightarrow> obj \<Rightarrow> jsval" where
  "sanitizedBackgroundImageEnabled persisted currentState =
     sanitizeBoolean (getProp persisted ''backgroundImageEnabled'')
       (field currentState ''backgroundImageEnabled'')"

definition sanitizedBackgroundImagePath :: "jsval \<Rightarrow> obj \<Rightarrow> jsval" where
  "sanitizedBackgroundImagePath persisted currentState =
     sanitizeString (getProp persisted ''backgroundImagePath'')
       (field currentState ''backgroundImagePath'')"

definition sanitizedBackgroundUrlPath :: "jsval \<Rightarrow> obj \<Rightarrow> jsval" where
  "sanitizedBackgroundUrlPath persisted currentState =
     sanitizeString (getProp persisted ''backgroundUrlPath'')
       (field currentState ''backgroundUrlPath'')"

definition sanitizedBackgroundFolderPath :: "jsval \<Rightarrow> obj \<Rightarrow> jsval" where
  "sanitizedBackgroundFolderPath persisted currentState =
     sanitizeString (getProp persisted ''backgroundFolderPath'')
       (field currentState ''backgroundFolderPath'')"

definition sourceTypes :: "jsval list" where
  "sourceTypes = [JStr ''file'', JStr ''folder'', JStr ''url'']"

definition sanitizedBackgroundSourceType :: "jsval \<Rightarrow> obj \<Rightarrow> jsval" where
  "sanitizedBackgroundSourceType persisted currentState =
     (if truthy (getProp persisted ''backgroundSourceType'')
         \<and> getProp persisted ''backgroundSourceType'' \<in> set sourceTypes
      then getProp persisted ''backgroundSourceType''
      else field currentState ''backgroundSourceType'')"

definition migratedBackgroundUrlPath :: "jsval \<Rightarrow> obj \<Rightarrow> jsval" where
  "migratedBackgroundUrlPath persisted currentState =
     js_or (sanitizedBackgroundUrlPath persisted currentState)
       (if sanitizedBackgroundSourceType persisted currentState = JStr ''url''
        then sanitizedBackgroundImagePath persisted currentState
        else JStr [])"

definition sanitizedBackgroundRandomEnabled :: "jsval \<Rightarrow> obj \<Rightarrow> jsval" where
  "sanitizedBackgroundRandomEnabled persisted currentState =
     sanitizeBoolean (getProp persisted ''backgroundRandomEnabled'')
       (field currentState ''backgroundRandomEnabled'')"

definition sanitizedBackgroundRandomInterval :: "(string \<Rightarrow> jsnum) \<Rightarrow> jsval \<Rightarrow> obj \<Rightarrow> jsval" where
  "sanitizedBackgroundRandomInterval toNumber persisted currentState =
     clampNumber toNumber (getProp persisted ''backgroundRandomInterval'') (Fin 5) (Fin 86400)
       (field currentState ''backgroundRandomInterval'')"

definition sizeModes :: "jsval list" where
  "sizeModes = [JStr ''cover'', JStr ''contain'', JStr ''repeat'', JStr ''center'']"

definition sanitizedBackgroundSizeMode :: "jsval \<Rightarrow> obj \<Rightarrow> jsval" where
  "sanitizedBackgroundSizeMode persisted currentState =
     (if truthy (getProp persisted ''backgroundSizeMode'')
         \<and> getProp persisted ''backgroundSizeMode'' \<in> set sizeModes
      then getProp persisted ''backgroundSizeMode''
      else field currentState ''backgroundSizeMode'')"

subsection \<open>Renderer and keybindings\<close>

definition terminalRenderer :: "jsval \<Rightarrow> jsval" where
  "terminalRenderer persisted =
     (if getProp persisted ''terminalRenderer'' = JStr ''canvas'' then JStr ''webgl''
      else getProp persisted ''terminalRenderer'')"

text \<open>The shallow merge \<^verbatim>\<open>{...currentState.k, ...persisted.k}\<close> of one domain record.\<close>

definition mergedDomain :: "jsval \<Rightarrow> obj \<Rightarrow> string \<Rightarrow> jsval" where
  "mergedDomain persisted currentState k =
     JObj (ownProps (field currentState k) ++\<^sub>f ownProps (getProp persisted k))"

text \<open>
  \<open>filterDefined\<close> receives an object literal, given by its entries (the keys of a
  literal are distinct), and keeps the entries whose value is not \<^verbatim>\<open>undefined\<close>.
\<close>

definition filterDefined :: "(string \<times> jsval) list \<Rightarrow> jsval" where
  "filterDefined entries = JObj (fmap_of_list (filter (\<lambda>(k, v). v \<noteq> JUndefined) entries))"

definition migrateXtermKeybindings :: "jsval \<Rightarrow> obj \<Rightarrow> jsval" where
  "migrateXtermKeybindings persisted currentState =
     (if truthy (getProp persisted ''xtermKeybindings'') then
        JObj (ownProps (field currentState ''xtermKeybindings'')
              ++\<^sub>f ownProps (getProp persisted ''xtermKeybindings''))
      else
        (let terminalKeybindings = getProp persisted ''terminalKeybindings'';
             agentKeybindings = getProp persisted ''agentKeybindings'';
             terminalPaneKeybindings = getProp persisted ''terminalPaneKeybindings''
         in JObj (ownProps (field currentState ''xtermKeybindings'')
              ++\<^sub>f ownProps (js_and terminalKeybindings
                    (filterDefined
                      [(''newTab'', getProp terminalKeybindings ''newTab''),
                       (''closeTab'', getProp terminalKeybindings ''closeTab''),
                       (''nextTab'', getProp terminalKeybindings ''nextTab''),
                       (''prevTab'', getProp terminalKeybindings ''prevTab''),
                       (''clear'', getProp terminalKeybindings ''clear'')]))
              ++\<^sub>f ownProps (js_and agentKeybindings
                    (filterDefined
                      [(''newTab'', getProp agentKeybindings ''newSession''),
                       (''closeTab'', getProp agentKeybindings ''closeSession''),
                       (''nextTab'', getProp agentKeybindings ''nextSession''),
                       (''prevTab'', getProp agentKeybindings ''prevSession'')]))
              ++\<^sub>f ownProps (js_and terminalPaneKeybindings
                    (filterDefined
                      [(''split'', getProp terminalPaneKeybindings ''split''),
                       (''merge'', getProp terminalPaneKeybindings ''merge'')])))))"

subsection \<open>Claude Code integration\<close>

text \<open>
  The read \<^verbatim>\<open>currentState.claudeCodeIntegration.statusLineFields\<close> is the one place of
  this function that can throw: when the current state has no integration record.
\<close>

definition migrateClaudeCodeIntegration :: "jsval \<Rightarrow> obj \<Rightarrow> error + jsval" where
  "migrateClaudeCodeIntegration persisted currentState =
     (case getMember (field currentState ''claudeCodeIntegration'') ''statusLineFields'' of
        Inl e \<Rightarrow> Inl e
      | Inr currentFields \<Rightarrow>
          (let persistedIntegration = getProp persisted ''claudeCodeIntegration'';
               merged =
                 fmupd ''statusLineFields''
                   (JObj (ownProps currentFields
                          ++\<^sub>f ownProps (getProp persistedIntegration ''statusLineFields'')))
                   (ownProps (field currentState ''claudeCodeIntegration'')
                    ++\<^sub>f ownProps persistedIntegration);
               legacyAutoPopup = getProp persistedIntegration ''enhancedInputAutoPopup'';
               merged1 =
                 (case legacyAutoPopup of
                    JBool b \<Rightarrow>
                      fmupd ''enhancedInputAutoPopup''
                        (JStr (if b then ''hideWhileRunning'' else ''manual'')) merged
                  | _ \<Rightarrow> merged);
               merged2 =
                 (if field merged1 ''enhancedInputAutoPopup'' = JStr ''hideWhileRunning''
                     \<and> \<not> truthy (field merged1 ''stopHookEnabled'')
                  then fmupd ''enhancedInputAutoPopup'' (JStr ''always'') merged1
                  else merged1)
           in Inr (JObj merged2)))"

subsection \<open>Agent detection status\<close>

text \<open>
  The configuration the filter consults for one agent id:
  \<^verbatim>\<open>persisted.agentSettings?.[agentId] ?? currentState.agentSettings[agentId]\<close>. The
  right operand is evaluated only when the left one is nullish, and throws when the
  current state has no agent settings.
\<close>

definition agentConfig :: "jsval \<Rightarrow> obj \<Rightarrow> string \<Rightarrow> error + jsval" where
  "agentConfig persisted currentState agentId =
     (let persistedConfig = getProp (getProp persisted ''agentSettings'') agentId in
      if nullish persistedConfig
      then getMember (field currentState ''agentSettings'') agentId
      else Inr persistedConfig)"

definition agentKept :: "jsval \<Rightarrow> obj \<Rightarrow> string \<Rightarrow> bool" where
  "agentKept persisted currentState agentId =
     (case agentConfig persisted currentState agentId of
        Inl e \<Rightarrow> False
      | Inr config \<Rightarrow> truthy (getProp config ''enabled''))"

definition migratedAgentDetectionStatus :: "jsval \<Rightarrow> obj \<Rightarrow> error + jsval" where
  "migratedAgentDetectionStatus persisted currentState =
     (let entries = ownProps (field currentState ''agentDetectionStatus'')
                    ++\<^sub>f ownProps (getProp persisted ''agentDetectionStatus'')
      in if fBall (fmdom entries) (\<lambda>agentId. agentConfig persisted currentState agentId \<noteq> Inl TypeError)
         then Inr (JObj (fmfilter (agentKept persisted currentState) entries))
         else Inl TypeError)"

subsection \<open>The merge\<close>

text \<open>
  The fields the returned object literal sets after the two spreads
  \<^verbatim>\<open>...currentState, ...persisted\<close> and the conditional \<^verbatim>\<open>terminalRenderer\<close>.
\<close>

definition overrides :: "(string \<Rightarrow> jsnum) \<Rightarrow> jsval \<Rightarrow> obj \<Rightarrow> jsval \<Rightarrow> jsval \<Rightarrow> (string \<times> jsval) list" where
  "overrides toNumber persisted currentState migratedClaudeCodeIntegration agentDetectionStatus =
     [(''xtermKeybindings'', migrateXtermKeybindings persisted currentState),
      (''mainTabKeybindings'', mergedDomain persisted currentState ''mainTabKeybindings''),
      (''sourceControlKeybindings'', mergedDomain persisted currentState ''sourceControlKeybindings''),
      (''searchKeybindings'', mergedDomain persisted currentState ''searchKeybindings''),
      (''globalKeybindings'', mergedDomain persisted currentState ''globalKeybindings''),
      (''workspaceKeybindings'', mergedDomain persisted currentState ''workspaceKeybindings''),
      (''backgroundImageEnabled'', sanitizedBackgroundImageEnabled persisted currentState),
      (''backgroundImagePath'', sanitizedBackgroundImagePath persisted currentState),
      (''backgroundUrlPath'', migratedBackgroundUrlPath persisted currentState),
      (''backgroundFolderPath'', sanitizedBackgroundFolderPath persisted currentState),
      (''backgroundSourceType'', sanitizedBackgroundSourceType persisted currentState),
      (''backgroundRandomEnabled'', sanitizedBackgroundRandomEnabled persisted currentState),
      (''backgroundRandomInterval'', sanitizedBackgroundRandomInterval toNumber persisted currentState),
      (''backgroundOpacity'', sanitizedBackgroundOpacity toNumber persisted currentState),
      (''backgroundBlur'', sanitizedBackgroundBlur toNumber persisted currentState),
      (''backgroundBrightness'', sanitizedBackgroundBrightness toNumber persisted currentState),
      (''backgroundSaturation'', sanitizedBackgroundSaturation toNumber persisted currentState),
      (''backgroundSizeMode'', sanitizedBackgroundSizeMode persisted currentState),
      (''editorSettings'', mergedDomain persisted currentState ''editorSettings''),
      (''claudeCodeIntegration'', migratedClaudeCodeIntegration),
      (''commitMessageGenerator'', mergedDomain persisted currentState ''commitMessageGenerator''),
      (''codeReview'', mergedDomain persisted currentState ''codeReview''),
      (''branchNameGenerator'', mergedDomain persisted currentState ''branchNameGenerator''),
      (''hapiSettings'', mergedDomain persisted currentState ''hapiSettings''),
      (''agentDetectionStatus'', agentDetectionStatus),
      (''mcpServers'',
         js_coalesce (getProp persisted ''mcpServers'') (field currentState ''mcpServers'')),
      (''promptPresets'',
         js_coalesce (getProp persisted ''promptPresets'') (field currentState ''promptPresets'')),
      (''quickTerminal'', mergedDomain persisted currentState ''quickTerminal'')]"

text \<open>
  The object literal \<open>migrateSettings\<close> returns: the current state, overwritten by the
  own properties of the persisted value, by \<^verbatim>\<open>terminalRenderer\<close> when the migrated
  renderer is truthy, and by the fields of \<open>overrides\<close>.
\<close>

definition mergedState :: "(string \<Rightarrow> jsnum) \<Rightarrow> jsval \<Rightarrow> obj \<Rightarrow> jsval \<Rightarrow> jsval \<Rightarrow> obj" where
  "mergedState toNumber persisted currentState migratedClaudeCodeIntegration agentDetectionStatus =
     currentState
     ++\<^sub>f ownProps persisted
     ++\<^sub>f ownProps (js_and (terminalRenderer persisted)
           (JObj (fmap_of_list [(''terminalRenderer'', terminalRenderer persisted)])))
     ++\<^sub>f fmap_of_list
           (overrides toNumber persisted currentState
              migratedClaudeCodeIntegration agentDetectionStatus)"

text \<open>
  \<open>migrateSettings\<close>. An absent (falsy) persisted state returns the current state
  itself; otherwise the two migrations that can throw run first and the literal is
  returned.
\<close>

definition migrateSettings :: "(string \<Rightarrow> jsnum) \<Rightarrow> jsval \<Rightarrow> obj \<Rightarrow> error + obj" where
  "migrateSettings toNumber persistedState currentState =
     (if \<not> truthy persistedState then Inr currentState
      else
        (case migrateClaudeCodeIntegration persistedState currentState of
           Inl e \<Rightarrow> Inl e
         | Inr migratedClaudeCodeIntegration \<Rightarrow>
             (case migratedAgentDetectionStatus persistedState currentState of
                Inl e \<Rightarrow> Inl e
              | Inr agentDetectionStatus \<Rightarrow>
                  Inr (mergedState toNumber persistedState currentState
                         migratedClaudeCodeIntegration agentDetectionStatus))))"


section \<open>Default table (defaults.ts) and the initial state (index.ts)\<close>

text \<open>
  An object literal is written by its entries. A keybinding literal such as
  \<^verbatim>\<open>{ key: 't', meta: true }\<close> holds exactly the fields it names.
\<close>

definition object :: "(string \<times> jsval) list \<Rightarrow> jsval" where
  "object entries = JObj (fmap_of_list entries)"

definition num :: "real \<Rightarrow> jsval" where
  "num r = JNum (Fin r)"

text \<open>
  What the initial state takes from outside the settings engine: the locale
  \<open>getDefaultLocale\<close> reads from the browser, the platform test of
  \<open>getDefaultShellConfig\<close>, and the text constants of the default table that are
  written in Chinese (three prompt templates and the review language), which are not
  ASCII and whose content plays no part in the migration.
\<close>

record environment =
  defaultLocale :: string
  platformIsWin32 :: bool
  defaultCommitPromptZh :: string
  defaultCodeReviewPromptZh :: string
  defaultBranchNamePrompt :: string
  defaultReviewLanguage :: string

definition defaultStatusLineFieldSettings :: jsval where
  "defaultStatusLineFieldSettings = object
     [(''model'', JBool True), (''context'', JBool True), (''cost'', JBool True),
      (''duration'', JBool False), (''lines'', JBool False), (''tokens'', JBool False),
      (''cache'', JBool False), (''apiTime'', JBool False), (''currentDir'', JBool False),
      (''projectDir'', JBool False), (''version'', JBool False)]"

definition defaultClaudeCodeIntegrationSettings :: jsval where
  "defaultClaudeCodeIntegrationSettings = object
     [(''enabled'', JBool True),
      (''selectionChangedDebounce'', num 300),
      (''atMentionedKeybinding'',
         object [(''key'', JStr ''m''), (''meta'', JBool True), (''shift'', JBool True)]),
      (''stopHookEnabled'', JBool True),
      (''permissionRequestHookEnabled'', JBool True),
      (''statusLineEnabled'', JBool False),
      (''statusLineFields'', defaultStatusLineFieldSettings),
      (''tmuxEnabled'', JBool False),
      (''showProviderSwitcher'', JBool True),
      (''enableProviderDisableFeature'', JBool False),
      (''providers'', JArr []),
      (''enhancedInputEnabled'', JBool False),
      (''enhancedInputAutoPopup'', JStr ''hideWhileRunning'')]"

definition defaultCommitMessageGeneratorSettings :: "environment \<Rightarrow> jsval" where
  "defaultCommitMessageGeneratorSettings env = object
     [(''enabled'', JBool True),
      (''maxDiffLines'', num 1000),
      (''timeout'', num 120),
      (''provider'', JStr ''claude-code''),
      (''model'', JStr ''haiku''),
      (''prompt'', JStr (defaultCommitPromptZh env))]"

definition defaultBranchNameGeneratorSettings :: "environment \<Rightarrow> jsval" where
  "defaultBranchNameGeneratorSettings env = object
     [(''enabled'', JBool False),
      (''provider'', JStr ''claude-code''),
      (''model'', JStr ''haiku''),
      (''prompt'', JStr (defaultBranchNamePrompt env))]"

definition defaultCodeReviewSettings :: "environment \<Rightarrow> jsval" where
  "defaultCodeReviewSettings env = object
     [(''enabled'', JBool True),
      (''provider'', JStr ''claude-code''),
      (''model'', JStr ''haiku''),
      (''language'', JStr (defaultReviewLanguage env)),
      (''prompt'', JStr (defaultCodeReviewPromptZh env))]"

definition defaultHapiSettings :: jsval where
  "defaultHapiSettings = object
     [(''enabled'', JBool False),
      (''webappPort'', num 3006),
      (''cliApiToken'', JStr []),
      (''telegramBotToken'', JStr []),
      (''webappUrl'', JStr []),
      (''allowedChatIds'', JStr []),
      (''cfEnabled'', JBool False),
      (''tunnelMode'', JStr ''quick''),
      (''tunnelToken'', JStr []),
      (''useHttp2'', JBool True),
      (''runnerEnabled'', JBool False),
      (''happyEnabled'', JBool False)]"

definition defaultProxySettings :: jsval where
  "defaultProxySettings = object
     [(''enabled'', JBool False),
      (''server'', JStr []),
      (''bypassList'', JStr ''localhost,127.0.0.1'')]"

definition defaultEditorSettings :: jsval where
  "defaultEditorSettings = object
     [(''minimapEnabled'', JBool False),
      (''lineNumbers'', JStr ''on''),
      (''wordWrap'', JStr ''on''),
      (''renderWhitespace'', JStr ''selection''),
      (''renderLineHighlight'', JStr ''line''),
      (''folding'', JBool True),
      (''links'', JBool True),
      (''smoothScrolling'', JBool True),
      (''fontSize'', num 13),
      (''fontFamily'', JStr ''JetBrains Mono, Menlo, Monaco, Consolas, monospace''),
      (''lineHeight'', num 20),
      (''fontLigatures'', JBool True),
      (''paddingTop'', num 12),
      (''paddingBottom'', num 12),
      (''tabSize'', num 2),
      (''insertSpaces'', JBool True),
      (''cursorStyle'', JStr ''line''),
      (''cursorBlinking'', JStr ''smooth''),
      (''bracketPairColorization'', JBool True),
      (''matchBrackets'', JStr ''always''),
      (''bracketPairGuides'', JBool True),
      (''indentationGuides'', JBool True),
      (''autoClosingBrackets'', JStr ''languageDefined''),
      (''autoClosingQuotes'', JStr ''languageDefined''),
      (''autoSave'', JStr ''off''),
      (''autoSaveDelay'', num 1000)]"

definition defaultXtermKeybindings :: jsval where
  "defaultXtermKeybindings = object
     [(''newTab'', object [(''key'', JStr ''t''), (''meta'', JBool True)]),
      (''closeTab'', object [(''key'', JStr ''w''), (''meta'', JBool True)]),
      (''nextTab'', object [(''key'', JStr '']''), (''meta'', JBool True)]),
      (''prevTab'', object [(''key'', JStr ''[''), (''meta'', JBool True)]),
      (''split'', object [(''key'', JStr ''d''), (''meta'', JBool True)]),
      (''merge'', object [(''key'', JStr ''d''), (''meta'', JBool True), (''shift'', JBool True)]),
      (''clear'', object [(''key'', JStr ''r''), (''meta'', JBool True)])]"

definition defaultMainTabKeybindings :: jsval where
  "defaultMainTabKeybindings = object
     [(''switchToAgent'', object [(''key'', JStr ''1''), (''ctrl'', JBool True)]),
      (''switchToFile'', object [(''key'', JStr ''2''), (''ctrl'', JBool True)]),
      (''switchToTerminal'', object [(''key'', JStr ''3''), (''ctrl'', JBool True)]),
      (''switchToSourceControl'', object [(''key'', JStr ''4''), (''ctrl'', JBool True)])]"

definition defaultSourceControlKeybindings :: jsval where
  "defaultSourceControlKeybindings = object
     [(''prevDiff'', object [(''key'', JStr ''F7'')]),
      (''nextDiff'', object [(''key'', JStr ''F8'')])]"

definition defaultSearchKeybindings :: jsval where
  "defaultSearchKeybindings = object
     [(''searchFiles'', object [(''key'', JStr ''p''), (''meta'', JBool True)]),
      (''searchContent'', object [(''key'', JStr ''f''), (''meta'', JBool True), (''shift'', JBool True)])]"

definition defaultGlobalKeybindings :: jsval where
  "defaultGlobalKeybindings = object
     [(''runningProjects'', object [(''key'', JStr ''l''), (''meta'', JBool True)])]"

definition defaultWorkspaceKeybindings :: jsval where
  "defaultWorkspaceKeybindings = object
     [(''toggleWorktree'', object [(''key'', JStr ''w''), (''meta'', JBool True), (''shift'', JBool True)]),
      (''toggleRepository'', object [(''key'', JStr ''r''), (''meta'', JBool True), (''shift'', JBool True)]),
      (''switchActiveWorktree'', object [(''key'', JStr ''CapsLock''), (''ctrl'', JBool True)])]"

definition agentEntry :: "bool \<Rightarrow> bool \<Rightarrow> jsval" where
  "agentEntry en dflt = object [(''enabled'', JBool en), (''isDefault'', JBool dflt)]"

text \<open>The table \<open>defaultAgentSettings\<close>: per built-in agent id, \<open>enabled\<close> and \<open>isDefault\<close>.\<close>

definition builtinAgents :: "(string \<times> bool \<times> bool) list" where
  "builtinAgents =
     [(''claude'', True, True),
      (''codex'', False, False),
      (''droid'', False, False),
      (''gemini'', False, False),
      (''auggie'', False, False),
      (''cursor'', False, False),
      (''opencode'', False, False)]"

definition defaultAgentSettings :: jsval where
  "defaultAgentSettings = object (map (\<lambda>(agentId, en, dflt). (agentId, agentEntry en dflt)) builtinAgents)"

definition defaultQuickTerminalSettings :: jsval where
  "defaultQuickTerminalSettings = object
     [(''enabled'', JBool True),
      (''buttonPosition'', JNull),
      (''modalPosition'', JNull),
      (''modalSize'', JNull),
      (''isOpen'', JBool False)]"

definition getDefaultShellConfig :: "environment \<Rightarrow> jsval" where
  "getDefaultShellConfig env = object
     [(''shellType'', JStr (if platformIsWin32 env then ''powershell'' else ''system''))]"

text \<open>
  \<open>getInitialState\<close>: the data fields of the store. The store's state also holds its
  setter functions; a spread carries them like any other field, and the migration never
  reads them.
\<close>

definition initialEntries :: "environment \<Rightarrow> (string \<times> jsval) list" where
  "initialEntries env =
     [(''theme'', JStr ''system''),
      (''layoutMode'', JStr ''tree''),
      (''fileTreeDisplayMode'', JStr ''legacy''),
      (''language'', JStr (defaultLocale env)),
      (''fontSize'', num 14),
      (''fontFamily'', JStr ''Inter''),
      (''terminalFontSize'', num 18),
      (''terminalFontFamily'', JStr ''ui-monospace, SF Mono, Menlo, Monaco, Consolas, monospace''),
      (''terminalFontWeight'', JStr ''normal''),
      (''terminalFontWeightBold'', JStr ''500''),
      (''terminalTheme'', JStr ''Dracula''),
      (''terminalRenderer'', JStr ''dom''),
      (''terminalScrollback'', num 10000),
      (''terminalOptionIsMeta'', JBool True),
      (''copyOnSelection'', JBool False),
      (''xtermKeybindings'', defaultXtermKeybindings),
      (''mainTabKeybindings'', defaultMainTabKeybindings),
      (''sourceControlKeybindings'', defaultSourceControlKeybindings),
      (''searchKeybindings'', defaultSearchKeybindings),
      (''globalKeybindings'', defaultGlobalKeybindings),
      (''workspaceKeybindings'', defaultWorkspaceKeybindings),
      (''editorSettings'', defaultEditorSettings),
      (''agentSettings'', defaultAgentSettings),
      (''agentDetectionStatus'', object []),
      (''customAgents'', JArr []),
      (''shellConfig'', getDefaultShellConfig env),
      (''agentNotificationEnabled'', JBool True),
      (''agentNotificationDelay'', num 5),
      (''agentNotificationEnterDelay'', num 5),
      (''claudeCodeIntegration'', defaultClaudeCodeIntegrationSettings),
      (''commitMessageGenerator'', defaultCommitMessageGeneratorSettings env),
      (''codeReview'', defaultCodeReviewSettings env),
      (''branchNameGenerator'', defaultBranchNameGeneratorSettings env),
      (''autoUpdateEnabled'', JBool True),
      (''hapiSettings'', defaultHapiSettings),
      (''defaultWorktreePath'', JStr []),
      (''proxySettings'', defaultProxySettings),
      (''autoCreateSessionOnActivate'', JBool False),
      (''glowEffectEnabled'', JBool False),
      (''temporaryWorkspaceEnabled'', JBool False),
      (''defaultTemporaryPath'', JStr []),
      (''autoCreateSessionOnTempActivate'', JBool False),
      (''backgroundImageEnabled'', JBool False),
      (''backgroundImagePath'', JStr []),
      (''backgroundUrlPath'', JStr []),
      (''backgroundFolderPath'', JStr []),
      (''backgroundSourceType'', JStr ''file''),
      (''backgroundRandomEnabled'', JBool False),
      (''backgroundRandomInterval'', num 300),
      (''backgroundOpacity'', num 0.85),
      (''backgroundBlur'', num 0),
      (''backgroundBrightness'', num 1),
      (''backgroundSaturation'', num 1),
      (''backgroundSizeMode'', JStr ''cover''),
      (''_backgroundRefreshKey'', num 0),
      (''mcpServers'', JArr []),
      (''promptPresets'', JArr []),
      (''settingsDisplayMode'', JStr ''tab''),
      (''settingsModalPosition'', JNull),
      (''favoriteTerminalThemes'', JArr []),
      (''quickTerminal'', defaultQuickTerminalSettings),
      (''webInspectorEnabled'', JBool False),
      (''hideGroups'', JBool False),
      (''loggingEnabled'', JBool False),
      (''logLevel'', JStr ''info''),
      (''logRetentionDays'', num 7)]"

definition getInitialState :: "environment \<Rightarrow> obj" where
  "getInitialState env = fmap_of_list (initialEntries env)"

text \<open>An environment for closed examples: an English browser on a platform other than Windows.\<close>

definition exampleEnvironment :: environment where
  "exampleEnvironment =
     \<lparr>defaultLocale = ''en'', platformIsWin32 = False,
      defaultCommitPromptZh = ''commit prompt'',
      defaultCodeReviewPromptZh = ''review prompt'',
      defaultBranchNamePrompt = ''branch prompt'',
      defaultReviewLanguage = ''zh''\<rparr>"


section \<open>Store facade (index.ts)\<close>

text \<open>
  The setters are called by the application with arguments checked by TypeScript, so the
  part of the store they work on is modelled with its declared types. An agent record
  has the fields of \<open>AgentConfig\<close>; each may be missing at run time, because
  \<open>setAgentEnabled\<close> and \<open>setAgentCustomConfig\<close> on an unknown id build a record
  from \<^verbatim>\<open>{...undefined}\<close>. The agent settings are an object keyed by agent id whose key
  order \<open>removeCustomAgent\<close> observes: they are a list of entries in insertion order.
  An object lists the keys that are array indices (such as \<^verbatim>\<open>"7"\<close>) before all others,
  so the order of the model is that of the code for agent ids that are not array indices
  (none of the built-in ids is one).
\<close>

record AgentConfig =
  enabled :: "bool option"
  isDefault :: "bool option"
  customPath :: "string option"
  customArgs :: "string option"

type_synonym AgentSettings = "(string \<times> AgentConfig) list"

text \<open>A custom agent: its \<open>id\<close> and its other fields. An update may replace any of them.\<close>

type_synonym CustomAgent = "string \<times> obj"

type_synonym CustomAgentUpdate = "string option \<times> obj"

record settingsStore =
  agentSettings :: AgentSettings
  customAgents :: "CustomAgent list"
  backgroundRandomInterval :: jsnum
  backgroundOpacity :: jsnum
  backgroundBlur :: jsnum
  backgroundBrightness :: jsnum
  backgroundSaturation :: jsnum

definition initialStore :: settingsStore where
  "initialStore =
     \<lparr>agentSettings =
        map (\<lambda>(agentId, en, dflt).
               (agentId, \<lparr>enabled = Some en, isDefault = Some dflt,
                          customPath = None, customArgs = None\<rparr>)) builtinAgents,
      customAgents = [],
      backgroundRandomInterval = Fin 300,
      backgroundOpacity = Fin 0.85,
      backgroundBlur = Fin 0,
      backgroundBrightness = Fin 1,
      backgroundSaturation = Fin 1\<rparr>"

subsection \<open>Agent setters\<close>

text \<open>The spread \<^verbatim>\<open>{...current[agentId]}\<close> of an entry that may be missing.\<close>

definition spreadConfig :: "AgentConfig option \<Rightarrow> AgentConfig" where
  "spreadConfig c = (case c of
      None \<Rightarrow> \<lparr>enabled = None, isDefault = None, customPath = None, customArgs = None\<rparr>
    | Some cfg \<Rightarrow> cfg)"

definition setAgentEnabled :: "string \<Rightarrow> bool \<Rightarrow> settingsStore \<Rightarrow> settingsStore" where
  "setAgentEnabled agentId en s =
     (let current = agentSettings s in
      s\<lparr>agentSettings :=
          AList.update agentId ((spreadConfig (map_of current agentId))\<lparr>enabled := Some en\<rparr>) current\<rparr>)"

definition setAgentDefault :: "string \<Rightarrow> settingsStore \<Rightarrow> settingsStore" where
  "setAgentDefault agentId s =
     (let current = agentSettings s;
          updated = map (\<lambda>(agentKey, cfg). (agentKey, cfg\<lparr>isDefault := Some (agentKey = agentId)\<rparr>)) current
      in s\<lparr>agentSettings := updated\<rparr>)"

text \<open>\<^verbatim>\<open>config.customPath || undefined\<close>: a missing or empty string is \<^verbatim>\<open>undefined\<close>.\<close>

definition orUndefined :: "string option \<Rightarrow> string option" where
  "orUndefined v = (case v of None \<Rightarrow> None | Some s \<Rightarrow> (if s = [] then None else Some s))"

definition setAgentCustomConfig ::
    "string \<Rightarrow> string option \<Rightarrow> string option \<Rightarrow> settingsStore \<Rightarrow> settingsStore" where
  "setAgentCustomConfig agentId configPath configArgs s =
     (let current = agentSettings s in
      s\<lparr>agentSettings :=
          AList.update agentId
            ((spreadConfig (map_of current agentId))
               \<lparr>customPath := orUndefined configPath, customArgs := orUndefined configArgs\<rparr>)
            current\<rparr>)"

definition addCustomAgent :: "CustomAgent \<Rightarrow> settingsStore \<Rightarrow> settingsStore" where
  "addCustomAgent agent s =
     s\<lparr>customAgents := customAgents s @ [agent],
       agentSettings :=
         AList.update (fst agent)
           \<lparr>enabled = Some True, isDefault = Some False, customPath = None, customArgs = None\<rparr>
           (agentSettings s)\<rparr>"

definition updateCustomAgent :: "string \<Rightarrow> CustomAgentUpdate \<Rightarrow> settingsStore \<Rightarrow> settingsStore" where
  "updateCustomAgent agentId updates s =
     s\<lparr>customAgents :=
         map (\<lambda>a. if fst a = agentId
                   then ((case fst updates of None \<Rightarrow> fst a | Some newId \<Rightarrow> newId),
                         snd a ++\<^sub>f snd updates)
                   else a)
             (customAgents s)\<rparr>"

definition removeCustomAgent :: "string \<Rightarrow> settingsStore \<Rightarrow> settingsStore" where
  "removeCustomAgent agentId s =
     (let wasDefault =
            (case map_of (agentSettings s) agentId of
               None \<Rightarrow> False
             | Some cfg \<Rightarrow> isDefault cfg = Some True);
          newAgentSettings = AList.delete agentId (agentSettings s);
          promoted =
            (if wasDefault then
               (case find (\<lambda>(agentKey, cfg). enabled cfg = Some True) newAgentSettings of
                  None \<Rightarrow> newAgentSettings
                | Some (firstKey, firstCfg) \<Rightarrow>
                    AList.update firstKey (firstCfg\<lparr>isDefault := Some True\<rparr>) newAgentSettings)
             else newAgentSettings)
      in s\<lparr>customAgents := filter (\<lambda>a. fst a \<noteq> agentId) (customAgents s),
           agentSettings := promoted\<rparr>)"

text \<open>The agent mutations as data, and a run of them from the initial store.\<close>

datatype mutation =
    SetAgentDefault string
  | SetAgentEnabled string bool
  | SetAgentCustomConfig string "string option" "string option"
  | AddCustomAgent CustomAgent
  | UpdateCustomAgent string CustomAgentUpdate
  | RemoveCustomAgent string

fun applyMutation :: "mutation \<Rightarrow> settingsStore \<Rightarrow> settingsStore" where
  "applyMutation (SetAgentDefault agentId) s = setAgentDefault agentId s"
| "applyMutation (SetAgentEnabled agentId en) s = setAgentEnabled agentId en s"
| "applyMutation (SetAgentCustomConfig agentId p a) s = setAgentCustomConfig agentId p a s"
| "applyMutation (AddCustomAgent agent) s = addCustomAgent agent s"
| "applyMutation (UpdateCustomAgent agentId updates) s = updateCustomAgent agentId updates s"
| "applyMutation (RemoveCustomAgent agentId) s = removeCustomAgent agentId s"

definition runMutations :: "mutation list \<Rightarrow> settingsStore \<Rightarrow> settingsStore" where
  "runMutations ms s = foldl (\<lambda>st m. applyMutation m st) s ms"

text \<open>The agent ids whose record is the default, and those that are default and enabled.\<close>

definition defaultAgents :: "AgentSettings \<Rightarrow> string list" where
  "defaultAgents settings = map fst (filter (\<lambda>(agentKey, cfg). isDefault cfg = Some True) settings)"

definition enabledDefaultAgents :: "AgentSettings \<Rightarrow> string list" where
  "enabledDefaultAgents settings =
     map fst (filter (\<lambda>(agentKey, cfg). isDefault cfg = Some True \<and> enabled cfg = Some True) settings)"

text \<open>The agent ids a mutation promoted: default afterwards, and not default before.\<close>

definition promotedAgents :: "AgentSettings \<Rightarrow> AgentSettings \<Rightarrow> string list" where
  "promotedAgents before after =
     filter (\<lambda>agentKey. agentKey \<notin> set (defaultAgents before)) (defaultAgents after)"

text \<open>
  The invariant the agent mutations keep: the ids are distinct (the settings are an
  object) and at most one id has a default record.
\<close>

definition isDefaultAt :: "AgentSettings \<Rightarrow> string \<Rightarrow> bool" where
  "isDefaultAt settings k = (\<exists>c. map_of settings k = Some c \<and> isDefault c = Some True)"

definition uniqueDefault :: "AgentSettings \<Rightarrow> bool" where
  "uniqueDefault settings =
     (distinct (map fst settings)
      \<and> (\<forall>k1 k2. isDefaultAt settings k1 \<and> isDefaultAt settings k2 \<longrightarrow> k1 = k2))"

text \<open>The enabled agent ids.\<close>

definition enabledAgents :: "AgentSettings \<Rightarrow> string list" where
  "enabledAgents settings = map fst (filter (\<lambda>(agentKey, cfg). enabled cfg = Some True) settings)"

subsection \<open>Background setters\<close>

definition setBackgroundRandomInterval :: "jsnum \<Rightarrow> settingsStore \<Rightarrow> settingsStore" where
  "setBackgroundRandomInterval v s =
     (let safeValue = (if isFinite v then Math_max (Fin 5) (Math_min (Fin 86400) v) else Fin 300)
      in s\<lparr>backgroundRandomInterval := safeValue\<rparr>)"

definition setBackgroundOpacity :: "jsnum \<Rightarrow> settingsStore \<Rightarrow> settingsStore" where
  "setBackgroundOpacity v s =
     (let safeValue = (if isFinite v then v else backgroundOpacity s);
          clamped = Math_min (Fin 1) (Math_max (Fin 0) safeValue)
      in s\<lparr>backgroundOpacity := clamped\<rparr>)"

definition setBackgroundBlur :: "jsnum \<Rightarrow> settingsStore \<Rightarrow> settingsStore" where
  "setBackgroundBlur v s =
     (let safeValue = (if isFinite v then v else backgroundBlur s);
          clamped = Math_min (Fin 20) (Math_max (Fin 0) safeValue)
      in s\<lparr>backgroundBlur := clamped\<rparr>)"

definition setBackgroundBrightness :: "jsnum \<Rightarrow> settingsStore \<Rightarrow> settingsStore" where
  "setBackgroundBrightness v s =
     (let safeValue = (if isFinite v then v else backgroundBrightness s);
          clamped = Math_min (Fin 2) (Math_max (Fin 0) safeValue)
      in s\<lparr>backgroundBrightness := clamped\<rparr>)"

definition setBackgroundSaturation :: "jsnum \<Rightarrow> settingsStore \<Rightarrow> settingsStore" where
  "setBackgroundSaturation v s =
     (let safeValue = (if isFinite v then v else backgroundSaturation s);
          clamped = Math_min (Fin 2) (Math_max (Fin 0) safeValue)
      in s\<lparr>backgroundSaturation := clamped\<rparr>)"

text \<open>A number within the closed interval of two finite bounds.\<close>

definition inRange :: "real \<Rightarrow> real \<Rightarrow> jsnum \<Rightarrow> bool" where
  "inRange lo hi n = (case n of Fin r \<Rightarrow> lo \<le> r \<and> r \<le> hi | _ \<Rightarrow> False)"

section \<open>Storage adapter (storage.ts)\<close>

text \<open>
  The adapter talks to the persistence channel of the host process. A call takes what
  \<^verbatim>\<open>settings.read()\<close> resolved to (or its rejection) and returns the blob it hands
  to \<^verbatim>\<open>settings.write\<close>, if it writes. \<^verbatim>\<open>JSON.parse\<close> is a built-in and enters as
  the parameter \<open>parse\<close>; it may throw.
\<close>

definition typeofObject :: "jsval \<Rightarrow> bool" where
  "typeofObject v = (case v of JNull \<Rightarrow> True | JArr xs \<Rightarrow> True | JObj m \<Rightarrow> True | _ \<Rightarrow> False)"

definition setItem ::
    "(string \<Rightarrow> error + jsval) \<Rightarrow> error + jsval \<Rightarrow> string \<Rightarrow> string \<Rightarrow> error + jsval option" where
  "setItem parse readResult name val =
     (case readResult of
        Inl e \<Rightarrow> Inl e
      | Inr data \<Rightarrow>
          (let existingData = js_or data (JObj fmempty) in
           case parse val of
             Inl e \<Rightarrow> Inl e
           | Inr parsed \<Rightarrow>
               Inr (Some (JObj (fmupd name parsed
                  (ownProps (if typeofObject existingData then existingData else JObj fmempty)))))))"

definition removeItem :: "error + jsval \<Rightarrow> string \<Rightarrow> error + jsval option" where
  "removeItem readResult name =
     (case readResult of
        Inl e \<Rightarrow> Inl e
      | Inr data \<Rightarrow>
          (let existingData = js_or data (JObj fmempty) in
           if typeofObject existingData \<and> existingData \<noteq> JNull
           then Inr (Some (JObj (fmdrop name (ownProps existingData))))
           else Inr None))"

section \<open>Todo store: the one-shot localStorage migration\<close>

text \<open>
  The world \<open>migrateLocalStorage\<close> acts on: the browser's localStorage, the payloads
  handed to \<^verbatim>\<open>window.electronAPI.todo.migrate\<close>, and the console. The storage key
  \<^verbatim>\<open>STORAGE_KEYS.TODO_BOARDS\<close> is a constant of a module outside the sources at hand and
  enters as the parameter \<open>todoBoardsKey\<close>; the outcome of the forwarded call (it
  resolves or rejects) is the parameter \<open>todoMigrate\<close>.
\<close>

datatype consoleLine = ConsoleLog string | ConsoleError string error

record world =
  localStorage :: "string \<rightharpoonup> string"
  forwarded :: "string list"
  console :: "consoleLine list"

text \<open>The body of the \<^verbatim>\<open>try\<close> block: the world it leaves, and whether it threw.\<close>

definition migrateLocalStorageBody ::
    "string \<Rightarrow> (string \<Rightarrow> error + unit) \<Rightarrow> world \<Rightarrow> world \<times> (error + unit)" where
  "migrateLocalStorageBody todoBoardsKey todoMigrate w =
     (case localStorage w todoBoardsKey of
        None \<Rightarrow> (w, Inr ())
      | Some saved \<Rightarrow>
          if saved = [] then (w, Inr ())
          else
            (let w1 = w\<lparr>forwarded := forwarded w @ [saved]\<rparr> in
             case todoMigrate saved of
               Inl e \<Rightarrow> (w1, Inl e)
             | Inr u \<Rightarrow>
                 (w1\<lparr>localStorage := (localStorage w1)(todoBoardsKey := None),
                     console := console w1
                       @ [ConsoleLog ''[TodoStore] Migrated localStorage data to SQLite'']\<rparr>,
                  Inr ())))"

text \<open>The function: the \<^verbatim>\<open>catch\<close> clause logs the error and completes normally.\<close>

definition migrateLocalStorage ::
    "string \<Rightarrow> (string \<Rightarrow> error + unit) \<Rightarrow> world \<Rightarrow> world \<times> (error + unit)" where
  "migrateLocalStorage todoBoardsKey todoMigrate w =
     (case migrateLocalStorageBody todoBoardsKey todoMigrate w of
        (w', Inl err) \<Rightarrow>
          (w'\<lparr>console := console w' @ [ConsoleError ''[TodoStore] Migration failed:'' err]\<rparr>, Inr ())
      | (w', Inr u) \<Rightarrow> (w', Inr ()))"


section \<open>Notions used to state the properties of the migration\<close>

text \<open>
  The current state holds an integration record and agent settings (\<open>SettingsState\<close>
  declares both): the two reads of the migration that can throw do not.
\<close>

definition hasNestedRecords :: "obj \<Rightarrow> bool" where
  "hasNestedRecords currentState =
     (\<not> nullish (field currentState ''claudeCodeIntegration'')
      \<and> \<not> nullish (field currentState ''agentSettings''))"

text \<open>
  A field of the returned snapshot, and a field of one of its domain records: defined
  when the migration returned.
\<close>

definition resultField :: "error + obj \<Rightarrow> string \<Rightarrow> jsval option" where
  "resultField r k = (case r of Inl e \<Rightarrow> None | Inr state \<Rightarrow> Some (field state k))"

definition resultProp :: "error + obj \<Rightarrow> string \<Rightarrow> string \<Rightarrow> jsval option" where
  "resultProp r k j = (case r of Inl e \<Rightarrow> None | Inr state \<Rightarrow> Some (getProp (field state k) j))"

text \<open>
  Whether an agent id is enabled, in the words of the specification: by the persisted
  agent settings entry for the id when there is one (an entry that is neither
  \<^verbatim>\<open>undefined\<close> nor \<^verbatim>\<open>null\<close>), otherwise by the entry of the current state.
\<close>

definition agentEnabled :: "jsval \<Rightarrow> obj \<Rightarrow> string \<Rightarrow> bool" where
  "agentEnabled persisted currentState agentId =
     (let persistedEntry = getProp (getProp persisted ''agentSettings'') agentId;
          entry = (if nullish persistedEntry
                   then getProp (field currentState ''agentSettings'') agentId
                   else persistedEntry)
      in truthy (getProp entry ''enabled''))"

text \<open>The two migrated records when the migration does not throw.\<close>

definition integrationOf :: "jsval \<Rightarrow> obj \<Rightarrow> jsval" where
  "integrationOf persisted currentState =
     (case migrateClaudeCodeIntegration persisted currentState of
        Inl e \<Rightarrow> JUndefined
      | Inr integration \<Rightarrow> integration)"

definition statusOf :: "jsval \<Rightarrow> obj \<Rightarrow> jsval" where
  "statusOf persisted currentState =
     JObj (fmfilter (agentKept persisted currentState)
       (ownProps (field currentState ''agentDetectionStatus'')
        ++\<^sub>f ownProps (getProp persisted ''agentDetectionStatus'')))"

text \<open>
  What the declarations of \<open>types.ts\<close> say of single values: a number within an
  interval, a boolean, a string, and the renderers of \<open>TerminalRenderer\<close>.
\<close>

definition numberWithin :: "real \<Rightarrow> real \<Rightarrow> jsval \<Rightarrow> bool" where
  "numberWithin lo hi v = (case v of JNum n \<Rightarrow> inRange lo hi n | _ \<Rightarrow> False)"

definition isBoolean :: "jsval \<Rightarrow> bool" where
  "isBoolean v = (case v of JBool b \<Rightarrow> True | _ \<Rightarrow> False)"

definition isString :: "jsval \<Rightarrow> bool" where
  "isString v = (case v of JStr s \<Rightarrow> True | _ \<Rightarrow> False)"

definition terminalRenderers :: "jsval list" where
  "terminalRenderers = [JStr ''dom'', JStr ''webgl'']"

text \<open>The background fields of a state conform to their declared types and bounds.\<close>

definition backgroundConforms :: "obj \<Rightarrow> bool" where
  "backgroundConforms state =
     (numberWithin 0 1 (field state ''backgroundOpacity'')
      \<and> numberWithin 0 20 (field state ''backgroundBlur'')
      \<and> numberWithin 0 2 (field state ''backgroundBrightness'')
      \<and> numberWithin 0 2 (field state ''backgroundSaturation'')
      \<and> numberWithin 5 86400 (field state ''backgroundRandomInterval'')
      \<and> isBoolean (field state ''backgroundImageEnabled'')
      \<and> isBoolean (field state ''backgroundRandomEnabled'')
      \<and> isString (field state ''backgroundImagePath'')
      \<and> isString (field state ''backgroundUrlPath'')
      \<and> isString (field state ''backgroundFolderPath'')
      \<and> field state ''backgroundSourceType'' \<in> set sourceTypes
      \<and> field state ''backgroundSizeMode'' \<in> set sizeModes)"

text \<open>No property of an object is \<^verbatim>\<open>undefined\<close>, as for every object that was parsed from JSON.\<close>

definition noUndefined :: "obj \<Rightarrow> bool" where
  "noUndefined m = fmpred (\<lambda>k v. v \<noteq> JUndefined) m"

text \<open>
  The thirteen records of the state that the returned literal merges field by field.
  The remaining records of \<open>SettingsState\<close> (\<^verbatim>\<open>proxySettings\<close>, \<^verbatim>\<open>shellConfig\<close>,
  \<^verbatim>\<open>agentSettings\<close>) are not among them: the two spreads copy them whole.
\<close>

definition mergedRecords :: "string list" where
  "mergedRecords =
     [''xtermKeybindings'', ''mainTabKeybindings'', ''sourceControlKeybindings'',
      ''searchKeybindings'', ''globalKeybindings'', ''workspaceKeybindings'',
      ''editorSettings'', ''claudeCodeIntegration'', ''commitMessageGenerator'',
      ''codeReview'', ''branchNameGenerator'', ''hapiSettings'', ''quickTerminal'']"

text \<open>
  The names of the fields that the returned literal sets after the spreads and the
  conditional \<^verbatim>\<open>terminalRenderer\<close> (lines 139 to 199 of \<open>migration.ts\<close>).
\<close>

definition migratedFields :: "string list" where
  "migratedFields =
     [''xtermKeybindings'', ''mainTabKeybindings'', ''sourceControlKeybindings'',
      ''searchKeybindings'', ''globalKeybindings'', ''workspaceKeybindings'',
      ''backgroundImageEnabled'', ''backgroundImagePath'', ''backgroundUrlPath'',
      ''backgroundFolderPath'', ''backgroundSourceType'', ''backgroundRandomEnabled'',
      ''backgroundRandomInterval'', ''backgroundOpacity'', ''backgroundBlur'',
      ''backgroundBrightness'', ''backgroundSaturation'', ''backgroundSizeMode'',
      ''editorSettings'', ''claudeCodeIntegration'', ''commitMessageGenerator'',
      ''codeReview'', ''branchNameGenerator'', ''hapiSettings'', ''agentDetectionStatus'',
      ''mcpServers'', ''promptPresets'', ''quickTerminal'']"

text \<open>The numeric background fields with the bounds the migration clamps them to.\<close>

definition backgroundNumbers :: "(string \<times> real \<times> real) list" where
  "backgroundNumbers =
     [(''backgroundOpacity'', 0, 1), (''backgroundBlur'', 0, 20),
      (''backgroundBrightness'', 0, 2), (''backgroundSaturation'', 0, 2),
      (''backgroundRandomInterval'', 5, 86400)]"

text \<open>
  What the two spreads \<^verbatim>\<open>...currentState, ...persisted\<close> leave in a field: the persisted
  value's own property when it has one, and the current state's field otherwise.
\<close>

definition persistedOrCurrent :: "jsval \<Rightarrow> obj \<Rightarrow> string \<Rightarrow> jsval" where
  "persistedOrCurrent persisted currentState k =
     (case fmlookup (ownProps persisted) k of
        Some v \<Rightarrow> v
      | None \<Rightarrow> field currentState k)"

section \<open>Concrete inputs for the examples\<close>

text \<open>
  A blob with two stores, and a stand-in for \<^verbatim>\<open>JSON.parse\<close> that is right on the two
  texts the examples use.
\<close>

definition exampleBlob :: obj where
  "exampleBlob = fmap_of_list [(''enso-settings'', JObj fmempty), (''other-store'', JNum (Fin 1))]"

definition exampleParse :: "string \<Rightarrow> error + jsval" where
  "exampleParse s = (if s = ''{}'' then Inr (JObj fmempty) else if s = ''null'' then Inr JNull else Inl SyntaxError)"

text \<open>
  A localStorage holding the todo boards under the key \<^verbatim>\<open>todo-boards\<close>, and the two
  outcomes of the forwarded call.
\<close>

definition exampleWorld :: world where
  "exampleWorld =
     \<lparr>localStorage = [''todo-boards'' \<mapsto> ''boards'', ''other'' \<mapsto> ''x''],
      forwarded = [], console = []\<rparr>"

definition rejectingMigrate :: "string \<Rightarrow> error + unit" where
  "rejectingMigrate payload = Inl Rejected"

definition acceptingMigrate :: "string \<Rightarrow> error + unit" where
  "acceptingMigrate payload = Inr ()"

text \<open>
  A run of agent mutations: a custom agent is added and made the default, codex is
  enabled, and the custom agent is removed again.
\<close>

definition exampleMutations :: "mutation list" where
  "exampleMutations =
     [AddCustomAgent (''my-agent'', fmempty),
      SetAgentEnabled ''codex'' True,
      SetAgentDefault ''my-agent'',
      RemoveCustomAgent ''my-agent'']"

text \<open>Persisted states for the examples of the migration.\<close>

definition persistedInconsistent :: jsval where
  "persistedInconsistent = object
     [(''claudeCodeIntegration'',
         object [(''enhancedInputAutoPopup'', JStr ''hideWhileRunning''),
                 (''stopHookEnabled'', JBool False)])]"

definition persistedCanvas :: jsval where
  "persistedCanvas = object [(''terminalRenderer'', JStr ''canvas'')]"

definition persistedDom :: jsval where
  "persistedDom = object [(''terminalRenderer'', JStr ''dom'')]"

definition persistedBackgroundCanvas :: jsval where
  "persistedBackgroundCanvas = object [(''backgroundRenderer'', JStr ''canvas'')]"

definition detectionInfo :: "real \<Rightarrow> jsval" where
  "detectionInfo detectedAt = object [(''installed'', JBool True), (''detectedAt'', num detectedAt)]"

definition persistedDetection :: jsval where
  "persistedDetection = object
     [(''agentDetectionStatus'',
         object [(''foo'', detectionInfo 1), (''bar'', detectionInfo 2), (''claude'', detectionInfo 3)]),
      (''agentSettings'', object [(''bar'', agentEntry True False)])]"

definition persistedOpacity :: jsval where
  "persistedOpacity = object [(''backgroundOpacity'', num 5)]"

definition persistedIllTyped :: jsval where
  "persistedIllTyped = object [(''terminalRenderer'', JStr ''bogus''), (''fontSize'', JStr ''big'')]"

section \<open>Reading values and results\<close>

declare fmap_of_list_simps [simp del]

lemma fmap_of_list_Nil [simp]: "fmap_of_list [] = fmempty"
  by (simp add: fmap_of_list_simps)

text \<open>The rules that decide a lookup by a literal key in a literal list of entries.\<close>

lemmas lookup_simps =
  map_of.simps fun_upd_apply fst_conv snd_conv list.inject char.inject simp_thms if_True if_False

lemma ownProps_JObj [simp]: "ownProps (JObj m) = m"
  by (simp add: ownProps_def)

lemma getProp_JObj [simp]: "getProp (JObj m) k = field m k"
  by (auto simp: getProp_def field_def split: option.splits)

lemma getProp_nullish [simp]: "getProp JUndefined k = JUndefined" "getProp JNull k = JUndefined"
  by (simp_all add: getProp_def ownProps_def)

lemma ownProps_falsy: "\<not> truthy v \<Longrightarrow> ownProps v = fmempty"
  by (cases v) (auto simp: truthy_def ownProps_def)

lemma getProp_no_props: "ownProps v = fmempty \<Longrightarrow> k \<noteq> ''length'' \<Longrightarrow> getProp v k = JUndefined"
  by (simp add: getProp_def)

lemma getProp_own: "fmlookup (ownProps v) k = Some x \<Longrightarrow> getProp v k = x"
  by (simp add: getProp_def)

lemma getProp_absent:
  "fmlookup (ownProps v) k = None \<Longrightarrow> k \<noteq> ''length'' \<Longrightarrow> getProp v k = JUndefined"
  by (simp add: getProp_def)

lemma getProp_defined:
  "getProp v k = x \<Longrightarrow> x \<noteq> JUndefined \<Longrightarrow> k \<noteq> ''length''
   \<Longrightarrow> fmlookup (ownProps v) k = Some x"
  by (auto simp: getProp_def split: option.splits)

lemma truthy_of_prop: "getProp P k \<noteq> JUndefined \<Longrightarrow> k \<noteq> ''length'' \<Longrightarrow> truthy P"
  using getProp_no_props [of P k] ownProps_falsy [of P] by blast

lemma fmlookup_fmadd_cases:
  "fmlookup (m ++\<^sub>f n) k = (case fmlookup n k of Some v \<Rightarrow> Some v | None \<Rightarrow> fmlookup m k)"
  by (cases "fmlookup n k") (auto simp: fmdom_notI dest: fmdomI)

lemma field_of_list:
  "field (fmap_of_list xs) k = (case map_of xs k of Some v \<Rightarrow> v | None \<Rightarrow> JUndefined)"
  by (simp add: field_def fmlookup_of_list)

lemma field_fmadd_of_list:
  "field (m ++\<^sub>f fmap_of_list xs) k = (case map_of xs k of Some v \<Rightarrow> v | None \<Rightarrow> field m k)"
  by (simp add: field_def fmlookup_fmadd_cases fmlookup_of_list del: fmlookup_add split: option.splits)

lemma field_fmupd: "field (fmupd a v m) k = (if k = a then v else field m k)"
  by (simp add: field_def)

section \<open>The shape of the migrated state\<close>

lemma integration_returns:
  "\<not> nullish (field D ''claudeCodeIntegration'')
   \<Longrightarrow> \<exists>M. migrateClaudeCodeIntegration P D = Inr (JObj M)"
  by (simp add: migrateClaudeCodeIntegration_def getMember_def Let_def)

lemma integrationOf_returns:
  "\<not> nullish (field D ''claudeCodeIntegration'')
   \<Longrightarrow> migrateClaudeCodeIntegration P D = Inr (integrationOf P D)"
  using integration_returns [of D P] by (auto simp: integrationOf_def)

lemma agentConfig_returns:
  "\<not> nullish (field D ''agentSettings'') \<Longrightarrow> agentConfig P D k \<noteq> Inl TypeError"
  by (simp add: agentConfig_def getMember_def Let_def)

lemma status_returns:
  "\<not> nullish (field D ''agentSettings'') \<Longrightarrow> migratedAgentDetectionStatus P D = Inr (statusOf P D)"
  by (simp add: migratedAgentDetectionStatus_def statusOf_def agentConfig_returns Let_def)

lemma migrateSettings_truthy:
  assumes "truthy P" and "hasNestedRecords D"
  shows "migrateSettings N P D = Inr (mergedState N P D (integrationOf P D) (statusOf P D))"
  using assms
  by (simp add: migrateSettings_def hasNestedRecords_def integrationOf_returns status_returns)

lemma migrateSettings_falsy: "\<not> truthy P \<Longrightarrow> migrateSettings N P D = Inr D"
  by (simp add: migrateSettings_def)

lemma mergedState_override:
  "map_of (overrides N P D c a) k = Some v \<Longrightarrow> field (mergedState N P D c a) k = v"
  by (simp add: mergedState_def field_fmadd_of_list del: fmlookup_add)

lemma renderer_part:
  "ownProps (js_and t (JObj (fmap_of_list [(''terminalRenderer'', t)])))
     = (if truthy t then fmap_of_list [(''terminalRenderer'', t)] else fmempty)"
  by (simp add: js_and_def ownProps_falsy)

lemma mergedState_base:
  "map_of (overrides N P D c a) k = None \<Longrightarrow> k \<noteq> ''terminalRenderer''
   \<Longrightarrow> field (mergedState N P D c a) k = field (D ++\<^sub>f ownProps P) k"
  by (simp add: mergedState_def renderer_part field_fmadd_of_list del: fmlookup_add)

lemma overrides_fields:
  "map_of (overrides N P D c a) ''xtermKeybindings'' = Some (migrateXtermKeybindings P D)"
  "map_of (overrides N P D c a) ''mainTabKeybindings'' = Some (mergedDomain P D ''mainTabKeybindings'')"
  "map_of (overrides N P D c a) ''sourceControlKeybindings'' = Some (mergedDomain P D ''sourceControlKeybindings'')"
  "map_of (overrides N P D c a) ''searchKeybindings'' = Some (mergedDomain P D ''searchKeybindings'')"
  "map_of (overrides N P D c a) ''globalKeybindings'' = Some (mergedDomain P D ''globalKeybindings'')"
  "map_of (overrides N P D c a) ''workspaceKeybindings'' = Some (mergedDomain P D ''workspaceKeybindings'')"
  "map_of (overrides N P D c a) ''backgroundImageEnabled'' = Some (sanitizedBackgroundImageEnabled P D)"
  "map_of (overrides N P D c a) ''backgroundImagePath'' = Some (sanitizedBackgroundImagePath P D)"
  "map_of (overrides N P D c a) ''backgroundUrlPath'' = Some (migratedBackgroundUrlPath P D)"
  "map_of (overrides N P D c a) ''backgroundFolderPath'' = Some (sanitizedBackgroundFolderPath P D)"
  "map_of (overrides N P D c a) ''backgroundSourceType'' = Some (sanitizedBackgroundSourceType P D)"
  "map_of (overrides N P D c a) ''backgroundRandomEnabled'' = Some (sanitizedBackgroundRandomEnabled P D)"
  "map_of (overrides N P D c a) ''backgroundRandomInterval'' = Some (sanitizedBackgroundRandomInterval N P D)"
  "map_of (overrides N P D c a) ''backgroundOpacity'' = Some (sanitizedBackgroundOpacity N P D)"
  "map_of (overrides N P D c a) ''backgroundBlur'' = Some (sanitizedBackgroundBlur N P D)"
  "map_of (overrides N P D c a) ''backgroundBrightness'' = Some (sanitizedBackgroundBrightness N P D)"
  "map_of (overrides N P D c a) ''backgroundSaturation'' = Some (sanitizedBackgroundSaturation N P D)"
  "map_of (overrides N P D c a) ''backgroundSizeMode'' = Some (sanitizedBackgroundSizeMode P D)"
  "map_of (overrides N P D c a) ''editorSettings'' = Some (mergedDomain P D ''editorSettings'')"
  "map_of (overrides N P D c a) ''claudeCodeIntegration'' = Some (c)"
  "map_of (overrides N P D c a) ''commitMessageGenerator'' = Some (mergedDomain P D ''commitMessageGenerator'')"
  "map_of (overrides N P D c a) ''codeReview'' = Some (mergedDomain P D ''codeReview'')"
  "map_of (overrides N P D c a) ''branchNameGenerator'' = Some (mergedDomain P D ''branchNameGenerator'')"
  "map_of (overrides N P D c a) ''hapiSettings'' = Some (mergedDomain P D ''hapiSettings'')"
  "map_of (overrides N P D c a) ''agentDetectionStatus'' = Some (a)"
  "map_of (overrides N P D c a) ''mcpServers'' = Some (js_coalesce (getProp P ''mcpServers'') (field D ''mcpServers''))"
  "map_of (overrides N P D c a) ''promptPresets'' = Some (js_coalesce (getProp P ''promptPresets'') (field D ''promptPresets''))"
  "map_of (overrides N P D c a) ''quickTerminal'' = Some (mergedDomain P D ''quickTerminal'')"
  unfolding overrides_def by (simp_all only: lookup_simps)

lemma overrides_others:
  "map_of (overrides N P D c a) ''terminalRenderer'' = None"
  "map_of (overrides N P D c a) ''backgroundRenderer'' = None"
  "map_of (overrides N P D c a) ''fontSize'' = None"
  "map_of (overrides N P D c a) ''agentSettings'' = None"
  unfolding overrides_def by (simp_all only: lookup_simps)

lemma mergedState_fields:
  "field (mergedState N P D c a) ''xtermKeybindings'' = migrateXtermKeybindings P D"
  "field (mergedState N P D c a) ''mainTabKeybindings'' = mergedDomain P D ''mainTabKeybindings''"
  "field (mergedState N P D c a) ''sourceControlKeybindings'' = mergedDomain P D ''sourceControlKeybindings''"
  "field (mergedState N P D c a) ''searchKeybindings'' = mergedDomain P D ''searchKeybindings''"
  "field (mergedState N P D c a) ''globalKeybindings'' = mergedDomain P D ''globalKeybindings''"
  "field (mergedState N P D c a) ''workspaceKeybindings'' = mergedDomain P D ''workspaceKeybindings''"
  "field (mergedState N P D c a) ''backgroundImageEnabled'' = sanitizedBackgroundImageEnabled P D"
  "field (mergedState N P D c a) ''backgroundImagePath'' = sanitizedBackgroundImagePath P D"
  "field (mergedState N P D c a) ''backgroundUrlPath'' = migratedBackgroundUrlPath P D"
  "field (mergedState N P D c a) ''backgroundFolderPath'' = sanitizedBackgroundFolderPath P D"
  "field (mergedState N P D c a) ''backgroundSourceType'' = sanitizedBackgroundSourceType P D"
  "field (mergedState N P D c a) ''backgroundRandomEnabled'' = sanitizedBackgroundRandomEnabled P D"
  "field (mergedState N P D c a) ''backgroundRandomInterval'' = sanitizedBackgroundRandomInterval N P D"
  "field (mergedState N P D c a) ''backgroundOpacity'' = sanitizedBackgroundOpacity N P D"
  "field (mergedState N P D c a) ''backgroundBlur'' = sanitizedBackgroundBlur N P D"
  "field (mergedState N P D c a) ''backgroundBrightness'' = sanitizedBackgroundBrightness N P D"
  "field (mergedState N P D c a) ''backgroundSaturation'' = sanitizedBackgroundSaturation N P D"
  "field (mergedState N P D c a) ''backgroundSizeMode'' = sanitizedBackgroundSizeMode P D"
  "field (mergedState N P D c a) ''editorSettings'' = mergedDomain P D ''editorSettings''"
  "field (mergedState N P D c a) ''claudeCodeIntegration'' = c"
  "field (mergedState N P D c a) ''commitMessageGenerator'' = mergedDomain P D ''commitMessageGenerator''"
  "field (mergedState N P D c a) ''codeReview'' = mergedDomain P D ''codeReview''"
  "field (mergedState N P D c a) ''branchNameGenerator'' = mergedDomain P D ''branchNameGenerator''"
  "field (mergedState N P D c a) ''hapiSettings'' = mergedDomain P D ''hapiSettings''"
  "field (mergedState N P D c a) ''agentDetectionStatus'' = a"
  "field (mergedState N P D c a) ''mcpServers'' = js_coalesce (getProp P ''mcpServers'') (field D ''mcpServers'')"
  "field (mergedState N P D c a) ''promptPresets'' = js_coalesce (getProp P ''promptPresets'') (field D ''promptPresets'')"
  "field (mergedState N P D c a) ''quickTerminal'' = mergedDomain P D ''quickTerminal''"
  by (rule mergedState_override, rule overrides_fields)+

lemma mergedState_renderer:
  "field (mergedState N P D c a) ''terminalRenderer'' =
     (if truthy (terminalRenderer P) then terminalRenderer P
      else field (D ++\<^sub>f ownProps P) ''terminalRenderer'')"
  using overrides_others(1) [of N P D c a]
  by (simp add: mergedState_def renderer_part field_fmadd_of_list del: fmlookup_add)

text \<open>The shipped defaults.\<close>

lemma initial_lookup: "map_of (initialEntries env) k = Some v \<Longrightarrow> field (getInitialState env) k = v"
  by (simp add: getInitialState_def field_of_list)

lemma initial_entries:
  "map_of (initialEntries env) ''claudeCodeIntegration'' = Some (defaultClaudeCodeIntegrationSettings)"
  "map_of (initialEntries env) ''agentSettings'' = Some (defaultAgentSettings)"
  "map_of (initialEntries env) ''agentDetectionStatus'' = Some (object [])"
  "map_of (initialEntries env) ''terminalRenderer'' = Some (JStr ''dom'')"
  "map_of (initialEntries env) ''backgroundImageEnabled'' = Some (JBool False)"
  "map_of (initialEntries env) ''backgroundImagePath'' = Some (JStr [])"
  "map_of (initialEntries env) ''backgroundUrlPath'' = Some (JStr [])"
  "map_of (initialEntries env) ''backgroundFolderPath'' = Some (JStr [])"
  "map_of (initialEntries env) ''backgroundSourceType'' = Some (JStr ''file'')"
  "map_of (initialEntries env) ''backgroundRandomEnabled'' = Some (JBool False)"
  "map_of (initialEntries env) ''backgroundRandomInterval'' = Some (num 300)"
  "map_of (initialEntries env) ''backgroundOpacity'' = Some (num 0.85)"
  "map_of (initialEntries env) ''backgroundBlur'' = Some (num 0)"
  "map_of (initialEntries env) ''backgroundBrightness'' = Some (num 1)"
  "map_of (initialEntries env) ''backgroundSaturation'' = Some (num 1)"
  "map_of (initialEntries env) ''backgroundSizeMode'' = Some (JStr ''cover'')"
  "map_of (initialEntries env) ''xtermKeybindings'' = Some (defaultXtermKeybindings)"
  "map_of (initialEntries env) ''mainTabKeybindings'' = Some (defaultMainTabKeybindings)"
  "map_of (initialEntries env) ''sourceControlKeybindings'' = Some (defaultSourceControlKeybindings)"
  "map_of (initialEntries env) ''searchKeybindings'' = Some (defaultSearchKeybindings)"
  "map_of (initialEntries env) ''globalKeybindings'' = Some (defaultGlobalKeybindings)"
  "map_of (initialEntries env) ''workspaceKeybindings'' = Some (defaultWorkspaceKeybindings)"
  "map_of (initialEntries env) ''editorSettings'' = Some (defaultEditorSettings)"
  "map_of (initialEntries env) ''commitMessageGenerator'' = Some (defaultCommitMessageGeneratorSettings env)"
  "map_of (initialEntries env) ''codeReview'' = Some (defaultCodeReviewSettings env)"
  "map_of (initialEntries env) ''branchNameGenerator'' = Some (defaultBranchNameGeneratorSettings env)"
  "map_of (initialEntries env) ''hapiSettings'' = Some (defaultHapiSettings)"
  "map_of (initialEntries env) ''mcpServers'' = Some (JArr [])"
  "map_of (initialEntries env) ''promptPresets'' = Some (JArr [])"
  "map_of (initialEntries env) ''quickTerminal'' = Some (defaultQuickTerminalSettings)"
  unfolding initialEntries_def by (simp_all only: lookup_simps)

lemma initial_fields:
  "field (getInitialState env) ''claudeCodeIntegration'' = defaultClaudeCodeIntegrationSettings"
  "field (getInitialState env) ''agentSettings'' = defaultAgentSettings"
  "field (getInitialState env) ''agentDetectionStatus'' = object []"
  "field (getInitialState env) ''terminalRenderer'' = JStr ''dom''"
  "field (getInitialState env) ''backgroundImageEnabled'' = JBool False"
  "field (getInitialState env) ''backgroundImagePath'' = JStr []"
  "field (getInitialState env) ''backgroundUrlPath'' = JStr []"
  "field (getInitialState env) ''backgroundFolderPath'' = JStr []"
  "field (getInitialState env) ''backgroundSourceType'' = JStr ''file''"
  "field (getInitialState env) ''backgroundRandomEnabled'' = JBool False"
  "field (getInitialState env) ''backgroundRandomInterval'' = num 300"
  "field (getInitialState env) ''backgroundOpacity'' = num 0.85"
  "field (getInitialState env) ''backgroundBlur'' = num 0"
  "field (getInitialState env) ''backgroundBrightness'' = num 1"
  "field (getInitialState env) ''backgroundSaturation'' = num 1"
  "field (getInitialState env) ''backgroundSizeMode'' = JStr ''cover''"
  "field (getInitialState env) ''xtermKeybindings'' = defaultXtermKeybindings"
  "field (getInitialState env) ''mainTabKeybindings'' = defaultMainTabKeybindings"
  "field (getInitialState env) ''sourceControlKeybindings'' = defaultSourceControlKeybindings"
  "field (getInitialState env) ''searchKeybindings'' = defaultSearchKeybindings"
  "field (getInitialState env) ''globalKeybindings'' = defaultGlobalKeybindings"
  "field (getInitialState env) ''workspaceKeybindings'' = defaultWorkspaceKeybindings"
  "field (getInitialState env) ''editorSettings'' = defaultEditorSettings"
  "field (getInitialState env) ''commitMessageGenerator'' = defaultCommitMessageGeneratorSettings env"
  "field (getInitialState env) ''codeReview'' = defaultCodeReviewSettings env"
  "field (getInitialState env) ''branchNameGenerator'' = defaultBranchNameGeneratorSettings env"
  "field (getInitialState env) ''hapiSettings'' = defaultHapiSettings"
  "field (getInitialState env) ''mcpServers'' = JArr []"
  "field (getInitialState env) ''promptPresets'' = JArr []"
  "field (getInitialState env) ''quickTerminal'' = defaultQuickTerminalSettings"
  by (rule initial_lookup, rule initial_entries)+

lemma initial_nested: "hasNestedRecords (getInitialState env)"
  by (simp add: hasNestedRecords_def initial_fields
        defaultClaudeCodeIntegrationSettings_def defaultAgentSettings_def object_def nullish_def)

lemma initial_status: "field (getInitialState env) ''agentDetectionStatus'' = JObj fmempty"
  by (simp add: initial_fields object_def)

lemma initial_agentSettings: "field (getInitialState env) ''agentSettings'' = defaultAgentSettings"
  by (rule initial_fields)


section \<open>Properties of the sanitizer\<close>

lemma clamp_below: "js_le lo hi \<Longrightarrow> js_lt (Fin r) lo \<Longrightarrow> Math_min hi (Math_max lo (Fin r)) = lo"
  by (cases lo; cases hi) (auto simp: Math_min_def Math_max_def js_lt_def)

lemma clamp_above: "js_le lo hi \<Longrightarrow> js_lt hi (Fin r) \<Longrightarrow> Math_min hi (Math_max lo (Fin r)) = hi"
  by (cases lo; cases hi) (auto simp: Math_min_def Math_max_def js_lt_def)

lemma clamp_inside:
  "js_le lo (Fin r) \<Longrightarrow> js_le (Fin r) hi \<Longrightarrow> Math_min hi (Math_max lo (Fin r)) = Fin r"
  by (cases lo; cases hi) (auto simp: Math_min_def Math_max_def)

lemma clampNumber_finiteValue:
  "clampNumber toNumber v lo hi fb =
     (case finiteValue toNumber v of
        None \<Rightarrow> fb
      | Some r \<Rightarrow> JNum (Math_min hi (Math_max lo (Fin r))))"
  by (auto simp: clampNumber_def finiteValue_def isFinite_def Let_def
           split: jsval.splits jsnum.splits)

text \<open>
  C3, as the code has it. \<open>clampNumber\<close> is a total function into values (it has no
  throwing branch). For bounds \<open>lo \<le> hi\<close>: an input that denotes no finite number
  (not a number, a non-finite number, or a string that does not convert to a finite
  number) gives the fallback; an input denoting a finite number below \<open>lo\<close> gives
  \<open>lo\<close>, above \<open>hi\<close> gives \<open>hi\<close>; a finite number within the bounds is returned
  unchanged, and a string denoting one is returned as that number.
\<close>

theorem clampNumber_spec:
  assumes "js_le lo hi"
  shows "(finiteValue toNumber v = None \<longrightarrow> clampNumber toNumber v lo hi fb = fb)
       \<and> (\<forall>r. finiteValue toNumber v = Some r \<and> js_lt (Fin r) lo
              \<longrightarrow> clampNumber toNumber v lo hi fb = JNum lo)
       \<and> (\<forall>r. finiteValue toNumber v = Some r \<and> js_lt hi (Fin r)
              \<longrightarrow> clampNumber toNumber v lo hi fb = JNum hi)
       \<and> (\<forall>r. v = JNum (Fin r) \<and> js_le lo (Fin r) \<and> js_le (Fin r) hi
              \<longrightarrow> clampNumber toNumber v lo hi fb = v)
       \<and> (\<forall>r. finiteValue toNumber v = Some r \<and> js_le lo (Fin r) \<and> js_le (Fin r) hi
              \<longrightarrow> clampNumber toNumber v lo hi fb = JNum (Fin r))"
proof -
  have a: "finiteValue toNumber v = None \<longrightarrow> clampNumber toNumber v lo hi fb = fb"
    by (simp add: clampNumber_finiteValue)
  have b: "\<forall>r. finiteValue toNumber v = Some r \<and> js_lt (Fin r) lo
              \<longrightarrow> clampNumber toNumber v lo hi fb = JNum lo"
    using assms by (simp add: clampNumber_finiteValue clamp_below)
  have c: "\<forall>r. finiteValue toNumber v = Some r \<and> js_lt hi (Fin r)
              \<longrightarrow> clampNumber toNumber v lo hi fb = JNum hi"
    using assms by (simp add: clampNumber_finiteValue clamp_above)
  have e: "\<forall>r. finiteValue toNumber v = Some r \<and> js_le lo (Fin r) \<and> js_le (Fin r) hi
              \<longrightarrow> clampNumber toNumber v lo hi fb = JNum (Fin r)"
    by (simp add: clampNumber_finiteValue clamp_inside)
  have d: "\<forall>r. v = JNum (Fin r) \<and> js_le lo (Fin r) \<and> js_le (Fin r) hi
              \<longrightarrow> clampNumber toNumber v lo hi fb = v"
    using e by (auto simp: finiteValue_def)
  from a b c d e show ?thesis by blast
qed

text \<open>
  The theorem at concrete inputs with the opacity bounds \<open>[0, 1]\<close> and fallback 0.85:
  a boolean and the string \<^verbatim>\<open>"abc"\<close> give the fallback, 5 and \<^verbatim>\<open>"5"\<close> give 1,
  \<open>-2\<close> gives 0, and 0.5 is unchanged.
\<close>

theorem clampNumber_spec_witness:
  "js_le (Fin 0) (Fin 1)
   \<and> clampNumber exampleNumber (JBool True) (Fin 0) (Fin 1) (JNum (Fin 0.85)) = JNum (Fin 0.85)
   \<and> clampNumber exampleNumber (JStr ''abc'') (Fin 0) (Fin 1) (JNum (Fin 0.85)) = JNum (Fin 0.85)
   \<and> clampNumber exampleNumber (JNum (Fin 5)) (Fin 0) (Fin 1) (JNum (Fin 0.85)) = JNum (Fin 1)
   \<and> clampNumber exampleNumber (JStr ''5'') (Fin 0) (Fin 1) (JNum (Fin 0.85)) = JNum (Fin 1)
   \<and> clampNumber exampleNumber (JNum (Fin (- 2))) (Fin 0) (Fin 1) (JNum (Fin 0.85)) = JNum (Fin 0)
   \<and> clampNumber exampleNumber (JNum (Fin 0.5)) (Fin 0) (Fin 1) (JNum (Fin 0.85)) = JNum (Fin 0.5)"
proof -
  have h: "js_le (Fin 0) (Fin 1)" by simp
  note t = clampNumber_spec [OF h, of exampleNumber _ "JNum (Fin 0.85)"]
  have 1: "clampNumber exampleNumber (JBool True) (Fin 0) (Fin 1) (JNum (Fin 0.85)) = JNum (Fin 0.85)"
    using t [of "JBool True"] by (simp add: finiteValue_def)
  have 2: "clampNumber exampleNumber (JStr ''abc'') (Fin 0) (Fin 1) (JNum (Fin 0.85)) = JNum (Fin 0.85)"
    using t [of "JStr ''abc''"] by (simp add: finiteValue_def exampleNumber_def)
  have 3: "clampNumber exampleNumber (JNum (Fin 5)) (Fin 0) (Fin 1) (JNum (Fin 0.85)) = JNum (Fin 1)"
    using t [of "JNum (Fin 5)"] by (simp add: finiteValue_def js_lt_def)
  have 4: "clampNumber exampleNumber (JStr ''5'') (Fin 0) (Fin 1) (JNum (Fin 0.85)) = JNum (Fin 1)"
    using t [of "JStr ''5''"] by (simp add: finiteValue_def exampleNumber_def js_lt_def)
  have 5: "clampNumber exampleNumber (JNum (Fin (- 2))) (Fin 0) (Fin 1) (JNum (Fin 0.85)) = JNum (Fin 0)"
    using t [of "JNum (Fin (- 2))"] by (simp add: finiteValue_def js_lt_def)
  have 6: "clampNumber exampleNumber (JNum (Fin 0.5)) (Fin 0) (Fin 1) (JNum (Fin 0.85)) = JNum (Fin 0.5)"
    using t [of "JNum (Fin 0.5)"] by (simp add: finiteValue_def)
  from h 1 2 3 4 5 6 show ?thesis by blast
qed

text \<open>
  C3 as stated fails on a number that is not finite: \<^verbatim>\<open>Infinity\<close> (which
  \<^verbatim>\<open>JSON.parse\<close> produces from \<^verbatim>\<open>1e999\<close>) is a number above the upper bound 1, and
  \<open>clampNumber\<close> answers with the fallback 0.85, not with the bound. The same holds for
  the string \<^verbatim>\<open>"Infinity"\<close>.
\<close>

theorem clampNumber_infinity_counterexample:
  "js_lt (Fin 1) PosInf
   \<and> clampNumber exampleNumber (JNum PosInf) (Fin 0) (Fin 1) (JNum (Fin 0.85)) = JNum (Fin 0.85)
   \<and> clampNumber exampleNumber (JNum PosInf) (Fin 0) (Fin 1) (JNum (Fin 0.85)) \<noteq> JNum (Fin 1)
   \<and> clampNumber exampleNumber (JStr ''Infinity'') (Fin 0) (Fin 1) (JNum (Fin 0.85)) \<noteq> JNum (Fin 1)"
  by (simp add: clampNumber_def isFinite_def js_lt_def exampleNumber_def)

section \<open>Properties of the background setters\<close>

lemma clamp_inRange:
  "lo \<le> hi \<Longrightarrow> isFinite v \<Longrightarrow> inRange lo hi (Math_min (Fin hi) (Math_max (Fin lo) v))"
  by (cases v) (auto simp: Math_min_def Math_max_def inRange_def isFinite_def)

lemma clamp_inRange':
  "lo \<le> hi \<Longrightarrow> isFinite v \<Longrightarrow> inRange lo hi (Math_max (Fin lo) (Math_min (Fin hi) v))"
  by (cases v) (auto simp: Math_min_def Math_max_def inRange_def isFinite_def)

lemma clamp_fixed:
  "inRange lo hi v \<Longrightarrow> Math_min (Fin hi) (Math_max (Fin lo) v) = v"
  by (cases v) (auto simp: Math_min_def Math_max_def inRange_def)

text \<open>
  C10. A finite argument is clamped into the field's interval: \<open>[0, 1]\<close> for the
  opacity, \<open>[0, 20]\<close> for the blur, \<open>[0, 2]\<close> for brightness and saturation,
  \<open>[5, 86400]\<close> for the random interval. On an argument that is not finite (NaN or
  an infinity) the four clamping setters re-clamp the previous value, which leaves a
  field that was within its bounds unchanged, while \<open>setBackgroundRandomInterval\<close>
  stores 300 whatever the previous value was.
\<close>

theorem background_setters_bounds:
  "(isFinite v \<longrightarrow>
      backgroundOpacity (setBackgroundOpacity v s) = Math_min (Fin 1) (Math_max (Fin 0) v)
      \<and> inRange 0 1 (backgroundOpacity (setBackgroundOpacity v s))
      \<and> backgroundBlur (setBackgroundBlur v s) = Math_min (Fin 20) (Math_max (Fin 0) v)
      \<and> inRange 0 20 (backgroundBlur (setBackgroundBlur v s))
      \<and> backgroundBrightness (setBackgroundBrightness v s) = Math_min (Fin 2) (Math_max (Fin 0) v)
      \<and> inRange 0 2 (backgroundBrightness (setBackgroundBrightness v s))
      \<and> backgroundSaturation (setBackgroundSaturation v s) = Math_min (Fin 2) (Math_max (Fin 0) v)
      \<and> inRange 0 2 (backgroundSaturation (setBackgroundSaturation v s))
      \<and> backgroundRandomInterval (setBackgroundRandomInterval v s)
          = Math_max (Fin 5) (Math_min (Fin 86400) v)
      \<and> inRange 5 86400 (backgroundRandomInterval (setBackgroundRandomInterval v s)))
   \<and> (\<not> isFinite v \<longrightarrow>
      (inRange 0 1 (backgroundOpacity s)
         \<longrightarrow> backgroundOpacity (setBackgroundOpacity v s) = backgroundOpacity s)
      \<and> (inRange 0 20 (backgroundBlur s)
         \<longrightarrow> backgroundBlur (setBackgroundBlur v s) = backgroundBlur s)
      \<and> (inRange 0 2 (backgroundBrightness s)
         \<longrightarrow> backgroundBrightness (setBackgroundBrightness v s) = backgroundBrightness s)
      \<and> (inRange 0 2 (backgroundSaturation s)
         \<longrightarrow> backgroundSaturation (setBackgroundSaturation v s) = backgroundSaturation s)
      \<and> backgroundRandomInterval (setBackgroundRandomInterval v s) = Fin 300)"
proof (cases "isFinite v")
  case True
  then show ?thesis
    by (simp add: setBackgroundOpacity_def setBackgroundBlur_def setBackgroundBrightness_def
          setBackgroundSaturation_def setBackgroundRandomInterval_def clamp_inRange clamp_inRange')
next
  case False
  then show ?thesis
    by (simp add: setBackgroundOpacity_def setBackgroundBlur_def setBackgroundBrightness_def
          setBackgroundSaturation_def setBackgroundRandomInterval_def clamp_fixed)
qed

text \<open>
  The theorem on the initial store: 5 is clamped to 1 as an opacity and kept as a blur,
  the intervals 5 and 1 both give 5, NaN and Infinity leave the opacity at 0.85, and NaN
  sets the interval to 300.
\<close>

theorem background_setters_bounds_witness:
  "isFinite (Fin 5) \<and> \<not> isFinite NaN \<and> inRange 0 1 (backgroundOpacity initialStore)
   \<and> backgroundOpacity (setBackgroundOpacity (Fin 5) initialStore) = Fin 1
   \<and> backgroundBlur (setBackgroundBlur (Fin 5) initialStore) = Fin 5
   \<and> backgroundRandomInterval (setBackgroundRandomInterval (Fin 5) initialStore) = Fin 5
   \<and> backgroundRandomInterval (setBackgroundRandomInterval (Fin 1) initialStore) = Fin 5
   \<and> backgroundOpacity (setBackgroundOpacity NaN initialStore) = Fin 0.85
   \<and> backgroundOpacity (setBackgroundOpacity PosInf initialStore) = Fin 0.85
   \<and> backgroundRandomInterval (setBackgroundRandomInterval NaN initialStore) = Fin 300"
proof -
  have f: "isFinite (Fin 5)" "isFinite (Fin 1)" "\<not> isFinite NaN" "\<not> isFinite PosInf"
    by (simp_all add: isFinite_def)
  have r: "inRange 0 1 (backgroundOpacity initialStore)"
    by (simp add: initialStore_def inRange_def)
  have o: "backgroundOpacity initialStore = Fin 0.85"
    by (simp add: initialStore_def)
  show ?thesis
    using background_setters_bounds [of "Fin 5" initialStore]
      background_setters_bounds [of "Fin 1" initialStore]
      background_setters_bounds [of NaN initialStore]
      background_setters_bounds [of PosInf initialStore] f r o
    by (simp add: Math_min_def Math_max_def)
qed


section \<open>Properties of the storage adapter\<close>

text \<open>
  C8. When the channel reads back an object \<open>blob\<close> and the value parses,
  \<open>setItem\<close> writes the blob with \<open>name\<close> mapped to the parsed value and every
  other key as it was, and \<open>removeItem\<close> writes the blob without \<open>name\<close> and every
  other key as it was. When the channel reads back \<^verbatim>\<open>null\<close> (nothing stored yet) the
  same holds of the empty object.
\<close>

theorem storage_write_frame:
  assumes "parse val = Inr parsed"
  shows "setItem parse (Inr (JObj blob)) name val = Inr (Some (JObj (fmupd name parsed blob)))
       \<and> fmlookup (fmupd name parsed blob) name = Some parsed
       \<and> (\<forall>k. k \<noteq> name \<longrightarrow> fmlookup (fmupd name parsed blob) k = fmlookup blob k)
       \<and> removeItem (Inr (JObj blob)) name = Inr (Some (JObj (fmdrop name blob)))
       \<and> fmlookup (fmdrop name blob) name = None
       \<and> (\<forall>k. k \<noteq> name \<longrightarrow> fmlookup (fmdrop name blob) k = fmlookup blob k)
       \<and> setItem parse (Inr JNull) name val = Inr (Some (JObj (fmupd name parsed fmempty)))
       \<and> removeItem (Inr JNull) name = Inr (Some (JObj fmempty))"
  using assms
  by (simp add: setItem_def removeItem_def js_or_def truthy_def typeofObject_def)

text \<open>
  The theorem on a blob with two stores: writing or removing \<^verbatim>\<open>enso-settings\<close>
  leaves \<^verbatim>\<open>other-store\<close> as it was.
\<close>

theorem storage_write_frame_witness:
  "exampleParse ''null'' = Inr JNull
   \<and> setItem exampleParse (Inr (JObj exampleBlob)) ''enso-settings'' ''null''
       = Inr (Some (JObj (fmupd ''enso-settings'' JNull exampleBlob)))
   \<and> fmlookup (fmupd ''enso-settings'' JNull exampleBlob) ''other-store'' = Some (JNum (Fin 1))
   \<and> removeItem (Inr (JObj exampleBlob)) ''enso-settings''
       = Inr (Some (JObj (fmdrop ''enso-settings'' exampleBlob)))
   \<and> fmlookup (fmdrop ''enso-settings'' exampleBlob) ''other-store'' = Some (JNum (Fin 1))
   \<and> fmlookup (fmdrop ''enso-settings'' exampleBlob) ''enso-settings'' = None"
proof -
  have p: "exampleParse ''null'' = Inr JNull"
    by (simp add: exampleParse_def)
  have b: "fmlookup exampleBlob ''other-store'' = Some (JNum (Fin 1))"
    by (simp add: exampleBlob_def fmlookup_of_list)
  show ?thesis
    using storage_write_frame [of exampleParse "''null''" JNull exampleBlob "''enso-settings''"] p b
    by simp
qed

section \<open>Properties of the todo migration\<close>

text \<open>
  C9. \<open>migrateLocalStorage\<close> always completes normally. It leaves every key of
  localStorage other than the todo key as it was. When the key is absent (or holds the
  empty string) the world is unchanged: nothing is forwarded, deleted or logged. When
  the forwarded call rejects, localStorage is unchanged (the key stays), the payload was
  handed over once, and the error is logged. When it resolves, the payload was handed
  over once and the key is gone.
\<close>

theorem todo_migration_one_shot:
  "snd (migrateLocalStorage key mig w) = Inr ()
   \<and> (\<forall>k. k \<noteq> key \<longrightarrow> localStorage (fst (migrateLocalStorage key mig w)) k = localStorage w k)
   \<and> (localStorage w key = None \<or> localStorage w key = Some []
        \<longrightarrow> fst (migrateLocalStorage key mig w) = w)
   \<and> (\<forall>saved e. localStorage w key = Some saved \<and> saved \<noteq> [] \<and> mig saved = Inl e
        \<longrightarrow> localStorage (fst (migrateLocalStorage key mig w)) = localStorage w
          \<and> forwarded (fst (migrateLocalStorage key mig w)) = forwarded w @ [saved]
          \<and> console (fst (migrateLocalStorage key mig w))
              = console w @ [ConsoleError ''[TodoStore] Migration failed:'' e])
   \<and> (\<forall>saved. localStorage w key = Some saved \<and> saved \<noteq> [] \<and> mig saved = Inr ()
        \<longrightarrow> localStorage (fst (migrateLocalStorage key mig w)) key = None
          \<and> forwarded (fst (migrateLocalStorage key mig w)) = forwarded w @ [saved])"
  by (auto simp: migrateLocalStorage_def migrateLocalStorageBody_def Let_def
           split: option.splits sum.splits prod.splits)


text \<open>
  The theorem on a localStorage with two keys: a rejected call keeps the boards, a
  resolved call removes them and keeps the other key, an absent key changes nothing.
\<close>

theorem todo_migration_one_shot_witness:
  "localStorage exampleWorld ''todo-boards'' = Some ''boards''
   \<and> localStorage exampleWorld ''absent'' = None
   \<and> snd (migrateLocalStorage ''todo-boards'' rejectingMigrate exampleWorld) = Inr ()
   \<and> localStorage (fst (migrateLocalStorage ''todo-boards'' rejectingMigrate exampleWorld)) ''todo-boards''
       = Some ''boards''
   \<and> forwarded (fst (migrateLocalStorage ''todo-boards'' rejectingMigrate exampleWorld)) = [''boards'']
   \<and> localStorage (fst (migrateLocalStorage ''todo-boards'' acceptingMigrate exampleWorld)) ''todo-boards''
       = None
   \<and> localStorage (fst (migrateLocalStorage ''todo-boards'' acceptingMigrate exampleWorld)) ''other''
       = Some ''x''
   \<and> forwarded (fst (migrateLocalStorage ''todo-boards'' acceptingMigrate exampleWorld)) = [''boards'']
   \<and> fst (migrateLocalStorage ''absent'' acceptingMigrate exampleWorld) = exampleWorld"
proof -
  have s: "localStorage exampleWorld ''todo-boards'' = Some ''boards''"
    "localStorage exampleWorld ''absent'' = None"
    "localStorage exampleWorld ''other'' = Some ''x''"
    "forwarded exampleWorld = []"
    by (simp_all add: exampleWorld_def)
  have m: "rejectingMigrate ''boards'' = Inl Rejected" "acceptingMigrate ''boards'' = Inr ()"
    by (simp_all add: rejectingMigrate_def acceptingMigrate_def)
  show ?thesis
    using todo_migration_one_shot [of "''todo-boards''" rejectingMigrate exampleWorld]
      todo_migration_one_shot [of "''todo-boards''" acceptingMigrate exampleWorld]
      todo_migration_one_shot [of "''absent''" acceptingMigrate exampleWorld] s m
    by simp
qed


section \<open>Properties of the agent mutations\<close>

lemma defaultAgents_set:
  "distinct (map fst xs) \<Longrightarrow> k \<in> set (defaultAgents xs) \<longleftrightarrow> isDefaultAt xs k"
  by (force simp: defaultAgents_def isDefaultAt_def)

lemma defaultAgents_distinct: "distinct (map fst xs) \<Longrightarrow> distinct (defaultAgents xs)"
  by (simp add: defaultAgents_def distinct_map_filter)

lemma distinct_le_one:
  assumes "distinct ys" and "\<forall>a \<in> set ys. \<forall>b \<in> set ys. a = b"
  shows "length ys \<le> 1"
proof (cases ys)
  case Nil
  then show ?thesis by simp
next
  case (Cons a zs)
  show ?thesis
  proof (cases zs)
    case Nil
    with Cons show ?thesis by simp
  next
    case (Cons b ws)
    with \<open>ys = a # zs\<close> have ys: "ys = a # b # ws" by simp
    have "a \<noteq> b" using assms(1) by (simp add: ys)
    moreover have "a \<in> set ys" "b \<in> set ys" by (simp_all add: ys)
    with assms(2) have "a = b" by blast
    ultimately show ?thesis by simp
  qed
qed

lemma uniqueDefault_length: "uniqueDefault xs \<Longrightarrow> length (defaultAgents xs) \<le> 1"
  unfolding uniqueDefault_def
  by (intro distinct_le_one defaultAgents_distinct) (auto simp: defaultAgents_set)

lemma filter_conj_le: "length (filter (\<lambda>x. P x \<and> Q x) xs) \<le> length (filter P xs)"
  by (induction xs) auto

lemma enabledDefault_le: "length (enabledDefaultAgents xs) \<le> length (defaultAgents xs)"
  using filter_conj_le [of "\<lambda>(k, c). isDefault c = Some True" "\<lambda>(k, c). enabled c = Some True" xs]
  by (simp add: enabledDefaultAgents_def defaultAgents_def case_prod_unfold)

lemma promoted_le: "length (promotedAgents before after) \<le> length (defaultAgents after)"
  by (simp add: promotedAgents_def)

lemma uniqueDefault_setAgentEnabled:
  "uniqueDefault (agentSettings s) \<Longrightarrow> uniqueDefault (agentSettings (setAgentEnabled k en s))"
  unfolding uniqueDefault_def isDefaultAt_def setAgentEnabled_def Let_def
  by (auto simp: distinct_update update_conv' spreadConfig_def simp del: map_of_eq_Some_iff
        split: if_splits option.splits)

lemma uniqueDefault_setAgentCustomConfig:
  "uniqueDefault (agentSettings s) \<Longrightarrow> uniqueDefault (agentSettings (setAgentCustomConfig k p a s))"
  unfolding uniqueDefault_def isDefaultAt_def setAgentCustomConfig_def Let_def
  by (auto simp: distinct_update update_conv' spreadConfig_def simp del: map_of_eq_Some_iff
        split: if_splits option.splits)

lemma uniqueDefault_addCustomAgent:
  "uniqueDefault (agentSettings s) \<Longrightarrow> uniqueDefault (agentSettings (addCustomAgent a s))"
  unfolding uniqueDefault_def isDefaultAt_def addCustomAgent_def
  by (auto simp: distinct_update update_conv' simp del: map_of_eq_Some_iff split: if_splits)

lemma uniqueDefault_updateCustomAgent:
  "uniqueDefault (agentSettings s) \<Longrightarrow> uniqueDefault (agentSettings (updateCustomAgent k u s))"
  by (simp add: updateCustomAgent_def)

lemma map_of_setDefault:
  "map_of (map (\<lambda>(agentKey, cfg). (agentKey, cfg\<lparr>isDefault := Some (agentKey = agentId)\<rparr>)) xs) k
     = map_option (\<lambda>cfg. cfg\<lparr>isDefault := Some (k = agentId)\<rparr>) (map_of xs k)"
  by (induction xs) auto

lemma keys_setDefault:
  "fst \<circ> (\<lambda>(agentKey, cfg). (agentKey, f agentKey cfg)) = fst"
  by auto

lemma uniqueDefault_setAgentDefault:
  "distinct (map fst (agentSettings s)) \<Longrightarrow> uniqueDefault (agentSettings (setAgentDefault k s))"
  unfolding uniqueDefault_def isDefaultAt_def setAgentDefault_def Let_def
  by (auto simp: map_of_setDefault keys_setDefault simp del: map_of_eq_Some_iff)

lemma find_entry:
  "find P xs = Some (k, c) \<Longrightarrow> distinct (map fst xs) \<Longrightarrow> map_of xs k = Some c \<and> P (k, c)"
  by (auto simp: find_Some_iff map_of_eq_Some_iff)

lemma uniqueDefault_removeCustomAgent:
  assumes "uniqueDefault (agentSettings s)"
  shows "uniqueDefault (agentSettings (removeCustomAgent k s))"
proof -
  let ?xs = "agentSettings s"
  let ?ys = "AList.delete k ?xs"
  have d: "distinct (map fst ?xs)" and u: "\<forall>k1 k2. isDefaultAt ?xs k1 \<and> isDefaultAt ?xs k2 \<longrightarrow> k1 = k2"
    using assms by (auto simp: uniqueDefault_def)
  have dy: "distinct (map fst ?ys)" using d by (simp add: distinct_delete)
  have my: "map_of ?ys = (map_of ?xs)(k := None)" by (simp add: delete_conv')
  have uy: "uniqueDefault ?ys"
    using u dy unfolding uniqueDefault_def isDefaultAt_def my by (auto split: if_splits)
  show ?thesis
  proof (cases "isDefaultAt ?xs k")
    case False
    then have "agentSettings (removeCustomAgent k s) = ?ys"
      by (auto simp: removeCustomAgent_def isDefaultAt_def Let_def split: option.splits)
    with uy show ?thesis by simp
  next
    case True
    then have none: "\<And>j. \<not> isDefaultAt ?ys j"
      using u unfolding isDefaultAt_def my by (auto split: if_splits)
    show ?thesis
    proof (cases "find (\<lambda>(agentKey, cfg). enabled cfg = Some True) ?ys")
      case None
      with True have "agentSettings (removeCustomAgent k s) = ?ys"
        by (auto simp: removeCustomAgent_def isDefaultAt_def Let_def split: option.splits)
      with uy show ?thesis by simp
    next
      case (Some e)
      obtain fk fc where e: "e = (fk, fc)" by (cases e)
      with True Some have eq: "agentSettings (removeCustomAgent k s)
          = AList.update fk (fc\<lparr>isDefault := Some True\<rparr>) ?ys"
        by (auto simp: removeCustomAgent_def isDefaultAt_def Let_def split: option.splits)
      show ?thesis
        unfolding eq uniqueDefault_def isDefaultAt_def
        using dy none
        by (auto simp: distinct_update update_conv' isDefaultAt_def split: if_splits)
    qed
  qed
qed

lemma uniqueDefault_applyMutation:
  "uniqueDefault (agentSettings s) \<Longrightarrow> uniqueDefault (agentSettings (applyMutation m s))"
  by (cases m)
     (simp_all add: uniqueDefault_setAgentEnabled uniqueDefault_setAgentCustomConfig
        uniqueDefault_addCustomAgent uniqueDefault_updateCustomAgent uniqueDefault_removeCustomAgent
        uniqueDefault_setAgentDefault uniqueDefault_def [of "agentSettings s"])

lemma uniqueDefault_initialStore: "uniqueDefault (agentSettings initialStore)"
  by (auto simp: uniqueDefault_def isDefaultAt_def initialStore_def builtinAgents_def split: if_splits)

lemma uniqueDefault_runMutations:
  "uniqueDefault (agentSettings s) \<Longrightarrow> uniqueDefault (agentSettings (runMutations ms s))"
  unfolding runMutations_def
  by (induction ms arbitrary: s) (simp_all add: uniqueDefault_applyMutation)


lemma enabledAgents_set:
  "distinct (map fst xs) \<Longrightarrow> k \<in> set (enabledAgents xs) \<longleftrightarrow> (\<exists>c. map_of xs k = Some c \<and> enabled c = Some True)"
  by (force simp: enabledAgents_def)

lemma promoted_enabled:
  assumes "uniqueDefault (agentSettings s)"
  shows "set (promotedAgents (agentSettings s) (agentSettings (removeCustomAgent k s)))
         \<subseteq> set (enabledAgents (agentSettings (removeCustomAgent k s)))"
proof
  fix j
  let ?xs = "agentSettings s"
  let ?ys = "AList.delete k ?xs"
  let ?after = "agentSettings (removeCustomAgent k s)"
  assume j: "j \<in> set (promotedAgents ?xs ?after)"
  have d: "distinct (map fst ?xs)" using assms by (simp add: uniqueDefault_def)
  have dy: "distinct (map fst ?ys)" using d by (simp add: distinct_delete)
  have da: "distinct (map fst ?after)"
    using uniqueDefault_removeCustomAgent [OF assms, of k] by (simp add: uniqueDefault_def)
  have my: "map_of ?ys = (map_of ?xs)(k := None)" by (simp add: delete_conv')
  from j have ja: "isDefaultAt ?after j" and jb: "\<not> isDefaultAt ?xs j"
    using d da by (simp_all add: promotedAgents_def defaultAgents_set)
  have sub: "\<And>i. isDefaultAt ?ys i \<Longrightarrow> isDefaultAt ?xs i"
    unfolding isDefaultAt_def my by (auto split: if_splits)
  show "j \<in> set (enabledAgents ?after)"
  proof (cases "isDefaultAt ?xs k")
    case False
    then have "?after = ?ys"
      by (auto simp: removeCustomAgent_def isDefaultAt_def Let_def split: option.splits)
    with ja sub jb show ?thesis by simp
  next
    case True
    show ?thesis
    proof (cases "find (\<lambda>(agentKey, cfg). enabled cfg = Some True) ?ys")
      case None
      with True have "?after = ?ys"
        by (auto simp: removeCustomAgent_def isDefaultAt_def Let_def split: option.splits)
      with ja sub jb show ?thesis by simp
    next
      case (Some e)
      obtain fk fc where e: "e = (fk, fc)" by (cases e)
      with True Some have eq: "?after = AList.update fk (fc\<lparr>isDefault := Some True\<rparr>) ?ys"
        by (auto simp: removeCustomAgent_def isDefaultAt_def Let_def split: option.splits)
      from Some e dy have en: "enabled fc = Some True"
        using find_entry [of "\<lambda>(agentKey, cfg). enabled cfg = Some True" ?ys fk fc] by simp
      have "j = fk"
      proof (rule ccontr)
        assume "j \<noteq> fk"
        with ja have "isDefaultAt ?ys j"
          unfolding eq isDefaultAt_def by (simp add: update_conv')
        with sub jb show False by blast
      qed
      then have "map_of ?after j = Some (fc\<lparr>isDefault := Some True\<rparr>)"
        unfolding eq by (simp add: update_conv')
      with en da show ?thesis
        by (simp add: enabledAgents_set del: map_of_eq_Some_iff)
    qed
  qed
qed

text \<open>
  C7. In every store reached from the initial store by agent mutations, at most one
  enabled agent is the default; indeed at most one agent record at all has
  \<open>isDefault = true\<close>. In such a store \<open>setAgentDefault\<close> leaves at most one
  default record, and \<open>removeCustomAgent\<close> promotes at most one agent to default,
  which is an enabled one.
\<close>

theorem agent_default_invariant:
  "length (enabledDefaultAgents (agentSettings (runMutations ms initialStore))) \<le> 1
   \<and> length (defaultAgents (agentSettings (runMutations ms initialStore))) \<le> 1
   \<and> length (defaultAgents (agentSettings
         (setAgentDefault agentId (runMutations ms initialStore)))) \<le> 1
   \<and> length (promotedAgents (agentSettings (runMutations ms initialStore))
         (agentSettings (removeCustomAgent agentId (runMutations ms initialStore)))) \<le> 1
   \<and> set (promotedAgents (agentSettings (runMutations ms initialStore))
         (agentSettings (removeCustomAgent agentId (runMutations ms initialStore))))
       \<subseteq> set (enabledAgents
         (agentSettings (removeCustomAgent agentId (runMutations ms initialStore))))"
proof -
  let ?s = "runMutations ms initialStore"
  have u: "uniqueDefault (agentSettings ?s)"
    by (rule uniqueDefault_runMutations [OF uniqueDefault_initialStore])
  have a: "length (defaultAgents (agentSettings ?s)) \<le> 1"
    by (rule uniqueDefault_length [OF u])
  have b: "length (enabledDefaultAgents (agentSettings ?s)) \<le> 1"
    using enabledDefault_le [of "agentSettings ?s"] a by simp
  have c: "length (defaultAgents (agentSettings (setAgentDefault agentId ?s))) \<le> 1"
    using u by (intro uniqueDefault_length uniqueDefault_setAgentDefault) (simp add: uniqueDefault_def)
  have "length (defaultAgents (agentSettings (removeCustomAgent agentId ?s))) \<le> 1"
    by (rule uniqueDefault_length [OF uniqueDefault_removeCustomAgent [OF u]])
  then have d: "length (promotedAgents (agentSettings ?s)
         (agentSettings (removeCustomAgent agentId ?s))) \<le> 1"
    using promoted_le [of "agentSettings ?s" "agentSettings (removeCustomAgent agentId ?s)"] by simp
  note e = promoted_enabled [OF u, of agentId]
  from a b c d e show ?thesis by blast
qed

lemma exampleRun:
  "agentSettings (runMutations exampleMutations initialStore) =
     [(''claude'', \<lparr>enabled = Some True, isDefault = Some True, customPath = None, customArgs = None\<rparr>),
      (''codex'', \<lparr>enabled = Some True, isDefault = Some False, customPath = None, customArgs = None\<rparr>),
      (''droid'', \<lparr>enabled = Some False, isDefault = Some False, customPath = None, customArgs = None\<rparr>),
      (''gemini'', \<lparr>enabled = Some False, isDefault = Some False, customPath = None, customArgs = None\<rparr>),
      (''auggie'', \<lparr>enabled = Some False, isDefault = Some False, customPath = None, customArgs = None\<rparr>),
      (''cursor'', \<lparr>enabled = Some False, isDefault = Some False, customPath = None, customArgs = None\<rparr>),
      (''opencode'', \<lparr>enabled = Some False, isDefault = Some False, customPath = None, customArgs = None\<rparr>)]"
  by (simp add: runMutations_def exampleMutations_def initialStore_def builtinAgents_def
        addCustomAgent_def setAgentEnabled_def setAgentDefault_def removeCustomAgent_def
        spreadConfig_def Let_def)

text \<open>
  The theorem on the example run, which ends with claude as the only default: making
  codex the default leaves codex alone, and removing claude promotes codex, the first
  enabled agent left.
\<close>

theorem agent_default_invariant_witness:
  "length (enabledDefaultAgents (agentSettings (runMutations exampleMutations initialStore))) \<le> 1
   \<and> defaultAgents (agentSettings (runMutations exampleMutations initialStore)) = [''claude'']
   \<and> length (defaultAgents (agentSettings
         (setAgentDefault ''codex'' (runMutations exampleMutations initialStore)))) \<le> 1
   \<and> defaultAgents (agentSettings
         (setAgentDefault ''codex'' (runMutations exampleMutations initialStore))) = [''codex'']
   \<and> promotedAgents (agentSettings (runMutations exampleMutations initialStore))
         (agentSettings (removeCustomAgent ''claude'' (runMutations exampleMutations initialStore)))
       = [''codex'']"
proof -
  have d: "defaultAgents (agentSettings (runMutations exampleMutations initialStore)) = [''claude'']"
    by (simp add: exampleRun defaultAgents_def)
  have c: "defaultAgents (agentSettings
         (setAgentDefault ''codex'' (runMutations exampleMutations initialStore))) = [''codex'']"
    by (simp add: setAgentDefault_def exampleRun defaultAgents_def)
  have p: "promotedAgents (agentSettings (runMutations exampleMutations initialStore))
         (agentSettings (removeCustomAgent ''claude'' (runMutations exampleMutations initialStore)))
       = [''codex'']"
    by (simp add: removeCustomAgent_def exampleRun promotedAgents_def defaultAgents_def)
  show ?thesis
    using agent_default_invariant [of exampleMutations "''codex''"] d c p by simp
qed


section \<open>Properties of the Claude Code integration repair\<close>

lemma result_integration:
  assumes "truthy P" and "hasNestedRecords D"
  shows "\<exists>R. migrateSettings N P D = Inr R
          \<and> field R ''claudeCodeIntegration'' = integrationOf P D"
proof -
  have "field (mergedState N P D (integrationOf P D) (statusOf P D)) ''claudeCodeIntegration''
          = integrationOf P D"
    by (rule mergedState_fields)
  with migrateSettings_truthy [OF assms, of N] show ?thesis by simp
qed

lemma integration_demoted:
  assumes "\<not> nullish (field D ''claudeCodeIntegration'')"
    and "getProp (getProp P ''claudeCodeIntegration'') ''enhancedInputAutoPopup'' = JStr ''hideWhileRunning''"
    and "getProp (getProp P ''claudeCodeIntegration'') ''stopHookEnabled'' = JBool False"
  shows "\<exists>M. migrateClaudeCodeIntegration P D = Inr (JObj M)
          \<and> field M ''enhancedInputAutoPopup'' = JStr ''always''
          \<and> field M ''stopHookEnabled'' = JBool False"
proof -
  let ?pc = "getProp P ''claudeCodeIntegration''"
  have a: "fmlookup (ownProps ?pc) ''enhancedInputAutoPopup'' = Some (JStr ''hideWhileRunning'')"
    using getProp_defined [OF assms(2)] by simp
  have b: "fmlookup (ownProps ?pc) ''stopHookEnabled'' = Some (JBool False)"
    using getProp_defined [OF assms(3)] by simp
  show ?thesis
    using assms a b
    by (simp add: migrateClaudeCodeIntegration_def getMember_def Let_def field_def truthy_def
          fmlookup_fmadd_cases del: fmlookup_add)
qed

lemma integration_consistent:
  assumes "migrateClaudeCodeIntegration P D = Inr M" and "\<not> truthy (getProp M ''stopHookEnabled'')"
  shows "getProp M ''enhancedInputAutoPopup'' \<noteq> JStr ''hideWhileRunning''"
  using assms
  by (auto simp: migrateClaudeCodeIntegration_def Let_def field_fmupd
           split: sum.splits if_splits jsval.splits)

text \<open>
  C4. Let the current state hold its nested records. A persisted state whose
  integration record has \<^verbatim>\<open>enhancedInputAutoPopup = "hideWhileRunning"\<close> and
  \<^verbatim>\<open>stopHookEnabled = false\<close> migrates to a snapshot with \<^verbatim>\<open>"always"\<close> and
  \<^verbatim>\<open>false\<close>. Whatever the persisted state, a record \<open>migrateClaudeCodeIntegration\<close>
  returns with a falsy \<^verbatim>\<open>stopHookEnabled\<close> does not have \<^verbatim>\<open>"hideWhileRunning"\<close>, and
  so it is for the snapshot merged from any present persisted state.
\<close>

theorem integration_repair:
  assumes "hasNestedRecords D"
  shows "(getProp (getProp P ''claudeCodeIntegration'') ''enhancedInputAutoPopup'' = JStr ''hideWhileRunning''
          \<and> getProp (getProp P ''claudeCodeIntegration'') ''stopHookEnabled'' = JBool False
          \<longrightarrow> (\<exists>R. migrateSettings N P D = Inr R
                \<and> getProp (field R ''claudeCodeIntegration'') ''enhancedInputAutoPopup'' = JStr ''always''
                \<and> getProp (field R ''claudeCodeIntegration'') ''stopHookEnabled'' = JBool False))
       \<and> (\<forall>M. migrateClaudeCodeIntegration P D = Inr M \<and> \<not> truthy (getProp M ''stopHookEnabled'')
            \<longrightarrow> getProp M ''enhancedInputAutoPopup'' \<noteq> JStr ''hideWhileRunning'')
       \<and> (truthy P \<longrightarrow> (\<exists>R. migrateSettings N P D = Inr R
            \<and> (\<not> truthy (getProp (field R ''claudeCodeIntegration'') ''stopHookEnabled'')
                 \<longrightarrow> getProp (field R ''claudeCodeIntegration'') ''enhancedInputAutoPopup''
                      \<noteq> JStr ''hideWhileRunning'')))"
proof (intro conjI impI allI)
  assume h: "getProp (getProp P ''claudeCodeIntegration'') ''enhancedInputAutoPopup'' = JStr ''hideWhileRunning''
          \<and> getProp (getProp P ''claudeCodeIntegration'') ''stopHookEnabled'' = JBool False"
  have "getProp P ''claudeCodeIntegration'' \<noteq> JUndefined"
  proof
    assume "getProp P ''claudeCodeIntegration'' = JUndefined"
    with h show False by (simp add: getProp_def ownProps_def)
  qed
  then have t: "truthy P" by (rule truthy_of_prop) simp
  from result_integration [OF t assms, of N] obtain R where
    r: "migrateSettings N P D = Inr R" and f: "field R ''claudeCodeIntegration'' = integrationOf P D"
    by blast
  from assms have n: "\<not> nullish (field D ''claudeCodeIntegration'')"
    by (simp add: hasNestedRecords_def)
  from integration_demoted [OF n conjunct1 [OF h] conjunct2 [OF h]]
  have "getProp (integrationOf P D) ''enhancedInputAutoPopup'' = JStr ''always''
        \<and> getProp (integrationOf P D) ''stopHookEnabled'' = JBool False"
    by (auto simp: integrationOf_def)
  with r f show "\<exists>R. migrateSettings N P D = Inr R
        \<and> getProp (field R ''claudeCodeIntegration'') ''enhancedInputAutoPopup'' = JStr ''always''
        \<and> getProp (field R ''claudeCodeIntegration'') ''stopHookEnabled'' = JBool False"
    by simp
next
  fix M
  assume "migrateClaudeCodeIntegration P D = Inr M \<and> \<not> truthy (getProp M ''stopHookEnabled'')"
  then show "getProp M ''enhancedInputAutoPopup'' \<noteq> JStr ''hideWhileRunning''"
    using integration_consistent by blast
next
  assume t: "truthy P"
  from result_integration [OF t assms, of N] obtain R where
    r: "migrateSettings N P D = Inr R" and f: "field R ''claudeCodeIntegration'' = integrationOf P D"
    by blast
  from assms have m: "migrateClaudeCodeIntegration P D = Inr (integrationOf P D)"
    by (simp add: hasNestedRecords_def integrationOf_returns)
  show "\<exists>R. migrateSettings N P D = Inr R
            \<and> (\<not> truthy (getProp (field R ''claudeCodeIntegration'') ''stopHookEnabled'')
                 \<longrightarrow> getProp (field R ''claudeCodeIntegration'') ''enhancedInputAutoPopup''
                      \<noteq> JStr ''hideWhileRunning'')"
    using r f integration_consistent [OF m] by auto
qed

text \<open>
  The theorem on the shipped defaults and the persisted pair of the specification's
  example: the migrated snapshot holds \<^verbatim>\<open>"always"\<close> and \<^verbatim>\<open>false\<close>.
\<close>

theorem integration_repair_witness:
  "hasNestedRecords (getInitialState exampleEnvironment)
   \<and> getProp (getProp persistedInconsistent ''claudeCodeIntegration'') ''enhancedInputAutoPopup''
       = JStr ''hideWhileRunning''
   \<and> getProp (getProp persistedInconsistent ''claudeCodeIntegration'') ''stopHookEnabled'' = JBool False
   \<and> resultProp (migrateSettings exampleNumber persistedInconsistent (getInitialState exampleEnvironment))
         ''claudeCodeIntegration'' ''enhancedInputAutoPopup'' = Some (JStr ''always'')
   \<and> resultProp (migrateSettings exampleNumber persistedInconsistent (getInitialState exampleEnvironment))
         ''claudeCodeIntegration'' ''stopHookEnabled'' = Some (JBool False)"
proof -
  have p: "getProp (getProp persistedInconsistent ''claudeCodeIntegration'') ''enhancedInputAutoPopup''
       = JStr ''hideWhileRunning''"
    "getProp (getProp persistedInconsistent ''claudeCodeIntegration'') ''stopHookEnabled'' = JBool False"
    by (simp_all add: persistedInconsistent_def object_def field_of_list)
  show ?thesis
    using integration_repair [OF initial_nested [of exampleEnvironment],
        where P = persistedInconsistent and N = exampleNumber]
      p initial_nested [of exampleEnvironment]
    by (auto simp: resultProp_def)
qed

section \<open>Properties of the renderer migration\<close>

lemma result_renderer:
  assumes "truthy P" and "hasNestedRecords D"
  shows "\<exists>R. migrateSettings N P D = Inr R
          \<and> field R ''terminalRenderer'' =
              (if truthy (terminalRenderer P) then terminalRenderer P
               else field (D ++\<^sub>f ownProps P) ''terminalRenderer'')
          \<and> field R ''backgroundRenderer'' = field (D ++\<^sub>f ownProps P) ''backgroundRenderer''"
proof -
  let ?R = "mergedState N P D (integrationOf P D) (statusOf P D)"
  have "field ?R ''backgroundRenderer'' = field (D ++\<^sub>f ownProps P) ''backgroundRenderer''"
    by (rule mergedState_base [OF overrides_others(2)]) simp
  with migrateSettings_truthy [OF assms, of N] mergedState_renderer [of N P D "integrationOf P D" "statusOf P D"]
  show ?thesis by simp
qed

text \<open>
  C6, as the code has it. Let the current state hold its nested records. A persisted
  \<^verbatim>\<open>terminalRenderer\<close> of \<^verbatim>\<open>"canvas"\<close> becomes \<^verbatim>\<open>"webgl"\<close>; any other persisted
  \<^verbatim>\<open>terminalRenderer\<close> is kept, and without one the current state's stays. There is no
  \<^verbatim>\<open>backgroundRenderer\<close> field: a persisted property of that name is copied like any
  unknown property, whatever it holds.
\<close>

theorem terminal_renderer_migration:
  assumes "hasNestedRecords D"
  shows "\<exists>R. migrateSettings N P D = Inr R
       \<and> (getProp P ''terminalRenderer'' = JStr ''canvas'' \<longrightarrow> field R ''terminalRenderer'' = JStr ''webgl'')
       \<and> (\<forall>v. fmlookup (ownProps P) ''terminalRenderer'' = Some v \<and> v \<noteq> JStr ''canvas''
              \<longrightarrow> field R ''terminalRenderer'' = v)
       \<and> (fmlookup (ownProps P) ''terminalRenderer'' = None
              \<longrightarrow> field R ''terminalRenderer'' = field D ''terminalRenderer'')
       \<and> field R ''backgroundRenderer'' = field (D ++\<^sub>f ownProps P) ''backgroundRenderer''"
proof (cases "truthy P")
  case False
  then have "migrateSettings N P D = Inr D" by (rule migrateSettings_falsy)
  moreover have "ownProps P = fmempty" using False by (rule ownProps_falsy)
  moreover from this have "getProp P ''terminalRenderer'' = JUndefined"
    by (simp add: getProp_no_props)
  ultimately show ?thesis by simp
next
  case True
  from result_renderer [OF True assms, of N] obtain R where
    r: "migrateSettings N P D = Inr R" and
    t: "field R ''terminalRenderer'' =
              (if truthy (terminalRenderer P) then terminalRenderer P
               else field (D ++\<^sub>f ownProps P) ''terminalRenderer'')" and
    b: "field R ''backgroundRenderer'' = field (D ++\<^sub>f ownProps P) ''backgroundRenderer''"
    by blast
  have c: "getProp P ''terminalRenderer'' = JStr ''canvas'' \<longrightarrow> field R ''terminalRenderer'' = JStr ''webgl''"
    using t by (simp add: terminalRenderer_def truthy_def)
  have k: "\<forall>v. fmlookup (ownProps P) ''terminalRenderer'' = Some v \<and> v \<noteq> JStr ''canvas''
              \<longrightarrow> field R ''terminalRenderer'' = v"
    using t by (auto simp: terminalRenderer_def getProp_own field_def fmlookup_fmadd_cases
                     simp del: fmlookup_add)
  have a: "fmlookup (ownProps P) ''terminalRenderer'' = None
              \<longrightarrow> field R ''terminalRenderer'' = field D ''terminalRenderer''"
    using t by (auto simp: terminalRenderer_def getProp_absent truthy_def field_def fmlookup_fmadd_cases
                     simp del: fmlookup_add)
  show ?thesis by (intro exI [of _ R] conjI r c k a b)
qed

text \<open>
  The theorem on the shipped defaults: a persisted \<^verbatim>\<open>"canvas"\<close> gives \<^verbatim>\<open>"webgl"\<close>, a
  persisted \<^verbatim>\<open>"dom"\<close> is kept.
\<close>

theorem terminal_renderer_migration_witness:
  "hasNestedRecords (getInitialState exampleEnvironment)
   \<and> getProp persistedCanvas ''terminalRenderer'' = JStr ''canvas''
   \<and> resultField (migrateSettings exampleNumber persistedCanvas (getInitialState exampleEnvironment))
        ''terminalRenderer'' = Some (JStr ''webgl'')
   \<and> fmlookup (ownProps persistedDom) ''terminalRenderer'' = Some (JStr ''dom'')
   \<and> resultField (migrateSettings exampleNumber persistedDom (getInitialState exampleEnvironment))
        ''terminalRenderer'' = Some (JStr ''dom'')"
proof -
  have c: "getProp persistedCanvas ''terminalRenderer'' = JStr ''canvas''"
    by (simp add: persistedCanvas_def object_def field_of_list)
  have d: "fmlookup (ownProps persistedDom) ''terminalRenderer'' = Some (JStr ''dom'')"
    by (simp add: persistedDom_def object_def fmlookup_of_list)
  have 1: "resultField (migrateSettings exampleNumber persistedCanvas (getInitialState exampleEnvironment))
        ''terminalRenderer'' = Some (JStr ''webgl'')"
    using terminal_renderer_migration [OF initial_nested [of exampleEnvironment],
        where P = persistedCanvas and N = exampleNumber] c
    by (auto simp: resultField_def)
  have 2: "resultField (migrateSettings exampleNumber persistedDom (getInitialState exampleEnvironment))
        ''terminalRenderer'' = Some (JStr ''dom'')"
    using terminal_renderer_migration [OF initial_nested [of exampleEnvironment],
        where P = persistedDom and N = exampleNumber] d
    by (auto simp: resultField_def)
  from initial_nested [of exampleEnvironment] c 1 d 2 show ?thesis by blast
qed

text \<open>
  C6 as stated fails for \<^verbatim>\<open>backgroundRenderer\<close>: a persisted
  \<^verbatim>\<open>backgroundRenderer: "canvas"\<close> comes back as \<^verbatim>\<open>"canvas"\<close>, not as \<^verbatim>\<open>"webgl"\<close>.
\<close>

theorem background_renderer_counterexample:
  "getProp persistedBackgroundCanvas ''backgroundRenderer'' = JStr ''canvas''
   \<and> resultField (migrateSettings exampleNumber persistedBackgroundCanvas
         (getInitialState exampleEnvironment)) ''backgroundRenderer'' = Some (JStr ''canvas'')
   \<and> resultField (migrateSettings exampleNumber persistedBackgroundCanvas
         (getInitialState exampleEnvironment)) ''backgroundRenderer'' \<noteq> Some (JStr ''webgl'')"
proof -
  have t: "truthy persistedBackgroundCanvas"
    by (simp add: persistedBackgroundCanvas_def object_def truthy_def)
  have b: "field (getInitialState exampleEnvironment ++\<^sub>f ownProps persistedBackgroundCanvas)
        ''backgroundRenderer'' = JStr ''canvas''"
    by (simp add: persistedBackgroundCanvas_def object_def field_fmadd_of_list del: fmlookup_add)
  have c: "getProp persistedBackgroundCanvas ''backgroundRenderer'' = JStr ''canvas''"
    by (simp add: persistedBackgroundCanvas_def object_def field_of_list)
  from result_renderer [OF t initial_nested [of exampleEnvironment], where N = exampleNumber] b
  have "resultField (migrateSettings exampleNumber persistedBackgroundCanvas
         (getInitialState exampleEnvironment)) ''backgroundRenderer'' = Some (JStr ''canvas'')"
    by (auto simp: resultField_def)
  with c show ?thesis by simp
qed

section \<open>Properties of the agent detection status filter\<close>

lemma result_status:
  assumes "truthy P" and "hasNestedRecords D"
  shows "\<exists>R. migrateSettings N P D = Inr R \<and> field R ''agentDetectionStatus'' = statusOf P D"
proof -
  have "field (mergedState N P D (integrationOf P D) (statusOf P D)) ''agentDetectionStatus''
          = statusOf P D"
    by (rule mergedState_fields)
  with migrateSettings_truthy [OF assms, of N] show ?thesis by simp
qed

lemma agentKept_enabled:
  "\<not> nullish (field D ''agentSettings'') \<Longrightarrow> agentKept P D agentId = agentEnabled P D agentId"
  by (simp add: agentKept_def agentConfig_def agentEnabled_def getMember_def Let_def)

text \<open>
  C5. For every persisted state, migrating against the initial state returns a
  snapshot whose \<^verbatim>\<open>agentDetectionStatus\<close> is an object holding exactly the entries of the
  union of the initial and the persisted detection status whose agent id is enabled,
  each with its value.
\<close>

theorem detection_status_filtered:
  "\<exists>R S. migrateSettings N P (getInitialState env) = Inr R
      \<and> field R ''agentDetectionStatus'' = JObj S
      \<and> (\<forall>agentId. fmlookup S agentId =
            (if agentEnabled P (getInitialState env) agentId
             then fmlookup (ownProps (field (getInitialState env) ''agentDetectionStatus'')
                            ++\<^sub>f ownProps (getProp P ''agentDetectionStatus'')) agentId
             else None))"
proof (cases "truthy P")
  case False
  have r: "migrateSettings N P (getInitialState env) = Inr (getInitialState env)"
    using False by (rule migrateSettings_falsy)
  have "ownProps P = fmempty" using False by (rule ownProps_falsy)
  then have "getProp P ''agentDetectionStatus'' = JUndefined"
    by (simp add: getProp_no_props)
  then have e: "ownProps (field (getInitialState env) ''agentDetectionStatus'')
                  ++\<^sub>f ownProps (getProp P ''agentDetectionStatus'') = fmempty"
    by (simp add: initial_status ownProps_def)
  show ?thesis
    unfolding e by (intro exI [of _ "getInitialState env"] exI [of _ fmempty] conjI r initial_status) simp
next
  case True
  let ?D = "getInitialState env"
  from result_status [OF True initial_nested, of N env] obtain R where
    r: "migrateSettings N P ?D = Inr R" and
    f: "field R ''agentDetectionStatus'' = statusOf P ?D"
    by blast
  have n: "\<not> nullish (field ?D ''agentSettings'')"
    using initial_nested [of env] by (simp add: hasNestedRecords_def)
  have k: "agentKept P ?D = agentEnabled P ?D"
    by (rule ext) (rule agentKept_enabled [OF n])
  let ?S = "fmfilter (agentEnabled P ?D)
       (ownProps (field ?D ''agentDetectionStatus'') ++\<^sub>f ownProps (getProp P ''agentDetectionStatus''))"
  have f': "field R ''agentDetectionStatus'' = JObj ?S"
    using f by (simp add: statusOf_def k)
  have l: "\<forall>agentId. fmlookup ?S agentId =
            (if agentEnabled P ?D agentId
             then fmlookup (ownProps (field ?D ''agentDetectionStatus'')
                            ++\<^sub>f ownProps (getProp P ''agentDetectionStatus'')) agentId
             else None)"
    by (simp only: fmlookup_filter) simp
  show ?thesis
    by (intro exI [of _ R] exI [of _ ?S] conjI r f' l)
qed

text \<open>
  The theorem on the specification's example: detection entries for foo, bar and
  claude, and persisted agent settings that enable bar only. The snapshot keeps bar (by
  its persisted entry) and claude (by the entry of the initial state), and drops foo.
\<close>

theorem detection_status_filtered_witness:
  "agentEnabled persistedDetection (getInitialState exampleEnvironment) ''bar''
   \<and> agentEnabled persistedDetection (getInitialState exampleEnvironment) ''claude''
   \<and> \<not> agentEnabled persistedDetection (getInitialState exampleEnvironment) ''foo''
   \<and> resultProp (migrateSettings exampleNumber persistedDetection (getInitialState exampleEnvironment))
         ''agentDetectionStatus'' ''bar'' = Some (detectionInfo 2)
   \<and> resultProp (migrateSettings exampleNumber persistedDetection (getInitialState exampleEnvironment))
         ''agentDetectionStatus'' ''claude'' = Some (detectionInfo 3)
   \<and> resultProp (migrateSettings exampleNumber persistedDetection (getInitialState exampleEnvironment))
         ''agentDetectionStatus'' ''foo'' = Some JUndefined"
proof -
  let ?D = "getInitialState exampleEnvironment"
  have b: "agentEnabled persistedDetection ?D ''bar''"
    by (simp add: agentEnabled_def persistedDetection_def object_def field_of_list agentEntry_def
          nullish_def truthy_def)
  have c: "agentEnabled persistedDetection ?D ''claude''"
    by (simp add: agentEnabled_def persistedDetection_def object_def field_of_list agentEntry_def
          nullish_def truthy_def initial_agentSettings defaultAgentSettings_def builtinAgents_def)
  have f: "\<not> agentEnabled persistedDetection ?D ''foo''"
    by (simp add: agentEnabled_def persistedDetection_def object_def field_of_list agentEntry_def
          nullish_def truthy_def initial_agentSettings defaultAgentSettings_def builtinAgents_def)
  have u: "ownProps (field ?D ''agentDetectionStatus'')
             ++\<^sub>f ownProps (getProp persistedDetection ''agentDetectionStatus'')
           = fmap_of_list [(''foo'', detectionInfo 1), (''bar'', detectionInfo 2), (''claude'', detectionInfo 3)]"
    by (simp add: initial_status persistedDetection_def object_def field_of_list)
  from detection_status_filtered [of exampleNumber persistedDetection exampleEnvironment]
  obtain R S where
    r: "migrateSettings exampleNumber persistedDetection ?D = Inr R" and
    s: "field R ''agentDetectionStatus'' = JObj S" and
    l: "\<And>agentId. fmlookup S agentId =
            (if agentEnabled persistedDetection ?D agentId
             then fmlookup (ownProps (field ?D ''agentDetectionStatus'')
                            ++\<^sub>f ownProps (getProp persistedDetection ''agentDetectionStatus'')) agentId
             else None)"
    by blast
  have "fmlookup S ''bar'' = Some (detectionInfo 2)"
       "fmlookup S ''claude'' = Some (detectionInfo 3)"
       "fmlookup S ''foo'' = None"
    unfolding l u using b c f by (simp_all add: fmlookup_of_list)
  then have "field S ''bar'' = detectionInfo 2" "field S ''claude'' = detectionInfo 3"
       "field S ''foo'' = JUndefined"
    by (simp_all add: field_def)
  with r s b c f show ?thesis
    by (simp add: resultProp_def)
qed


section \<open>Properties of the migrated snapshot\<close>

lemma clampNumber_within:
  assumes "lo \<le> hi" and "numberWithin lo hi fb"
  shows "numberWithin lo hi (clampNumber N v (Fin lo) (Fin hi) fb)"
proof (cases "finiteValue N v")
  case None
  with assms(2) show ?thesis by (simp add: clampNumber_finiteValue)
next
  case (Some r)
  then show ?thesis
    using clamp_inRange [OF assms(1), of "Fin r"]
    by (simp add: clampNumber_finiteValue numberWithin_def isFinite_def)
qed

lemma sanitizeBoolean_isBoolean: "isBoolean fb \<Longrightarrow> isBoolean (sanitizeBoolean v fb)"
  by (cases v) (simp_all add: sanitizeBoolean_def isBoolean_def)

lemma sanitizeString_isString: "isString fb \<Longrightarrow> isString (sanitizeString v fb)"
  by (cases v) (simp_all add: sanitizeString_def isString_def)

lemma mergedState_conforms:
  assumes "backgroundConforms D"
  shows "backgroundConforms (mergedState N P D c a)"
proof -
  have s: "isString (sanitizedBackgroundUrlPath P D)" "isString (sanitizedBackgroundImagePath P D)"
    using assms
    by (simp_all add: backgroundConforms_def sanitizedBackgroundUrlPath_def
          sanitizedBackgroundImagePath_def sanitizeString_isString)
  have u: "isString (migratedBackgroundUrlPath P D)"
    using s by (simp add: migratedBackgroundUrlPath_def js_or_def isString_def)
  show ?thesis
    using assms u
    unfolding backgroundConforms_def mergedState_fields
    by (simp add: sanitizedBackgroundOpacity_def sanitizedBackgroundBlur_def
          sanitizedBackgroundBrightness_def sanitizedBackgroundSaturation_def
          sanitizedBackgroundRandomInterval_def sanitizedBackgroundImageEnabled_def
          sanitizedBackgroundRandomEnabled_def sanitizedBackgroundImagePath_def
          sanitizedBackgroundFolderPath_def sanitizedBackgroundSourceType_def
          sanitizedBackgroundSizeMode_def
          clampNumber_within sanitizeBoolean_isBoolean sanitizeString_isString)
qed


lemma noUndefined_field: "noUndefined m \<Longrightarrow> k |\<in>| fmdom m \<Longrightarrow> field m k \<noteq> JUndefined"
  by (auto simp: noUndefined_def field_def dest: fmpredD split: option.splits)

lemma noUndefined_lookup: "noUndefined m \<Longrightarrow> fmlookup m k = Some v \<Longrightarrow> v \<noteq> JUndefined"
  by (auto simp: noUndefined_def dest: fmpredD)

lemma untyped_undefined:
  "\<not> numberWithin lo hi JUndefined"
  "\<not> isBoolean JUndefined"
  "\<not> isString JUndefined"
  "JUndefined \<notin> set sourceTypes"
  "JUndefined \<notin> set sizeModes"
  by (auto simp: numberWithin_def isBoolean_def isString_def sourceTypes_def sizeModes_def)

lemma xterm_defined: "migrateXtermKeybindings P D \<noteq> JUndefined"
  by (simp add: migrateXtermKeybindings_def Let_def)

lemma mergedDomain_defined: "mergedDomain P D k \<noteq> JUndefined"
  by (simp add: mergedDomain_def)

lemma statusOf_defined: "statusOf P D \<noteq> JUndefined"
  by (simp add: statusOf_def)

lemma integrationOf_defined:
  "\<not> nullish (field D ''claudeCodeIntegration'') \<Longrightarrow> integrationOf P D \<noteq> JUndefined"
  using integration_returns [of D P] by (auto simp: integrationOf_def)

lemma coalesce_defined: "b \<noteq> JUndefined \<Longrightarrow> js_coalesce a b \<noteq> JUndefined"
  by (simp add: js_coalesce_def nullish_def)

lemma background_defined:
  assumes "backgroundConforms D"
  shows "sanitizedBackgroundOpacity N P D \<noteq> JUndefined"
    "sanitizedBackgroundBlur N P D \<noteq> JUndefined"
    "sanitizedBackgroundBrightness N P D \<noteq> JUndefined"
    "sanitizedBackgroundSaturation N P D \<noteq> JUndefined"
    "sanitizedBackgroundRandomInterval N P D \<noteq> JUndefined"
    "sanitizedBackgroundImageEnabled P D \<noteq> JUndefined"
    "sanitizedBackgroundRandomEnabled P D \<noteq> JUndefined"
    "sanitizedBackgroundImagePath P D \<noteq> JUndefined"
    "migratedBackgroundUrlPath P D \<noteq> JUndefined"
    "sanitizedBackgroundFolderPath P D \<noteq> JUndefined"
    "sanitizedBackgroundSourceType P D \<noteq> JUndefined"
    "sanitizedBackgroundSizeMode P D \<noteq> JUndefined"
proof -
  note c = mergedState_conforms [OF assms, of N P JUndefined JUndefined,
      unfolded backgroundConforms_def mergedState_fields]
  show "sanitizedBackgroundOpacity N P D \<noteq> JUndefined"
    "sanitizedBackgroundBlur N P D \<noteq> JUndefined"
    "sanitizedBackgroundBrightness N P D \<noteq> JUndefined"
    "sanitizedBackgroundSaturation N P D \<noteq> JUndefined"
    "sanitizedBackgroundRandomInterval N P D \<noteq> JUndefined"
    "sanitizedBackgroundImageEnabled P D \<noteq> JUndefined"
    "sanitizedBackgroundRandomEnabled P D \<noteq> JUndefined"
    "sanitizedBackgroundImagePath P D \<noteq> JUndefined"
    "migratedBackgroundUrlPath P D \<noteq> JUndefined"
    "sanitizedBackgroundFolderPath P D \<noteq> JUndefined"
    "sanitizedBackgroundSourceType P D \<noteq> JUndefined"
    "sanitizedBackgroundSizeMode P D \<noteq> JUndefined"
    using c by (auto simp: untyped_undefined)
qed

lemma overrides_defined:
  assumes "backgroundConforms D" and "noUndefined D" and "hasNestedRecords D"
    and "map_of (overrides N P D (integrationOf P D) (statusOf P D)) k = Some v"
    and "k |\<in>| fmdom D"
  shows "v \<noteq> JUndefined"
proof -
  have m: "k = ''mcpServers'' \<Longrightarrow> field D ''mcpServers'' \<noteq> JUndefined"
    and p: "k = ''promptPresets'' \<Longrightarrow> field D ''promptPresets'' \<noteq> JUndefined"
    using assms(2,5) by (auto dest: noUndefined_field)
  have i: "integrationOf P D \<noteq> JUndefined"
    using assms(3) by (simp add: hasNestedRecords_def integrationOf_defined)
  have "(k, v) \<in> set (overrides N P D (integrationOf P D) (statusOf P D))"
    using assms(4) by (rule map_of_SomeD)
  then show ?thesis
    unfolding overrides_def
    using m p i background_defined [OF assms(1)]
    by (auto simp: xterm_defined mergedDomain_defined statusOf_defined coalesce_defined
          xterm_defined [THEN not_sym] mergedDomain_defined [THEN not_sym]
          statusOf_defined [THEN not_sym] coalesce_defined [THEN not_sym]
          dest: sym)
qed

lemma mergedState_present:
  assumes "backgroundConforms D" and "noUndefined D" and "hasNestedRecords D"
    and "noUndefined (ownProps P)" and "k |\<in>| fmdom D"
  shows "field (mergedState N P D (integrationOf P D) (statusOf P D)) k \<noteq> JUndefined"
proof -
  let ?ov = "overrides N P D (integrationOf P D) (statusOf P D)"
  have b: "field (D ++\<^sub>f ownProps P) k \<noteq> JUndefined"
    using assms(2,4,5)
    by (auto simp: field_def fmlookup_fmadd_cases simp del: fmlookup_add
             dest: noUndefined_lookup noUndefined_field split: option.splits)
  show ?thesis
  proof (cases "map_of ?ov k")
    case (Some v)
    with overrides_defined [OF assms(1,2,3) Some assms(5)] show ?thesis
      by (simp add: mergedState_override)
  next
    case None
    show ?thesis
    proof (cases "k = ''terminalRenderer''")
      case True
      with b show ?thesis
        by (auto simp: mergedState_renderer truthy_def)
    next
      case False
      with None b show ?thesis by (simp add: mergedState_base)
    qed
  qed
qed


lemma xterm_domain:
  "fmdom (ownProps (field D ''xtermKeybindings'')) |\<subseteq>| fmdom (ownProps (migrateXtermKeybindings P D))"
  by (auto simp: migrateXtermKeybindings_def Let_def)

lemma mergedDomain_domain:
  "fmdom (ownProps (field D k)) |\<subseteq>| fmdom (ownProps (mergedDomain P D k))"
  by (auto simp: mergedDomain_def)

lemma integration_domain:
  assumes "\<not> nullish (field D ''claudeCodeIntegration'')"
  shows "fmdom (ownProps (field D ''claudeCodeIntegration'')) |\<subseteq>| fmdom (ownProps (integrationOf P D))"
  using assms
  by (auto simp: integrationOf_def migrateClaudeCodeIntegration_def getMember_def Let_def
           split: jsval.splits)

lemma domain_kept:
  assumes "hasNestedRecords D" and "k \<in> set mergedRecords"
  shows "fmdom (ownProps (field D k))
         |\<subseteq>| fmdom (ownProps (field (mergedState N P D (integrationOf P D) (statusOf P D)) k))"
proof -
  have i: "fmdom (ownProps (field D ''claudeCodeIntegration''))
           |\<subseteq>| fmdom (ownProps (integrationOf P D))"
    using assms(1) by (simp add: hasNestedRecords_def integration_domain)
  from assms(2) consider "k = ''xtermKeybindings''" | "k = ''claudeCodeIntegration''"
    | "field (mergedState N P D (integrationOf P D) (statusOf P D)) k = mergedDomain P D k"
    by (auto simp: mergedRecords_def mergedState_fields)
  then show ?thesis
  proof cases
    case 1
    then show ?thesis by (simp add: mergedState_fields xterm_domain)
  next
    case 2
    then show ?thesis using i by (simp add: mergedState_fields)
  next
    case 3
    then show ?thesis by (simp add: mergedDomain_domain)
  qed
qed

lemma overrides_keys: "map fst (overrides N P D c a) = migratedFields"
  by (simp add: overrides_def migratedFields_def)

lemma overrides_none:
  "k \<notin> set migratedFields \<Longrightarrow> map_of (overrides N P D c a) k = None"
  by (simp only: map_of_eq_None_iff overrides_keys set_map [symmetric] not_False_eq_True)

lemma persistedOrCurrent_field: "persistedOrCurrent P D k = field (D ++\<^sub>f ownProps P) k"
  by (simp add: persistedOrCurrent_def field_def fmlookup_fmadd_cases del: fmlookup_add
           split: option.splits)

lemma mergedState_copied:
  assumes "k \<notin> set migratedFields" and "k \<noteq> ''terminalRenderer''"
  shows "field (mergedState N P D c a) k = persistedOrCurrent P D k"
  using mergedState_base [OF overrides_none [OF assms(1)] assms(2)]
  by (simp add: persistedOrCurrent_field)

lemma mergedState_renderer_copied:
  "field (mergedState N P D c a) ''terminalRenderer'' =
     (if getProp P ''terminalRenderer'' = JStr ''canvas'' then JStr ''webgl''
      else persistedOrCurrent P D ''terminalRenderer'')"
proof (cases "getProp P ''terminalRenderer'' = JStr ''canvas''")
  case True
  then show ?thesis by (simp add: mergedState_renderer terminalRenderer_def truthy_def)
next
  case False
  show ?thesis
  proof (cases "truthy (getProp P ''terminalRenderer'')")
    case True
    then have "getProp P ''terminalRenderer'' \<noteq> JUndefined" by (auto simp: truthy_def)
    then have "fmlookup (ownProps P) ''terminalRenderer'' = Some (getProp P ''terminalRenderer'')"
      by (intro getProp_defined) simp_all
    with False True show ?thesis
      by (simp add: mergedState_renderer terminalRenderer_def persistedOrCurrent_def)
  next
    case t: False
    with False show ?thesis
      by (simp add: mergedState_renderer terminalRenderer_def persistedOrCurrent_field)
  qed
qed

lemma mergedState_numbers:
  "\<forall>(k, lo, hi) \<in> set backgroundNumbers.
      field (mergedState N P D c a) k = clampNumber N (getProp P k) (Fin lo) (Fin hi) (field D k)"
  unfolding backgroundNumbers_def
  by (simp add: mergedState_fields sanitizedBackgroundOpacity_def sanitizedBackgroundBlur_def
        sanitizedBackgroundBrightness_def sanitizedBackgroundSaturation_def
        sanitizedBackgroundRandomInterval_def)

lemma sanitizeBoolean_if: "sanitizeBoolean v fb = (if isBoolean v then v else fb)"
  by (cases v) (simp_all add: sanitizeBoolean_def isBoolean_def)

lemma sanitizeString_if: "sanitizeString v fb = (if isString v then v else fb)"
  by (cases v) (simp_all add: sanitizeString_def isString_def)

lemma mergedState_booleans:
  "\<forall>k \<in> set [''backgroundImageEnabled'', ''backgroundRandomEnabled''].
      field (mergedState N P D c a) k = (if isBoolean (getProp P k) then getProp P k else field D k)"
  by (simp add: mergedState_fields sanitizedBackgroundImageEnabled_def
        sanitizedBackgroundRandomEnabled_def sanitizeBoolean_if)

lemma mergedState_strings:
  "\<forall>k \<in> set [''backgroundImagePath'', ''backgroundFolderPath''].
      field (mergedState N P D c a) k = (if isString (getProp P k) then getProp P k else field D k)"
  by (simp add: mergedState_fields sanitizedBackgroundImagePath_def
        sanitizedBackgroundFolderPath_def sanitizeString_if)

lemma truthy_member: "v \<in> set sourceTypes \<or> v \<in> set sizeModes \<Longrightarrow> truthy v"
  by (auto simp: sourceTypes_def sizeModes_def truthy_def)

lemma mergedState_choices:
  "field (mergedState N P D c a) ''backgroundSourceType'' =
     (if getProp P ''backgroundSourceType'' \<in> set sourceTypes
      then getProp P ''backgroundSourceType'' else field D ''backgroundSourceType'')"
  "field (mergedState N P D c a) ''backgroundSizeMode'' =
     (if getProp P ''backgroundSizeMode'' \<in> set sizeModes
      then getProp P ''backgroundSizeMode'' else field D ''backgroundSizeMode'')"
  using truthy_member [of "getProp P ''backgroundSourceType''"]
    truthy_member [of "getProp P ''backgroundSizeMode''"]
  by (auto simp: mergedState_fields sanitizedBackgroundSourceType_def sanitizedBackgroundSizeMode_def)

lemma mergedState_url:
  assumes "isString (field D ''backgroundUrlPath'')"
  shows "field (mergedState N P D c a) ''backgroundUrlPath'' =
     (let url = (if isString (getProp P ''backgroundUrlPath'')
                 then getProp P ''backgroundUrlPath'' else field D ''backgroundUrlPath'')
      in if url = JStr [] then
           (if field (mergedState N P D c a) ''backgroundSourceType'' = JStr ''url''
            then field (mergedState N P D c a) ''backgroundImagePath'' else JStr [])
         else url)"
proof -
  have "isString (sanitizedBackgroundUrlPath P D)"
    using assms by (simp add: sanitizedBackgroundUrlPath_def sanitizeString_isString)
  then have "truthy (sanitizedBackgroundUrlPath P D) \<longleftrightarrow> sanitizedBackgroundUrlPath P D \<noteq> JStr []"
    by (cases "sanitizedBackgroundUrlPath P D") (simp_all add: isString_def truthy_def)
  then show ?thesis
    by (simp add: mergedState_fields migratedBackgroundUrlPath_def js_or_def Let_def
          sanitizedBackgroundUrlPath_def sanitizeString_if)
qed

lemma mergedState_coalesced:
  "\<forall>k \<in> set [''mcpServers'', ''promptPresets''].
      field (mergedState N P D c a) k = (if nullish (getProp P k) then field D k else getProp P k)"
  by (simp add: mergedState_fields js_coalesce_def)

lemma mergedState_records:
  "\<forall>k \<in> set mergedRecords. k \<noteq> ''xtermKeybindings'' \<and> k \<noteq> ''claudeCodeIntegration''
      \<longrightarrow> field (mergedState N P D c a) k = JObj (ownProps (field D k) ++\<^sub>f ownProps (getProp P k))"
  by (simp add: mergedRecords_def mergedState_fields mergedDomain_def)


text \<open>
  C1, as the code has it. Let the current state \<open>D\<close> hold its nested records, have no
  undefined field and conform in its background fields, and let no own property of the
  persisted value \<open>P\<close> be \<^verbatim>\<open>undefined\<close> (as after \<^verbatim>\<open>JSON.parse\<close>). Then the
  migration returns a snapshot \<open>R\<close> of which the following holds.

  \<^item> The background fields of \<open>R\<close> conform to their declared types and bounds.
  \<^item> Every field of \<open>D\<close> is present in \<open>R\<close> and not \<^verbatim>\<open>undefined\<close>.
  \<^item> Each of the thirteen merged records holds in \<open>R\<close> every field of the record of \<open>D\<close>.
  \<^item> When \<open>P\<close> is falsy, \<open>R\<close> is \<open>D\<close>.

  When \<open>P\<close> is not falsy:

  \<^item> each background number is \<open>clampNumber\<close> of the value of \<open>P\<close>, with the bounds of
    the field and the value of \<open>D\<close> as fallback;
  \<^item> the two background booleans, and \<^verbatim>\<open>backgroundImagePath\<close> and
    \<^verbatim>\<open>backgroundFolderPath\<close>, are the value of \<open>P\<close> when that has the declared type, and
    the value of \<open>D\<close> otherwise;
  \<^item> \<^verbatim>\<open>backgroundUrlPath\<close> is the value of \<open>P\<close> when that is a string and the value of
    \<open>D\<close> otherwise, unless this is the empty string: then it is the
    \<^verbatim>\<open>backgroundImagePath\<close> of \<open>R\<close> when the source type of \<open>R\<close> is \<^verbatim>\<open>"url"\<close>, and the
    empty string when it is not;
  \<^item> \<^verbatim>\<open>backgroundSourceType\<close> and \<^verbatim>\<open>backgroundSizeMode\<close> are the value of \<open>P\<close> when
    that is one of the declared values, and the value of \<open>D\<close> otherwise;
  \<^item> \<^verbatim>\<open>terminalRenderer\<close> is \<^verbatim>\<open>"webgl"\<close> when that of \<open>P\<close> is \<^verbatim>\<open>"canvas"\<close>, and
    otherwise the own property of \<open>P\<close> when there is one, whatever it holds, and the
    field of \<open>D\<close> when there is none;
  \<^item> \<^verbatim>\<open>mcpServers\<close> and \<^verbatim>\<open>promptPresets\<close> are the value of \<open>P\<close> unless that is
    \<^verbatim>\<open>null\<close> or \<^verbatim>\<open>undefined\<close>, and the value of \<open>D\<close> then;
  \<^item> each merged record other than \<^verbatim>\<open>xtermKeybindings\<close> and \<^verbatim>\<open>claudeCodeIntegration\<close>
    is the record of \<open>D\<close> overwritten by the own properties of the value of \<open>P\<close>;
  \<^item> every field the literal does not set (\<^verbatim>\<open>fontSize\<close>, \<^verbatim>\<open>proxySettings\<close>,
    \<^verbatim>\<open>shellConfig\<close>, \<^verbatim>\<open>agentSettings\<close>, any unknown property) is the own property of
    \<open>P\<close> when there is one, whatever it holds, and the field of \<open>D\<close> when there is none.
\<close>

theorem migration_result_conforms:
  assumes "hasNestedRecords D" and "backgroundConforms D" and "noUndefined D"
    and "noUndefined (ownProps P)"
  shows "\<exists>R. migrateSettings N P D = Inr R
       \<and> backgroundConforms R
       \<and> (\<forall>k. k |\<in>| fmdom D \<longrightarrow> field R k \<noteq> JUndefined)
       \<and> (\<forall>k \<in> set mergedRecords.
             fmdom (ownProps (field D k)) |\<subseteq>| fmdom (ownProps (field R k)))
       \<and> (\<not> truthy P \<longrightarrow> R = D)
       \<and> (truthy P \<longrightarrow>
            (\<forall>(k, lo, hi) \<in> set backgroundNumbers.
                field R k = clampNumber N (getProp P k) (Fin lo) (Fin hi) (field D k))
          \<and> (\<forall>k \<in> set [''backgroundImageEnabled'', ''backgroundRandomEnabled''].
                field R k = (if isBoolean (getProp P k) then getProp P k else field D k))
          \<and> (\<forall>k \<in> set [''backgroundImagePath'', ''backgroundFolderPath''].
                field R k = (if isString (getProp P k) then getProp P k else field D k))
          \<and> field R ''backgroundUrlPath'' =
               (let url = (if isString (getProp P ''backgroundUrlPath'')
                           then getProp P ''backgroundUrlPath'' else field D ''backgroundUrlPath'')
                in if url = JStr [] then
                     (if field R ''backgroundSourceType'' = JStr ''url''
                      then field R ''backgroundImagePath'' else JStr [])
                   else url)
          \<and> field R ''backgroundSourceType'' =
               (if getProp P ''backgroundSourceType'' \<in> set sourceTypes
                then getProp P ''backgroundSourceType'' else field D ''backgroundSourceType'')
          \<and> field R ''backgroundSizeMode'' =
               (if getProp P ''backgroundSizeMode'' \<in> set sizeModes
                then getProp P ''backgroundSizeMode'' else field D ''backgroundSizeMode'')
          \<and> field R ''terminalRenderer'' =
               (if getProp P ''terminalRenderer'' = JStr ''canvas'' then JStr ''webgl''
                else persistedOrCurrent P D ''terminalRenderer'')
          \<and> (\<forall>k \<in> set [''mcpServers'', ''promptPresets''].
                field R k = (if nullish (getProp P k) then field D k else getProp P k))
          \<and> (\<forall>k \<in> set mergedRecords.
                k \<noteq> ''xtermKeybindings'' \<and> k \<noteq> ''claudeCodeIntegration''
                \<longrightarrow> field R k = JObj (ownProps (field D k) ++\<^sub>f ownProps (getProp P k)))
          \<and> (\<forall>k. k \<notin> set migratedFields \<and> k \<noteq> ''terminalRenderer''
                \<longrightarrow> field R k = persistedOrCurrent P D k))"
proof (cases "truthy P")
  case False
  then have r: "migrateSettings N P D = Inr D" by (rule migrateSettings_falsy)
  have p: "\<forall>k. k |\<in>| fmdom D \<longrightarrow> field D k \<noteq> JUndefined"
    using assms(3) by (auto dest: noUndefined_field)
  have d: "\<forall>k \<in> set mergedRecords.
             fmdom (ownProps (field D k)) |\<subseteq>| fmdom (ownProps (field D k))"
    by simp
  from False show ?thesis
    by (intro exI [of _ D] conjI r assms(2) p d) simp_all
next
  case True
  let ?R = "mergedState N P D (integrationOf P D) (statusOf P D)"
  have r: "migrateSettings N P D = Inr ?R"
    by (rule migrateSettings_truthy [OF True assms(1)])
  have c: "backgroundConforms ?R"
    by (rule mergedState_conforms [OF assms(2)])
  have p: "\<forall>k. k |\<in>| fmdom D \<longrightarrow> field ?R k \<noteq> JUndefined"
    using mergedState_present [OF assms(2,3,1,4)] by blast
  have d: "\<forall>k \<in> set mergedRecords.
             fmdom (ownProps (field D k)) |\<subseteq>| fmdom (ownProps (field ?R k))"
    using domain_kept [OF assms(1)] by blast
  have f: "\<not> truthy P \<longrightarrow> ?R = D" using True by simp
  have u: "isString (field D ''backgroundUrlPath'')"
    using assms(2) by (simp add: backgroundConforms_def)
  have o: "\<forall>k. k \<notin> set migratedFields \<and> k \<noteq> ''terminalRenderer''
              \<longrightarrow> field ?R k = persistedOrCurrent P D k"
    by (simp add: mergedState_copied)
  show ?thesis
    by (intro exI [of _ ?R] conjI impI r c p d f mergedState_numbers mergedState_booleans
          mergedState_strings mergedState_url [OF u] mergedState_choices
          mergedState_renderer_copied mergedState_coalesced mergedState_records o)
qed

lemma initial_conforms: "backgroundConforms (getInitialState env)"
  by (simp add: backgroundConforms_def initial_fields
        numberWithin_def inRange_def isBoolean_def isString_def num_def sourceTypes_def sizeModes_def)

lemma initial_noUndefined: "noUndefined (getInitialState env)"
  unfolding noUndefined_def getInitialState_def
  by (rule fmpred_of_list) (auto simp: initialEntries_def object_def num_def
        defaultXtermKeybindings_def defaultMainTabKeybindings_def defaultSourceControlKeybindings_def
        defaultSearchKeybindings_def defaultGlobalKeybindings_def defaultWorkspaceKeybindings_def
        defaultEditorSettings_def defaultAgentSettings_def getDefaultShellConfig_def
        defaultClaudeCodeIntegrationSettings_def defaultCommitMessageGeneratorSettings_def
        defaultCodeReviewSettings_def defaultBranchNameGeneratorSettings_def defaultHapiSettings_def
        defaultProxySettings_def defaultQuickTerminalSettings_def)

text \<open>
  The theorem on the shipped defaults and a persisted \<^verbatim>\<open>backgroundOpacity: 5\<close>: the
  snapshot conforms, its opacity is 1, and its agent settings are those of the defaults.
\<close>

theorem migration_result_conforms_witness:
  "hasNestedRecords (getInitialState exampleEnvironment)
   \<and> backgroundConforms (getInitialState exampleEnvironment)
   \<and> noUndefined (getInitialState exampleEnvironment)
   \<and> noUndefined (ownProps persistedOpacity)
   \<and> (\<exists>R. migrateSettings exampleNumber persistedOpacity (getInitialState exampleEnvironment) = Inr R
         \<and> backgroundConforms R
         \<and> field R ''backgroundOpacity'' = num 1
         \<and> field R ''agentSettings'' = defaultAgentSettings)"
proof -
  let ?D = "getInitialState exampleEnvironment"
  have u: "noUndefined (ownProps persistedOpacity)"
    unfolding noUndefined_def persistedOpacity_def object_def ownProps_JObj
    by (rule fmpred_of_list) (simp add: num_def)
  have t: "truthy persistedOpacity"
    by (simp add: persistedOpacity_def object_def truthy_def)
  have b: "(''backgroundOpacity'', 0, 1) \<in> set backgroundNumbers"
    by (simp add: backgroundNumbers_def)
  have k: "''agentSettings'' \<notin> set migratedFields \<and> ''agentSettings'' \<noteq> ''terminalRenderer''"
    by (simp add: migratedFields_def)
  have v: "clampNumber exampleNumber (getProp persistedOpacity ''backgroundOpacity'') (Fin 0) (Fin 1)
             (field ?D ''backgroundOpacity'') = num 1"
    by (simp add: persistedOpacity_def object_def getProp_def fmlookup_of_list
          clampNumber_def num_def isFinite_def Math_min_def Math_max_def)
  have w: "persistedOrCurrent persistedOpacity ?D ''agentSettings'' = defaultAgentSettings"
    unfolding persistedOrCurrent_def persistedOpacity_def object_def ownProps_JObj fmlookup_of_list
    by (simp only: lookup_simps option.case initial_fields)
  have sel: "\<exists>R. p1 R \<and> p2 R \<and> q1 R \<and> q10 R"
    if "\<exists>R. p1 R \<and> p2 R \<and> p3 R \<and> p4 R \<and> p5 R
          \<and> (t \<longrightarrow> q1 R \<and> q2 R \<and> q3 R \<and> q4 R \<and> q5 R \<and> q6 R \<and> q7 R \<and> q8 R \<and> q9 R \<and> q10 R)"
      and t
    for p1 p2 p3 p4 p5 q1 q2 q3 q4 q5 q6 q7 q8 q9 q10 :: "obj \<Rightarrow> bool" and t
    using that by blast
  note th = migration_result_conforms [OF initial_nested [of exampleEnvironment]
      initial_conforms [of exampleEnvironment] initial_noUndefined [of exampleEnvironment] u,
      where N = exampleNumber]
  from sel [OF th t]
  obtain R where R: "migrateSettings exampleNumber persistedOpacity ?D = Inr R"
    "backgroundConforms R"
    "\<forall>(k, lo, hi) \<in> set backgroundNumbers.
        field R k = clampNumber exampleNumber (getProp persistedOpacity k) (Fin lo) (Fin hi) (field ?D k)"
    "\<forall>k. k \<notin> set migratedFields \<and> k \<noteq> ''terminalRenderer''
        \<longrightarrow> field R k = persistedOrCurrent persistedOpacity ?D k"
    by (elim exE conjE) (rule that)
  have "case (''backgroundOpacity'', 0, 1) of (k, lo, hi) \<Rightarrow>
          field R k = clampNumber exampleNumber (getProp persistedOpacity k) (Fin lo) (Fin hi)
            (field ?D k)"
    using R(3) b by (rule bspec)
  then have 1: "field R ''backgroundOpacity'' = num 1"
    by (simp only: prod.case v)
  have 2: "field R ''agentSettings'' = defaultAgentSettings"
    using R(4) [rule_format, OF k] by (simp only: w)
  have e: "\<exists>R. migrateSettings exampleNumber persistedOpacity ?D = Inr R
         \<and> backgroundConforms R
         \<and> field R ''backgroundOpacity'' = num 1
         \<and> field R ''agentSettings'' = defaultAgentSettings"
    by (intro exI [of _ R] conjI R(1,2) 1 2)
  show ?thesis
    by (intro conjI initial_nested initial_conforms initial_noUndefined u e)
qed

text \<open>
  C1 as stated fails outside the background group: a persisted
  \<^verbatim>\<open>terminalRenderer: "bogus"\<close> and \<^verbatim>\<open>fontSize: "big"\<close> come back unchanged, so the
  snapshot's renderer is not one of the declared renderers and its font size, declared a
  number, is a string.
\<close>

theorem migration_unvalidated_counterexample:
  "resultField (migrateSettings exampleNumber persistedIllTyped (getInitialState exampleEnvironment))
      ''terminalRenderer'' = Some (JStr ''bogus'')
   \<and> JStr ''bogus'' \<notin> set terminalRenderers
   \<and> resultField (migrateSettings exampleNumber persistedIllTyped (getInitialState exampleEnvironment))
      ''fontSize'' = Some (JStr ''big'')
   \<and> \<not> numberWithin 0 1000 (JStr ''big'')"
proof -
  let ?D = "getInitialState exampleEnvironment"
  let ?R = "mergedState exampleNumber persistedIllTyped ?D
              (integrationOf persistedIllTyped ?D) (statusOf persistedIllTyped ?D)"
  have t: "truthy persistedIllTyped"
    by (simp add: persistedIllTyped_def object_def truthy_def)
  have r: "migrateSettings exampleNumber persistedIllTyped ?D = Inr ?R"
    by (rule migrateSettings_truthy [OF t initial_nested])
  have 1: "field ?R ''terminalRenderer'' = JStr ''bogus''"
    by (simp add: mergedState_renderer terminalRenderer_def persistedIllTyped_def object_def
          field_of_list truthy_def)
  have "field ?R ''fontSize'' = field (?D ++\<^sub>f ownProps persistedIllTyped) ''fontSize''"
    by (rule mergedState_base [OF overrides_others(3)]) simp
  then have 2: "field ?R ''fontSize'' = JStr ''big''"
    by (simp add: persistedIllTyped_def object_def field_fmadd_of_list del: fmlookup_add)
  show ?thesis
    using 1 2 by (simp add: r resultField_def terminalRenderers_def numberWithin_def)
qed

section \<open>Migrating twice\<close>

lemma fmadd_absorb: "m ++\<^sub>f (m ++\<^sub>f n) = m ++\<^sub>f n"
  by (rule fmap_ext) (simp add: fmlookup_fmadd_cases del: fmlookup_add split: option.splits)

lemma fmadd_into:
  assumes "fmdom m |\<subseteq>| fmdom n"
  shows "m ++\<^sub>f n = n"
proof (rule fmap_ext)
  fix x
  show "fmlookup (m ++\<^sub>f n) x = fmlookup n x"
  proof (cases "fmlookup n x")
    case None
    then have "x |\<notin>| fmdom n" by (simp add: fmdom_notI)
    with assms have "x |\<notin>| fmdom m" by blast
    then have "fmlookup m x = None" by (simp add: fmdom_notD)
    with None show ?thesis by (simp add: fmlookup_fmadd_cases del: fmlookup_add)
  next
    case (Some v)
    then show ?thesis by (simp add: fmlookup_fmadd_cases del: fmlookup_add)
  qed
qed

lemma fmupd_same: "fmlookup m k = Some v \<Longrightarrow> fmupd k v m = m"
  by (rule fmap_ext) auto

lemma fmadd_list_again: "(A ++\<^sub>f fmap_of_list xs) ++\<^sub>f fmap_of_list xs = A ++\<^sub>f fmap_of_list xs"
  by (rule fmap_ext) (simp add: fmlookup_fmadd_cases del: fmlookup_add split: option.splits)

lemma clamp_again:
  "lo \<le> hi \<Longrightarrow> isFinite (Math_min (Fin hi) (Math_max (Fin lo) (Fin r)))
     \<and> Math_min (Fin hi) (Math_max (Fin lo) (Math_min (Fin hi) (Math_max (Fin lo) (Fin r))))
       = Math_min (Fin hi) (Math_max (Fin lo) (Fin r))"
  by (auto simp: Math_min_def Math_max_def isFinite_def)

lemma clampNumber_again:
  assumes "lo \<le> hi" and "clampNumber N fb (Fin lo) (Fin hi) fb = fb"
  shows "clampNumber N (clampNumber N v (Fin lo) (Fin hi) fb) (Fin lo) (Fin hi) fb
         = clampNumber N v (Fin lo) (Fin hi) fb"
proof (cases "finiteValue N v")
  case None
  with assms(2) show ?thesis by (simp add: clampNumber_finiteValue [of N v])
next
  case (Some r)
  then have "clampNumber N v (Fin lo) (Fin hi) fb = JNum (Math_min (Fin hi) (Math_max (Fin lo) (Fin r)))"
    by (simp add: clampNumber_finiteValue)
  then show ?thesis
    using clamp_again [OF assms(1), of r] by (simp add: clampNumber_def)
qed

lemma sanitizeBoolean_again: "sanitizeBoolean (sanitizeBoolean v fb) fb = sanitizeBoolean v fb"
  by (cases v; cases fb) (simp_all add: sanitizeBoolean_def)

lemma sanitizeString_again: "sanitizeString (sanitizeString v fb) fb = sanitizeString v fb"
  by (cases v; cases fb) (simp_all add: sanitizeString_def)

lemma coalesce_again: "js_coalesce (js_coalesce a b) b = js_coalesce a b"
  by (simp add: js_coalesce_def)

lemma sourceType_again:
  assumes "field R ''backgroundSourceType'' = sanitizedBackgroundSourceType P D"
  shows "sanitizedBackgroundSourceType (JObj R) D = sanitizedBackgroundSourceType P D"
  using assms by (auto simp: sanitizedBackgroundSourceType_def)

lemma sizeMode_again:
  assumes "field R ''backgroundSizeMode'' = sanitizedBackgroundSizeMode P D"
  shows "sanitizedBackgroundSizeMode (JObj R) D = sanitizedBackgroundSizeMode P D"
  using assms by (auto simp: sanitizedBackgroundSizeMode_def)

lemma urlPath_again:
  assumes "field R ''backgroundUrlPath'' = migratedBackgroundUrlPath P D"
    and "sanitizedBackgroundSourceType (JObj R) D = sanitizedBackgroundSourceType P D"
    and "sanitizedBackgroundImagePath (JObj R) D = sanitizedBackgroundImagePath P D"
    and "isString (field D ''backgroundImagePath'')"
  shows "migratedBackgroundUrlPath (JObj R) D = migratedBackgroundUrlPath P D"
proof -
  let ?su = "sanitizedBackgroundUrlPath P D"
  let ?x = "if sanitizedBackgroundSourceType P D = JStr ''url''
            then sanitizedBackgroundImagePath P D else JStr []"
  have u: "field R ''backgroundUrlPath'' = js_or ?su ?x"
    using assms(1) by (simp add: migratedBackgroundUrlPath_def)
  have x: "isString ?x"
    using assms(4)
    by (cases "getProp P ''backgroundImagePath''")
       (auto simp: sanitizedBackgroundImagePath_def sanitizeString_def isString_def split: jsval.splits)
  have s: "sanitizeString ?su (field D ''backgroundUrlPath'') = ?su"
    by (simp add: sanitizedBackgroundUrlPath_def sanitizeString_again)
  show ?thesis
  proof (cases "truthy ?su")
    case True
    then show ?thesis
      using u s by (simp add: migratedBackgroundUrlPath_def sanitizedBackgroundUrlPath_def js_or_def)
  next
    case False
    then have "field R ''backgroundUrlPath'' = ?x" using u by (simp add: js_or_def)
    moreover have "sanitizeString ?x (field D ''backgroundUrlPath'') = ?x"
      using x by (auto simp: sanitizeString_def isString_def split: jsval.splits)
    ultimately show ?thesis
      using False assms(2,3)
      by (simp add: migratedBackgroundUrlPath_def sanitizedBackgroundUrlPath_def js_or_def)
  qed
qed

lemma xterm_shape: "\<exists>Z. migrateXtermKeybindings P D = JObj (ownProps (field D ''xtermKeybindings'') ++\<^sub>f Z)"
  by (auto simp: migrateXtermKeybindings_def Let_def fmadd_assoc [symmetric] simp del: fmadd_assoc)

lemma xterm_again:
  assumes "field R ''xtermKeybindings'' = migrateXtermKeybindings P D"
  shows "migrateXtermKeybindings (JObj R) D = migrateXtermKeybindings P D"
proof -
  obtain Z where z: "migrateXtermKeybindings P D = JObj (ownProps (field D ''xtermKeybindings'') ++\<^sub>f Z)"
    using xterm_shape by blast
  have "migrateXtermKeybindings (JObj R) D
      = JObj (ownProps (field D ''xtermKeybindings'') ++\<^sub>f (ownProps (field D ''xtermKeybindings'') ++\<^sub>f Z))"
    using assms z by (simp add: migrateXtermKeybindings_def [of "JObj R"] truthy_def)
  then show ?thesis by (simp only: fmadd_absorb z)
qed

lemma mergedDomain_again:
  assumes "field R k = mergedDomain P D k"
  shows "mergedDomain (JObj R) D k = mergedDomain P D k"
  using assms by (simp add: mergedDomain_def fmadd_absorb)


lemma getProp_field: "k \<noteq> ''length'' \<Longrightarrow> getProp v k = field (ownProps v) k"
  by (simp add: getProp_def field_def)

lemma integration_legacy:
  assumes "\<not> nullish (field D ''claudeCodeIntegration'')"
    and "getProp (getProp P ''claudeCodeIntegration'') ''enhancedInputAutoPopup'' = JBool b"
  shows "\<exists>s. getProp (integrationOf P D) ''enhancedInputAutoPopup'' = JStr s"
  using assms
  by (simp add: integrationOf_def migrateClaudeCodeIntegration_def getMember_def Let_def field_fmupd)

lemma integration_facts:
  assumes "\<not> nullish (field D ''claudeCodeIntegration'')"
    and "\<forall>b. getProp (field D ''claudeCodeIntegration'') ''enhancedInputAutoPopup'' \<noteq> JBool b"
    and "migrateClaudeCodeIntegration P D = Inr (JObj M)"
  shows "field M ''statusLineFields'' =
           JObj (ownProps (getProp (field D ''claudeCodeIntegration'') ''statusLineFields'')
                 ++\<^sub>f ownProps (getProp (getProp P ''claudeCodeIntegration'') ''statusLineFields''))"
    and "\<forall>b. field M ''enhancedInputAutoPopup'' \<noteq> JBool b"
    and "\<not> (field M ''enhancedInputAutoPopup'' = JStr ''hideWhileRunning''
             \<and> \<not> truthy (field M ''stopHookEnabled''))"
proof -
  let ?pc = "getProp P ''claudeCodeIntegration''"
  let ?merged = "fmupd ''statusLineFields''
                   (JObj (ownProps (getProp (field D ''claudeCodeIntegration'') ''statusLineFields'')
                          ++\<^sub>f ownProps (getProp ?pc ''statusLineFields'')))
                   (ownProps (field D ''claudeCodeIntegration'') ++\<^sub>f ownProps ?pc)"
  let ?legacy = "getProp ?pc ''enhancedInputAutoPopup''"
  let ?merged1 = "case ?legacy of
                    JBool b \<Rightarrow> fmupd ''enhancedInputAutoPopup''
                        (JStr (if b then ''hideWhileRunning'' else ''manual'')) ?merged
                  | _ \<Rightarrow> ?merged"
  have m: "M = (if field ?merged1 ''enhancedInputAutoPopup'' = JStr ''hideWhileRunning''
                     \<and> \<not> truthy (field ?merged1 ''stopHookEnabled'')
                  then fmupd ''enhancedInputAutoPopup'' (JStr ''always'') ?merged1
                  else ?merged1)"
    using assms(1,3) by (simp add: migrateClaudeCodeIntegration_def getMember_def Let_def)
  have s1: "field ?merged1 ''statusLineFields'' =
           JObj (ownProps (getProp (field D ''claudeCodeIntegration'') ''statusLineFields'')
                 ++\<^sub>f ownProps (getProp ?pc ''statusLineFields''))"
    by (cases ?legacy) (simp_all add: field_fmupd)
  have e0: "\<forall>b. field ?merged ''enhancedInputAutoPopup'' \<noteq> JBool b" if "\<forall>b. ?legacy \<noteq> JBool b"
  proof (cases "fmlookup (ownProps ?pc) ''enhancedInputAutoPopup''")
    case None
    then show ?thesis
      using assms(2)
      by (simp add: field_fmupd field_def fmlookup_fmadd_cases getProp_field del: fmlookup_add)
  next
    case (Some x)
    then have "?legacy = x" by (simp add: getProp_own)
    with that Some show ?thesis
      by (simp add: field_fmupd field_def fmlookup_fmadd_cases del: fmlookup_add)
  qed
  have e1: "\<forall>b. field ?merged1 ''enhancedInputAutoPopup'' \<noteq> JBool b"
  proof (cases "\<exists>b. ?legacy = JBool b")
    case True
    then show ?thesis by (auto simp: field_fmupd)
  next
    case False
    then have "?merged1 = ?merged" by (cases ?legacy) simp_all
    with e0 False show ?thesis by simp
  qed
  show "field M ''statusLineFields'' =
           JObj (ownProps (getProp (field D ''claudeCodeIntegration'') ''statusLineFields'')
                 ++\<^sub>f ownProps (getProp ?pc ''statusLineFields''))"
    unfolding m using s1 by (simp add: field_fmupd)
  show "\<forall>b. field M ''enhancedInputAutoPopup'' \<noteq> JBool b"
    unfolding m using e1 by (simp add: field_fmupd)
  show "\<not> (field M ''enhancedInputAutoPopup'' = JStr ''hideWhileRunning''
             \<and> \<not> truthy (field M ''stopHookEnabled''))"
    unfolding m by (simp add: field_fmupd)
qed

lemma integration_again:
  assumes "\<not> nullish (field D ''claudeCodeIntegration'')"
    and "\<forall>b. getProp (field D ''claudeCodeIntegration'') ''enhancedInputAutoPopup'' \<noteq> JBool b"
    and "field R ''claudeCodeIntegration'' = integrationOf P D"
  shows "integrationOf (JObj R) D = integrationOf P D"
proof -
  obtain M where m: "migrateClaudeCodeIntegration P D = Inr (JObj M)"
    using integration_returns [OF assms(1)] by blast
  then have i: "integrationOf P D = JObj M" by (simp add: integrationOf_def)
  note f = integration_facts [OF assms(1,2) m]
  have d: "fmdom (ownProps (field D ''claudeCodeIntegration'')) |\<subseteq>| fmdom M"
    using integration_domain [OF assms(1), of P] by (simp add: i)
  have s: "fmlookup M ''statusLineFields'' = Some (field M ''statusLineFields'')"
    using f(1) by (auto simp: field_def split: option.splits)
  have pc: "field R ''claudeCodeIntegration'' = JObj M"
    using assms(3) i by simp
  have l: "(case field M ''enhancedInputAutoPopup'' of
               JBool b \<Rightarrow> fmupd ''enhancedInputAutoPopup''
                        (JStr (if b then ''hideWhileRunning'' else ''manual'')) M
             | _ \<Rightarrow> M) = M"
  proof (cases "field M ''enhancedInputAutoPopup''")
    case (JBool b)
    with f(2) show ?thesis by blast
  qed simp_all
  have mg: "fmupd ''statusLineFields''
               (JObj (ownProps (getProp (field D ''claudeCodeIntegration'') ''statusLineFields'')
                      ++\<^sub>f ownProps (field M ''statusLineFields'')))
               (ownProps (field D ''claudeCodeIntegration'') ++\<^sub>f ownProps (JObj M)) = M"
    by (simp add: f(1) fmadd_absorb fmadd_into [OF d] fmupd_same [OF s [unfolded f(1)]])
  have g: "getMember (field D ''claudeCodeIntegration'') ''statusLineFields''
             = Inr (getProp (field D ''claudeCodeIntegration'') ''statusLineFields'')"
    using assms(1) by (simp add: getMember_def)
  have "migrateClaudeCodeIntegration (JObj R) D = Inr (JObj M)"
    unfolding migrateClaudeCodeIntegration_def Let_def pc g sum.case mg getProp_JObj l
    using f(3) by auto
  then show ?thesis by (simp add: integrationOf_def m)
qed

lemma agentConfig_again:
  assumes "\<not> nullish (field D ''agentSettings'')"
    and "field R ''agentSettings'' = field (D ++\<^sub>f ownProps P) ''agentSettings''"
  shows "agentConfig (JObj R) D agentId = agentConfig P D agentId"
proof (cases "fmlookup (ownProps P) ''agentSettings''")
  case None
  then have "getProp P ''agentSettings'' = JUndefined" by (simp add: getProp_absent)
  moreover have "field R ''agentSettings'' = field D ''agentSettings''"
    using assms(2) None by (simp add: field_def fmlookup_fmadd_cases del: fmlookup_add)
  ultimately show ?thesis
    using assms(1) by (simp add: agentConfig_def getMember_def Let_def nullish_def)
next
  case (Some x)
  then have "getProp P ''agentSettings'' = x" by (simp add: getProp_own)
  moreover have "field R ''agentSettings'' = x"
    using assms(2) Some by (simp add: field_def fmlookup_fmadd_cases del: fmlookup_add)
  ultimately show ?thesis by (simp add: agentConfig_def)
qed

lemma filter_again:
  "fmfilter K (A ++\<^sub>f fmfilter K (A ++\<^sub>f B)) = fmfilter K (A ++\<^sub>f B)"
  by (rule fmap_ext)
     (simp only: fmlookup_filter fmlookup_fmadd_cases, simp split: option.splits)

lemma status_again:
  assumes "\<not> nullish (field D ''agentSettings'')"
    and "field R ''agentSettings'' = field (D ++\<^sub>f ownProps P) ''agentSettings''"
    and "field R ''agentDetectionStatus'' = statusOf P D"
  shows "statusOf (JObj R) D = statusOf P D"
proof -
  have "agentKept (JObj R) D = agentKept P D"
    by (rule ext) (simp add: agentKept_def agentConfig_again [OF assms(1,2)])
  then show ?thesis
    using assms(3) by (simp only: statusOf_def [of "JObj R"] getProp_JObj)
       (simp only: statusOf_def ownProps_JObj filter_again)
qed


lemma fixed_point_shape:
  assumes "hasNestedRecords D" and "migrateSettings N (JObj D) D = Inr D"
  shows "mergedState N (JObj D) D (integrationOf (JObj D) D) (statusOf (JObj D) D) = D"
  using migrateSettings_truthy [of "JObj D" D N] assms by (simp add: truthy_def)

lemma fixed_point_clamps:
  assumes "hasNestedRecords D" and "migrateSettings N (JObj D) D = Inr D"
  shows "clampNumber N (field D ''backgroundOpacity'') (Fin 0) (Fin 1) (field D ''backgroundOpacity'')
           = field D ''backgroundOpacity''"
    and "clampNumber N (field D ''backgroundBlur'') (Fin 0) (Fin 20) (field D ''backgroundBlur'')
           = field D ''backgroundBlur''"
    and "clampNumber N (field D ''backgroundBrightness'') (Fin 0) (Fin 2) (field D ''backgroundBrightness'')
           = field D ''backgroundBrightness''"
    and "clampNumber N (field D ''backgroundSaturation'') (Fin 0) (Fin 2) (field D ''backgroundSaturation'')
           = field D ''backgroundSaturation''"
    and "clampNumber N (field D ''backgroundRandomInterval'') (Fin 5) (Fin 86400)
           (field D ''backgroundRandomInterval'') = field D ''backgroundRandomInterval''"
proof -
  let ?R = "mergedState N (JObj D) D (integrationOf (JObj D) D) (statusOf (JObj D) D)"
  note e = fixed_point_shape [OF assms]
  have "field ?R ''backgroundOpacity'' = field D ''backgroundOpacity''"
       "field ?R ''backgroundBlur'' = field D ''backgroundBlur''"
       "field ?R ''backgroundBrightness'' = field D ''backgroundBrightness''"
       "field ?R ''backgroundSaturation'' = field D ''backgroundSaturation''"
       "field ?R ''backgroundRandomInterval'' = field D ''backgroundRandomInterval''"
    by (simp_all only: e)
  then show
    "clampNumber N (field D ''backgroundOpacity'') (Fin 0) (Fin 1) (field D ''backgroundOpacity'')
           = field D ''backgroundOpacity''"
    "clampNumber N (field D ''backgroundBlur'') (Fin 0) (Fin 20) (field D ''backgroundBlur'')
           = field D ''backgroundBlur''"
    "clampNumber N (field D ''backgroundBrightness'') (Fin 0) (Fin 2) (field D ''backgroundBrightness'')
           = field D ''backgroundBrightness''"
    "clampNumber N (field D ''backgroundSaturation'') (Fin 0) (Fin 2) (field D ''backgroundSaturation'')
           = field D ''backgroundSaturation''"
    "clampNumber N (field D ''backgroundRandomInterval'') (Fin 5) (Fin 86400)
           (field D ''backgroundRandomInterval'') = field D ''backgroundRandomInterval''"
    by (simp_all add: mergedState_fields sanitizedBackgroundOpacity_def sanitizedBackgroundBlur_def
          sanitizedBackgroundBrightness_def sanitizedBackgroundSaturation_def
          sanitizedBackgroundRandomInterval_def)
qed

lemma fixed_point_renderer:
  assumes "hasNestedRecords D" and "migrateSettings N (JObj D) D = Inr D"
  shows "field D ''terminalRenderer'' \<noteq> JStr ''canvas''"
proof
  assume c: "field D ''terminalRenderer'' = JStr ''canvas''"
  let ?R = "mergedState N (JObj D) D (integrationOf (JObj D) D) (statusOf (JObj D) D)"
  have "field ?R ''terminalRenderer'' = JStr ''webgl''"
    using c by (simp add: mergedState_renderer terminalRenderer_def truthy_def)
  then show False
    using c by (simp add: fixed_point_shape [OF assms])
qed

lemma fixed_point_popup:
  assumes "hasNestedRecords D" and "migrateSettings N (JObj D) D = Inr D"
  shows "\<forall>b. getProp (field D ''claudeCodeIntegration'') ''enhancedInputAutoPopup'' \<noteq> JBool b"
proof (intro allI notI)
  fix b
  assume l: "getProp (field D ''claudeCodeIntegration'') ''enhancedInputAutoPopup'' = JBool b"
  let ?R = "mergedState N (JObj D) D (integrationOf (JObj D) D) (statusOf (JObj D) D)"
  have n: "\<not> nullish (field D ''claudeCodeIntegration'')"
    using assms(1) by (simp add: hasNestedRecords_def)
  have "field ?R ''claudeCodeIntegration'' = integrationOf (JObj D) D"
    by (rule mergedState_fields)
  then have i: "integrationOf (JObj D) D = field D ''claudeCodeIntegration''"
    by (simp add: fixed_point_shape [OF assms])
  from integration_legacy [OF n, of "JObj D" b] l
  obtain s where "getProp (integrationOf (JObj D) D) ''enhancedInputAutoPopup'' = JStr s"
    by auto
  with l i show False by simp
qed

lemma overrides_again:
  assumes "hasNestedRecords D" and "migrateSettings N (JObj D) D = Inr D"
    and "isString (field D ''backgroundImagePath'')"
  shows "overrides N (JObj (mergedState N P D (integrationOf P D) (statusOf P D))) D
           (integrationOf (JObj (mergedState N P D (integrationOf P D) (statusOf P D))) D)
           (statusOf (JObj (mergedState N P D (integrationOf P D) (statusOf P D))) D)
         = overrides N P D (integrationOf P D) (statusOf P D)"
proof -
  let ?R = "mergedState N P D (integrationOf P D) (statusOf P D)"
  note f = mergedState_fields [of N P D "integrationOf P D" "statusOf P D"]
  note c = fixed_point_clamps [OF assms(1,2)]
  have nc: "\<not> nullish (field D ''claudeCodeIntegration'')"
    and na: "\<not> nullish (field D ''agentSettings'')"
    using assms(1) by (simp_all add: hasNestedRecords_def)
  have x: "migrateXtermKeybindings (JObj ?R) D = migrateXtermKeybindings P D"
    by (rule xterm_again) (rule f)
  have d: "mergedDomain (JObj ?R) D ''mainTabKeybindings'' = mergedDomain P D ''mainTabKeybindings''"
    "mergedDomain (JObj ?R) D ''sourceControlKeybindings'' = mergedDomain P D ''sourceControlKeybindings''"
    "mergedDomain (JObj ?R) D ''searchKeybindings'' = mergedDomain P D ''searchKeybindings''"
    "mergedDomain (JObj ?R) D ''globalKeybindings'' = mergedDomain P D ''globalKeybindings''"
    "mergedDomain (JObj ?R) D ''workspaceKeybindings'' = mergedDomain P D ''workspaceKeybindings''"
    "mergedDomain (JObj ?R) D ''editorSettings'' = mergedDomain P D ''editorSettings''"
    "mergedDomain (JObj ?R) D ''commitMessageGenerator'' = mergedDomain P D ''commitMessageGenerator''"
    "mergedDomain (JObj ?R) D ''codeReview'' = mergedDomain P D ''codeReview''"
    "mergedDomain (JObj ?R) D ''branchNameGenerator'' = mergedDomain P D ''branchNameGenerator''"
    "mergedDomain (JObj ?R) D ''hapiSettings'' = mergedDomain P D ''hapiSettings''"
    "mergedDomain (JObj ?R) D ''quickTerminal'' = mergedDomain P D ''quickTerminal''"
    by (rule mergedDomain_again, rule f)+
  have n: "sanitizedBackgroundOpacity N (JObj ?R) D = sanitizedBackgroundOpacity N P D"
    "sanitizedBackgroundBlur N (JObj ?R) D = sanitizedBackgroundBlur N P D"
    "sanitizedBackgroundBrightness N (JObj ?R) D = sanitizedBackgroundBrightness N P D"
    "sanitizedBackgroundSaturation N (JObj ?R) D = sanitizedBackgroundSaturation N P D"
    "sanitizedBackgroundRandomInterval N (JObj ?R) D = sanitizedBackgroundRandomInterval N P D"
    unfolding sanitizedBackgroundOpacity_def [of N "JObj ?R"] sanitizedBackgroundBlur_def [of N "JObj ?R"]
      sanitizedBackgroundBrightness_def [of N "JObj ?R"] sanitizedBackgroundSaturation_def [of N "JObj ?R"]
      sanitizedBackgroundRandomInterval_def [of N "JObj ?R"] getProp_JObj f
    by (simp_all add: sanitizedBackgroundOpacity_def sanitizedBackgroundBlur_def
          sanitizedBackgroundBrightness_def sanitizedBackgroundSaturation_def
          sanitizedBackgroundRandomInterval_def clampNumber_again c)
  have b: "sanitizedBackgroundImageEnabled (JObj ?R) D = sanitizedBackgroundImageEnabled P D"
    "sanitizedBackgroundRandomEnabled (JObj ?R) D = sanitizedBackgroundRandomEnabled P D"
    unfolding sanitizedBackgroundImageEnabled_def [of "JObj ?R"]
      sanitizedBackgroundRandomEnabled_def [of "JObj ?R"] getProp_JObj f
    by (simp_all add: sanitizedBackgroundImageEnabled_def sanitizedBackgroundRandomEnabled_def
          sanitizeBoolean_again)
  have s: "sanitizedBackgroundImagePath (JObj ?R) D = sanitizedBackgroundImagePath P D"
    "sanitizedBackgroundFolderPath (JObj ?R) D = sanitizedBackgroundFolderPath P D"
    unfolding sanitizedBackgroundImagePath_def [of "JObj ?R"]
      sanitizedBackgroundFolderPath_def [of "JObj ?R"] getProp_JObj f
    by (simp_all add: sanitizedBackgroundImagePath_def sanitizedBackgroundFolderPath_def
          sanitizeString_again)
  have st: "sanitizedBackgroundSourceType (JObj ?R) D = sanitizedBackgroundSourceType P D"
    by (rule sourceType_again) (rule f)
  have sm: "sanitizedBackgroundSizeMode (JObj ?R) D = sanitizedBackgroundSizeMode P D"
    by (rule sizeMode_again) (rule f)
  have u: "migratedBackgroundUrlPath (JObj ?R) D = migratedBackgroundUrlPath P D"
    by (rule urlPath_again [OF f(9) st s(1) assms(3)])
  have i: "integrationOf (JObj ?R) D = integrationOf P D"
    by (rule integration_again [OF nc fixed_point_popup [OF assms(1,2)] f(20)])
  have a: "field ?R ''agentSettings'' = field (D ++\<^sub>f ownProps P) ''agentSettings''"
    by (rule mergedState_base [OF overrides_others(4)]) simp
  have so: "statusOf (JObj ?R) D = statusOf P D"
    by (rule status_again [OF na a f(25)])
  have m: "js_coalesce (getProp (JObj ?R) ''mcpServers'') (field D ''mcpServers'')
             = js_coalesce (getProp P ''mcpServers'') (field D ''mcpServers'')"
    "js_coalesce (getProp (JObj ?R) ''promptPresets'') (field D ''promptPresets'')
             = js_coalesce (getProp P ''promptPresets'') (field D ''promptPresets'')"
    unfolding getProp_JObj f by (simp_all add: coalesce_again)
  show ?thesis
    unfolding overrides_def [of N "JObj ?R"] x d n b s st sm u i so m
    by (simp only: overrides_def)
qed


lemma field_defined: "field m k = x \<Longrightarrow> x \<noteq> JUndefined \<Longrightarrow> fmlookup m k = Some x"
  by (auto simp: field_def split: option.splits)

lemma truthy_defined: "truthy v \<Longrightarrow> v \<noteq> JUndefined"
  by (auto simp: truthy_def)

lemma renderer_again:
  assumes "field D ''terminalRenderer'' \<noteq> JStr ''canvas''"
  shows "mergedState N P D c a
         ++\<^sub>f ownProps (js_and (terminalRenderer (JObj (mergedState N P D c a)))
              (JObj (fmap_of_list
                 [(''terminalRenderer'', terminalRenderer (JObj (mergedState N P D c a)))])))
         = mergedState N P D c a"
proof -
  let ?R = "mergedState N P D c a"
  let ?t = "terminalRenderer P"
  let ?b = "field ?R ''terminalRenderer''"
  have b: "?b = (if truthy ?t then ?t else field (D ++\<^sub>f ownProps P) ''terminalRenderer'')"
    by (rule mergedState_renderer)
  have nc: "?b \<noteq> JStr ''canvas''"
  proof (cases "truthy ?t")
    case True
    then show ?thesis using b by (auto simp: terminalRenderer_def)
  next
    case False
    then have p: "getProp P ''terminalRenderer'' \<noteq> JStr ''canvas''"
      by (auto simp: terminalRenderer_def truthy_def)
    show ?thesis
    proof (cases "fmlookup (ownProps P) ''terminalRenderer''")
      case None
      then show ?thesis
        using b False assms by (simp add: field_def fmlookup_fmadd_cases del: fmlookup_add)
    next
      case (Some x)
      then have "getProp P ''terminalRenderer'' = x" by (simp add: getProp_own)
      with p Some show ?thesis
        using b False by (simp add: field_def fmlookup_fmadd_cases del: fmlookup_add)
    qed
  qed
  then have t': "terminalRenderer (JObj ?R) = ?b"
    by (simp add: terminalRenderer_def)
  show ?thesis
  proof (cases "truthy ?b")
    case False
    then show ?thesis by (simp add: t' renderer_part)
  next
    case True
    then have "fmlookup ?R ''terminalRenderer'' = Some ?b"
      by (intro field_defined refl truthy_defined)
    then have "?R ++\<^sub>f fmap_of_list [(''terminalRenderer'', ?b)] = ?R"
      by (intro fmap_ext)
         (simp add: fmlookup_fmadd_cases fmlookup_of_list del: fmlookup_add split: option.splits)
    with True show ?thesis by (simp add: t' renderer_part)
  qed
qed

lemma mergedState_again:
  assumes "hasNestedRecords D" and "migrateSettings N (JObj D) D = Inr D"
    and "isString (field D ''backgroundImagePath'')"
  shows "mergedState N (JObj (mergedState N P D (integrationOf P D) (statusOf P D))) D
           (integrationOf (JObj (mergedState N P D (integrationOf P D) (statusOf P D))) D)
           (statusOf (JObj (mergedState N P D (integrationOf P D) (statusOf P D))) D)
         = mergedState N P D (integrationOf P D) (statusOf P D)"
proof -
  let ?R = "mergedState N P D (integrationOf P D) (statusOf P D)"
  let ?ov = "overrides N P D (integrationOf P D) (statusOf P D)"
  have 1: "D ++\<^sub>f ?R = ?R"
    by (rule fmadd_into) (auto simp: mergedState_def)
  have 2: "?R ++\<^sub>f ownProps (js_and (terminalRenderer (JObj ?R))
              (JObj (fmap_of_list [(''terminalRenderer'', terminalRenderer (JObj ?R))]))) = ?R"
    by (rule renderer_again [OF fixed_point_renderer [OF assms(1,2)]])
  have 3: "?R ++\<^sub>f fmap_of_list ?ov = ?R"
    unfolding mergedState_def by (rule fmadd_list_again)
  show ?thesis
    unfolding mergedState_def [of N "JObj ?R"] overrides_again [OF assms] ownProps_JObj 1 2 3
    by (rule refl)
qed

text \<open>
  Let the current state hold its nested records, be itself unchanged by the migration,
  and have a string as its \<^verbatim>\<open>backgroundImagePath\<close>. Then for every persisted value the
  migration returns a snapshot, and migrating that snapshot against the same current
  state returns it again.
\<close>

lemma idempotent_on_stable_state:
  assumes "hasNestedRecords D" and "migrateSettings N (JObj D) D = Inr D"
    and "isString (field D ''backgroundImagePath'')"
  shows "\<exists>R. migrateSettings N P D = Inr R \<and> migrateSettings N (JObj R) D = Inr R"
proof (cases "truthy P")
  case False
  then have "migrateSettings N P D = Inr D" by (rule migrateSettings_falsy)
  with assms(2) show ?thesis by blast
next
  case True
  let ?R = "mergedState N P D (integrationOf P D) (statusOf P D)"
  have r: "migrateSettings N P D = Inr ?R"
    by (rule migrateSettings_truthy [OF True assms(1)])
  have "truthy (JObj ?R)" by (simp add: truthy_def)
  then have "migrateSettings N (JObj ?R) D
      = Inr (mergedState N (JObj ?R) D (integrationOf (JObj ?R) D) (statusOf (JObj ?R) D))"
    by (rule migrateSettings_truthy [OF _ assms(1)])
  then have "migrateSettings N (JObj ?R) D = Inr ?R"
    by (simp only: mergedState_again [OF assms])
  with r show ?thesis by blast
qed


lemma fmadd_of_list_same:
  assumes "\<And>k v. (k, v) \<in> set xs \<Longrightarrow> fmlookup m k = Some v"
  shows "m ++\<^sub>f fmap_of_list xs = m"
proof (rule fmap_ext)
  fix x
  show "fmlookup (m ++\<^sub>f fmap_of_list xs) x = fmlookup m x"
    using assms [of x]
    by (auto simp: fmlookup_fmadd_cases fmlookup_of_list simp del: fmlookup_add
             split: option.splits dest: map_of_SomeD)
qed

lemma object_self: "JObj (ownProps (object es) ++\<^sub>f ownProps (object es)) = object es"
  by (simp add: object_def)

lemma initial_integration:
  "integrationOf (JObj (getInitialState env)) (getInitialState env) = defaultClaudeCodeIntegrationSettings"
proof -
  let ?es = "[(''enabled'', JBool True),
      (''selectionChangedDebounce'', num 300),
      (''atMentionedKeybinding'',
         object [(''key'', JStr ''m''), (''meta'', JBool True), (''shift'', JBool True)]),
      (''stopHookEnabled'', JBool True),
      (''permissionRequestHookEnabled'', JBool True),
      (''statusLineEnabled'', JBool False),
      (''statusLineFields'', defaultStatusLineFieldSettings),
      (''tmuxEnabled'', JBool False),
      (''showProviderSwitcher'', JBool True),
      (''enableProviderDisableFeature'', JBool False),
      (''providers'', JArr []),
      (''enhancedInputEnabled'', JBool False),
      (''enhancedInputAutoPopup'', JStr ''hideWhileRunning'')]"
  have l: "map_of ?es ''statusLineFields'' = Some defaultStatusLineFieldSettings"
    "map_of ?es ''enhancedInputAutoPopup'' = Some (JStr ''hideWhileRunning'')"
    "map_of ?es ''stopHookEnabled'' = Some (JBool True)"
    by (simp_all only: lookup_simps)
  have s: "defaultStatusLineFieldSettings = JObj (ownProps defaultStatusLineFieldSettings)"
    by (simp add: defaultStatusLineFieldSettings_def object_def)
  have u: "fmupd ''statusLineFields'' defaultStatusLineFieldSettings (fmap_of_list ?es) = fmap_of_list ?es"
    by (rule fmupd_same) (simp only: fmlookup_of_list l)
  have f: "field (fmap_of_list ?es) ''statusLineFields'' = defaultStatusLineFieldSettings"
    "field (fmap_of_list ?es) ''enhancedInputAutoPopup'' = JStr ''hideWhileRunning''"
    "field (fmap_of_list ?es) ''stopHookEnabled'' = JBool True"
    by (simp_all only: field_of_list l option.case)
  have "migrateClaudeCodeIntegration (JObj (getInitialState env)) (getInitialState env)
          = Inr (JObj (fmap_of_list ?es))"
    unfolding migrateClaudeCodeIntegration_def Let_def getProp_JObj initial_fields
      defaultClaudeCodeIntegrationSettings_def object_def [of ?es] getMember_def ownProps_JObj
      fmadd_idempotent f
    using s u by (simp add: nullish_def truthy_def f)
  then show ?thesis
    by (simp add: integrationOf_def defaultClaudeCodeIntegrationSettings_def object_def [of ?es])
qed

lemma initial_status_again:
  "statusOf (JObj (getInitialState env)) (getInitialState env) = object []"
  unfolding statusOf_def getProp_JObj initial_fields object_def ownProps_JObj fmap_of_list_Nil
  by simp


lemma initial_domains:
  "migrateXtermKeybindings (JObj (getInitialState env)) (getInitialState env) = defaultXtermKeybindings"
  "mergedDomain (JObj (getInitialState env)) (getInitialState env) ''mainTabKeybindings''
     = defaultMainTabKeybindings"
  "mergedDomain (JObj (getInitialState env)) (getInitialState env) ''sourceControlKeybindings''
     = defaultSourceControlKeybindings"
  "mergedDomain (JObj (getInitialState env)) (getInitialState env) ''searchKeybindings''
     = defaultSearchKeybindings"
  "mergedDomain (JObj (getInitialState env)) (getInitialState env) ''globalKeybindings''
     = defaultGlobalKeybindings"
  "mergedDomain (JObj (getInitialState env)) (getInitialState env) ''workspaceKeybindings''
     = defaultWorkspaceKeybindings"
  "mergedDomain (JObj (getInitialState env)) (getInitialState env) ''editorSettings''
     = defaultEditorSettings"
  "mergedDomain (JObj (getInitialState env)) (getInitialState env) ''commitMessageGenerator''
     = defaultCommitMessageGeneratorSettings env"
  "mergedDomain (JObj (getInitialState env)) (getInitialState env) ''codeReview''
     = defaultCodeReviewSettings env"
  "mergedDomain (JObj (getInitialState env)) (getInitialState env) ''branchNameGenerator''
     = defaultBranchNameGeneratorSettings env"
  "mergedDomain (JObj (getInitialState env)) (getInitialState env) ''hapiSettings''
     = defaultHapiSettings"
  "mergedDomain (JObj (getInitialState env)) (getInitialState env) ''quickTerminal''
     = defaultQuickTerminalSettings"
  unfolding migrateXtermKeybindings_def mergedDomain_def getProp_JObj initial_fields
  by (simp_all add: defaultXtermKeybindings_def defaultMainTabKeybindings_def
        defaultSourceControlKeybindings_def defaultSearchKeybindings_def defaultGlobalKeybindings_def
        defaultWorkspaceKeybindings_def defaultEditorSettings_def
        defaultCommitMessageGeneratorSettings_def defaultCodeReviewSettings_def
        defaultBranchNameGeneratorSettings_def defaultHapiSettings_def
        defaultQuickTerminalSettings_def object_self truthy_def object_def [of "_ # _"])

lemma initial_background:
  "sanitizedBackgroundImageEnabled (JObj (getInitialState env)) (getInitialState env) = JBool False"
  "sanitizedBackgroundImagePath (JObj (getInitialState env)) (getInitialState env) = JStr []"
  "migratedBackgroundUrlPath (JObj (getInitialState env)) (getInitialState env) = JStr []"
  "sanitizedBackgroundFolderPath (JObj (getInitialState env)) (getInitialState env) = JStr []"
  "sanitizedBackgroundSourceType (JObj (getInitialState env)) (getInitialState env) = JStr ''file''"
  "sanitizedBackgroundRandomEnabled (JObj (getInitialState env)) (getInitialState env) = JBool False"
  "sanitizedBackgroundRandomInterval N (JObj (getInitialState env)) (getInitialState env) = num 300"
  "sanitizedBackgroundOpacity N (JObj (getInitialState env)) (getInitialState env) = num 0.85"
  "sanitizedBackgroundBlur N (JObj (getInitialState env)) (getInitialState env) = num 0"
  "sanitizedBackgroundBrightness N (JObj (getInitialState env)) (getInitialState env) = num 1"
  "sanitizedBackgroundSaturation N (JObj (getInitialState env)) (getInitialState env) = num 1"
  "sanitizedBackgroundSizeMode (JObj (getInitialState env)) (getInitialState env) = JStr ''cover''"
  unfolding sanitizedBackgroundImageEnabled_def sanitizedBackgroundImagePath_def
    migratedBackgroundUrlPath_def sanitizedBackgroundUrlPath_def sanitizedBackgroundFolderPath_def
    sanitizedBackgroundSourceType_def sanitizedBackgroundRandomEnabled_def
    sanitizedBackgroundRandomInterval_def sanitizedBackgroundOpacity_def sanitizedBackgroundBlur_def
    sanitizedBackgroundBrightness_def sanitizedBackgroundSaturation_def sanitizedBackgroundSizeMode_def
    getProp_JObj initial_fields
  by (simp_all add: sanitizeBoolean_def sanitizeString_def js_or_def truthy_def sourceTypes_def
        sizeModes_def clampNumber_def num_def isFinite_def Math_min_def Math_max_def)

lemma initial_coalesce:
  "js_coalesce (getProp (JObj (getInitialState env)) ''mcpServers'')
     (field (getInitialState env) ''mcpServers'') = JArr []"
  "js_coalesce (getProp (JObj (getInitialState env)) ''promptPresets'')
     (field (getInitialState env) ''promptPresets'') = JArr []"
  unfolding getProp_JObj initial_fields by (simp_all add: js_coalesce_def)

lemma initial_fixed:
  "migrateSettings N (JObj (getInitialState env)) (getInitialState env) = Inr (getInitialState env)"
proof -
  let ?D = "getInitialState env"
  have t: "truthy (JObj ?D)" by (simp add: truthy_def)
  have l: "fmlookup ?D k = map_of (initialEntries env) k" for k
    by (simp add: getInitialState_def fmlookup_of_list)
  have r: "terminalRenderer (JObj ?D) = JStr ''dom''"
    by (simp add: terminalRenderer_def initial_fields)
  have 1: "?D ++\<^sub>f ownProps (JObj ?D) = ?D" by simp
  have 2: "?D ++\<^sub>f ownProps (js_and (terminalRenderer (JObj ?D))
              (JObj (fmap_of_list [(''terminalRenderer'', terminalRenderer (JObj ?D))]))) = ?D"
    unfolding r renderer_part
    by (simp add: truthy_def, rule fmadd_of_list_same) (simp add: l initial_entries)
  have 3: "?D ++\<^sub>f fmap_of_list
             (overrides N (JObj ?D) ?D (integrationOf (JObj ?D) ?D) (statusOf (JObj ?D) ?D)) = ?D"
    unfolding overrides_def initial_domains initial_background initial_coalesce
      initial_integration initial_status_again
    by (rule fmadd_of_list_same) (auto simp: l initial_entries)
  show ?thesis
    unfolding migrateSettings_truthy [OF t initial_nested] mergedState_def 1 2 3
    by (rule refl)
qed




end
